theory Spec2Isabelle
  imports Complex_Main
begin

section \<open>Optimizer update operators (optimizer\_op-inl.h)\<close>

text \<open>
  A shallow embedding of the parameter-update kernels of
  \<^verbatim>\<open>src/operator/optimizer_op-inl.h\<close>: SGD, SGD with momentum, mixed-precision SGD,
  Adam and the two RMSProp variants, on dense and row-sparse storage.

  Conventions of the embedding.
  \<^item> The element type \<^verbatim>\<open>DType\<close> (and \<^verbatim>\<open>float\<close>) is the type \<open>real\<close>: arithmetic
    is exact. Rounding, infinities and NaN are outside the model, so a statement
    about these definitions is about finite inputs in exact arithmetic. The dense SGD
    kernel is embedded a second time with every operation rounded
    (\<open>SGDKernel_Map_rounded\<close>, last subsection of the definitions), for the one property
    that depends on the rounding. A \<^verbatim>\<open>static_cast\<close> of a
    hyperparameter to \<^verbatim>\<open>DType\<close> and the widening \<^verbatim>\<open>static_cast<float>\<close> are the
    identity; the narrowing of a float to \<^verbatim>\<open>DType\<close> in the mixed-precision kernels
    is a parameter \<open>to_DType\<close>.
  \<^item> Memory is one flat heap of cells, a pointer is the address of its first cell, and
    \<^verbatim>\<open>p[i]\<close> is the cell \<open>p + i\<close>. Two tensors alias when their pointers say so.
  \<^item> \<^verbatim>\<open>index_t\<close>, \<^verbatim>\<open>dim_t\<close> and the row indices are natural numbers (no wrap-around:
    a tensor has fewer cells than the index type has values).
  \<^item> A kernel argument that the source names like a hyperparameter field (\<^verbatim>\<open>lr\<close>,
    \<^verbatim>\<open>wd\<close>, ...) carries the prefix \<open>param_\<close>, as the arguments of the dense kernels do.
  \<^item> A fatal check (\<^verbatim>\<open>CHECK\<close>, \<^verbatim>\<open>LOG(FATAL)\<close>) ends the call with \<open>Fatal\<close>, carrying the
    memory as it is at that moment.
\<close>

subsection \<open>Memory, tensors and write modes\<close>

type_synonym heap = "nat \<Rightarrow> real"

text \<open>The write mode \<^verbatim>\<open>OpReqType\<close> of an output (declared in mxnet/op\_attr\_types.h).\<close>

datatype OpReqType = kNullOp | kWriteTo | kWriteInplace | kAddTo

text \<open>The storage kind of an array (declared in mxnet/ndarray.h).\<close>

datatype NDArrayStorageType = kUndefinedStorage | kDefaultStorage | kRowSparseStorage | kCSRStorage

text \<open>A dense tensor handle \<^verbatim>\<open>TBlob\<close>: the data pointer and the shape (\<^verbatim>\<open>shape_\<close>).\<close>

record TBlob =
  dptr :: nat
  blob_shape :: "nat list"

text \<open>\<^verbatim>\<open>TShape::Size()\<close> and \<^verbatim>\<open>TShape::ProdShape(dimstart, dimend)\<close>.\<close>

definition Size :: "nat list \<Rightarrow> nat" where
  "Size shp = prod_list shp"

definition ProdShape :: "nat list \<Rightarrow> nat \<Rightarrow> nat \<Rightarrow> nat" where
  "ProdShape shp dimstart dimend = prod_list (take (dimend - dimstart) (drop dimstart shp))"

text \<open>
  The machine state of the storage-aware entry points: the heap of element cells, and the
  row-index array (\<^verbatim>\<open>aux_data(rowsparse::kIdx)\<close>) of every row-sparse chunk, by handle.
\<close>

record state =
  mem :: heap
  aux :: "nat \<Rightarrow> nat list"

text \<open>
  An \<^verbatim>\<open>NDArray\<close> handle: its storage kind, its logical shape, the address of its values
  and the handle of its row-index array. Copies of a handle share both.
\<close>

record NDArray =
  storage_type :: NDArrayStorageType
  shape :: "nat list"
  data_dptr :: nat
  aux_handle :: nat

definition aux_data :: "NDArray \<Rightarrow> state \<Rightarrow> nat list" where
  "aux_data nd s = aux s (aux_handle nd)"

text \<open>
  Modelled from the spec: \<^verbatim>\<open>NDArray::storage_initialized()\<close> is not in this file. A sparse
  tensor is "uninitialized" when zero sparse rows are present.
\<close>

definition storage_initialized :: "NDArray \<Rightarrow> state \<Rightarrow> bool" where
  "storage_initialized nd s = (aux_data nd s \<noteq> [])"

text \<open>
  Modelled from the spec: \<^verbatim>\<open>NDArray::data()\<close> is not in this file. The values of a
  row-sparse tensor are logically shaped \<open>[num_sparse_rows, row_length]\<close>; a dense tensor's
  values have its shape.
\<close>

definition data :: "NDArray \<Rightarrow> state \<Rightarrow> TBlob" where
  "data nd s =
     \<lparr>dptr = data_dptr nd,
      blob_shape = (if storage_type nd = kRowSparseStorage
                then length (aux_data nd s) # tl (shape nd) else shape nd)\<rparr>"

datatype error = CheckFailed string | LogFatal string

datatype result = Done state | Fatal error state

text \<open>
  \<^verbatim>\<open>mshadow_op::clip::Map(x, bound)\<close>, as the hyperparameter documentation of this file
  gives it: \<^verbatim>\<open>grad = max(min(grad, clip_gradient), -clip_gradient)\<close>.
\<close>

definition clip :: "real \<Rightarrow> real \<Rightarrow> real" where
  "clip x bound = max (min x bound) (- bound)"

text \<open>\<^verbatim>\<open>mshadow_op::square\<close> and \<^verbatim>\<open>mshadow_op::square_root\<close>.\<close>

definition square :: "real \<Rightarrow> real" where
  "square a = a * a"

definition square_root :: "real \<Rightarrow> real" where
  "square_root a = sqrt a"

text \<open>
  Modelled from the spec: the macro \<^verbatim>\<open>KERNEL_ASSIGN(out, req, val)\<close> is not in this file.
  The write mode says how the output receives the computed value: overwrite,
  accumulate-into, in-place-required (an overwrite), or skip.
\<close>

definition KERNEL_ASSIGN :: "nat \<Rightarrow> OpReqType \<Rightarrow> real \<Rightarrow> heap \<Rightarrow> heap" where
  "KERNEL_ASSIGN a req val h =
     (case req of
        kNullOp \<Rightarrow> h
      | kWriteTo \<Rightarrow> h(a := val)
      | kWriteInplace \<Rightarrow> h(a := val)
      | kAddTo \<Rightarrow> h(a := h a + val))"

text \<open>
  Modelled from the spec: \<^verbatim>\<open>Kernel<OP, xpu>::Launch(s, N, args...)\<close> is not in this file. It
  accepts a work-item count and a per-item callable and runs \<^verbatim>\<open>OP::Map(i, args...)\<close> for
  every \<open>i < N\<close>; the items run here one after the other, in increasing order.
\<close>

definition Launch :: "nat \<Rightarrow> (nat \<Rightarrow> heap \<Rightarrow> heap) \<Rightarrow> heap \<Rightarrow> heap" where
  "Launch N Map h = fold Map [0..<N] h"

text \<open>
  An mshadow tensor statement \<^verbatim>\<open>dst = exp\<close> over \<open>n\<close> elements: element \<open>i\<close> of the
  expression is evaluated and stored into \<open>dst[i]\<close>, for every \<open>i < n\<close> in turn.
\<close>

definition tensor_assign :: "nat \<Rightarrow> nat \<Rightarrow> (heap \<Rightarrow> nat \<Rightarrow> real) \<Rightarrow> heap \<Rightarrow> heap" where
  "tensor_assign dst n expr h = Launch n (\<lambda>i h. h(dst + i := expr h i)) h"

text \<open>
  Modelled from the spec: the macro \<^verbatim>\<open>Assign(out, req, exp)\<close> is not in this file; it
  stores a tensor expression according to the write mode.
\<close>

definition Assign :: "nat \<Rightarrow> nat \<Rightarrow> OpReqType \<Rightarrow> (heap \<Rightarrow> nat \<Rightarrow> real) \<Rightarrow> heap \<Rightarrow> heap" where
  "Assign out n req expr h =
     (case req of
        kNullOp \<Rightarrow> h
      | kWriteTo \<Rightarrow> tensor_assign out n expr h
      | kWriteInplace \<Rightarrow> tensor_assign out n expr h
      | kAddTo \<Rightarrow> tensor_assign out n (\<lambda>h i. h (out + i) + expr h i) h)"

subsection \<open>SGD\<close>

record SGDParam =
  lr :: real
  wd :: real
  rescale_grad :: real
  clip_gradient :: real

definition SGDKernel_Map ::
  "nat \<Rightarrow> nat \<Rightarrow> nat \<Rightarrow> nat \<Rightarrow> real \<Rightarrow> real \<Rightarrow> real \<Rightarrow> real \<Rightarrow> OpReqType \<Rightarrow> heap \<Rightarrow> heap" where
  "SGDKernel_Map i out_data weight_data grad_data param_clip_gradient param_lr param_wd
       param_rescale_grad req h =
     (if param_clip_gradient \<ge> 0 then
        KERNEL_ASSIGN (out_data + i) req
          ((1 - param_lr * param_wd) * h (weight_data + i)
             - param_lr * clip (param_rescale_grad * h (grad_data + i)) param_clip_gradient) h
      else
        KERNEL_ASSIGN (out_data + i) req
          ((1 - param_lr * param_wd) * h (weight_data + i)
             - (param_lr * param_rescale_grad) * h (grad_data + i)) h)"

text \<open>
  The dense entry point: \<open>inputs = [weight, grad]\<close>, one output, one write mode (the arity
  is fixed where the operator is registered).
\<close>

definition SGDUpdate ::
  "SGDParam \<Rightarrow> TBlob list \<Rightarrow> OpReqType list \<Rightarrow> TBlob list \<Rightarrow> heap \<Rightarrow> heap" where
  "SGDUpdate param inputs req outputs h =
     (let weight = inputs ! 0; grad = inputs ! 1; out = outputs ! 0 in
      Launch (Size (blob_shape weight))
        (\<lambda>i. SGDKernel_Map i (dptr out) (dptr weight) (dptr grad)
               (SGDParam.clip_gradient param) (SGDParam.lr param) (SGDParam.wd param)
               (SGDParam.rescale_grad param) (req ! 0)) h)"

text \<open>
  Sparse gradient, dense weight: work item \<open>i\<close> is row \<open>i\<close> of the gradient. The row
  kernels are templates over the write mode; the drivers instantiate them through the macro
  \<^verbatim>\<open>MXNET_ASSIGN_REQ_SWITCH\<close> (not in this file), and the model hands the write mode of the
  call to the kernel as its first argument.
\<close>

definition SGDDnsRspKernel_Map ::
  "OpReqType \<Rightarrow> nat \<Rightarrow> nat \<Rightarrow> nat \<Rightarrow> nat \<Rightarrow> nat list \<Rightarrow> nat \<Rightarrow> real \<Rightarrow> real \<Rightarrow> real \<Rightarrow> real
     \<Rightarrow> heap \<Rightarrow> heap" where
  "SGDDnsRspKernel_Map req i row_length out weight grad_idx grad_val param_clip_gradient param_lr param_wd
       param_rescale_grad h =
     fold (\<lambda>j h.
        let data_i = grad_idx ! i * row_length + j;
            grad_i = i * row_length + j
        in if param_clip_gradient \<ge> 0 then
             KERNEL_ASSIGN (out + data_i) req
               ((1 - param_lr * param_wd) * h (weight + data_i)
                  - param_lr * clip (param_rescale_grad * h (grad_val + grad_i)) param_clip_gradient) h
           else
             KERNEL_ASSIGN (out + data_i) req
               ((1 - param_lr * param_wd) * h (weight + data_i)
                  - (param_lr * param_rescale_grad) * h (grad_val + grad_i)) h)
       [0..<row_length] h"

definition SGDUpdateDnsRspImpl ::
  "SGDParam \<Rightarrow> TBlob \<Rightarrow> NDArray \<Rightarrow> OpReqType \<Rightarrow> TBlob \<Rightarrow> state \<Rightarrow> result" where
  "SGDUpdateDnsRspImpl param weight grad req out s =
     (if storage_type grad \<noteq> kRowSparseStorage then
        Fatal (CheckFailed ''grad.storage_type() == kRowSparseStorage'') s
      else if \<not> storage_initialized grad s \<or> req = kNullOp then Done s
      else if req \<noteq> kWriteInplace then
        Fatal (CheckFailed ''kWriteInplace is expected for sparse sgd_mom_update'') s
      else if \<not> Size (blob_shape weight) > 0 then
        Fatal (CheckFailed ''weight.shape_.Size() > 0'') s
      else
        let weight_data = dptr weight;
            grad_idx = aux_data grad s;
            grad_val = dptr (data grad s);
            num_rows = length (aux_data grad s);
            row_length = ProdShape (blob_shape weight) 1 (length (blob_shape weight))
        in Done (s\<lparr>mem := Launch num_rows
                     (\<lambda>i. SGDDnsRspKernel_Map req i row_length (dptr out) weight_data grad_idx
                            grad_val (SGDParam.clip_gradient param) (SGDParam.lr param)
                            (SGDParam.wd param) (SGDParam.rescale_grad param)) (mem s)\<rparr>))"

text \<open>Sparse weight, dense gradient: work item \<open>i\<close> is the \<open>i\<close>-th stored row of the weight.\<close>

definition SGDRspDnsKernel_Map ::
  "OpReqType \<Rightarrow> nat \<Rightarrow> nat \<Rightarrow> nat \<Rightarrow> nat \<Rightarrow> nat \<Rightarrow> real \<Rightarrow> real \<Rightarrow> real \<Rightarrow> real \<Rightarrow> heap \<Rightarrow> heap" where
  "SGDRspDnsKernel_Map req i num_cols out weight grad param_clip_gradient param_lr param_wd param_rescale_grad h =
     (let offset = i * num_cols;
          contains_non_zeros = list_ex (\<lambda>j. h (grad + (offset + j)) \<noteq> 0) [0..<num_cols]
      in if \<not> contains_non_zeros then h
         else
           let rate = 1 - param_lr * param_wd in
           fold (\<lambda>j h.
              let index = offset + j
              in if param_clip_gradient \<ge> 0 then
                   KERNEL_ASSIGN (out + index) req
                     (rate * h (weight + index)
                        - param_lr * clip (param_rescale_grad * h (grad + index)) param_clip_gradient) h
                 else
                   KERNEL_ASSIGN (out + index) req
                     (rate * h (weight + index) - param_lr * param_rescale_grad * h (grad + index)) h)
             [0..<num_cols] h)"

text \<open>
  The collaborators that this file calls and does not define, taken as parameters: the
  check macro \<^verbatim>\<open>CHECK_RSP_ALL_ROWS_NON_ZERO\<close> (as the predicate it checks), the lazy
  zero-fill \<^verbatim>\<open>FillDnsZerosRspImpl\<close> of a row-sparse state tensor, and the
  densify-and-fallback facility \<^verbatim>\<open>FCompExFallback\<close> (inputs, write modes, outputs, the
  dense entry point, its name, the indices of the mutable inputs).
\<close>

record collaborators =
  RSP_ALL_ROWS_NON_ZERO :: "NDArray \<Rightarrow> state \<Rightarrow> bool"
  FillDnsZerosRspImpl :: "NDArray \<Rightarrow> state \<Rightarrow> state"
  FCompExFallback ::
    "NDArray list \<Rightarrow> OpReqType list \<Rightarrow> NDArray list
       \<Rightarrow> (TBlob list \<Rightarrow> OpReqType list \<Rightarrow> TBlob list \<Rightarrow> heap \<Rightarrow> heap)
       \<Rightarrow> string \<Rightarrow> nat list \<Rightarrow> state \<Rightarrow> result"

definition SGDUpdateRspDnsImpl ::
  "collaborators \<Rightarrow> SGDParam \<Rightarrow> NDArray \<Rightarrow> TBlob \<Rightarrow> OpReqType \<Rightarrow> NDArray \<Rightarrow> state \<Rightarrow> result" where
  "SGDUpdateRspDnsImpl env param weight grad req out s =
     (if \<not> RSP_ALL_ROWS_NON_ZERO env weight s then
        Fatal (CheckFailed ''SGDUpdate for RowSparse weights is only implemented for RowSparse weights with all rows containing non-zeros'') s
      else if storage_type weight \<noteq> kRowSparseStorage then
        Fatal (CheckFailed ''weight.storage_type() == kRowSparseStorage'') s
      else if req = kNullOp then Done s
      else if req \<noteq> kWriteInplace then
        Fatal (CheckFailed ''kWriteInplace is expected for sparse sgd_update'') s
      else if \<not> storage_initialized weight s then
        Fatal (CheckFailed ''weight.storage_initialized()'') s
      else
        let weight_data = dptr (data weight s);
            grad_data = dptr grad;
            num_rows = length (aux_data weight s);
            num_cols = ProdShape (shape weight) 1 (length (shape weight))
        in Done (s\<lparr>mem := Launch num_rows
                     (\<lambda>i. SGDRspDnsKernel_Map req i num_cols (dptr (data out s)) weight_data
                            grad_data (SGDParam.clip_gradient param) (SGDParam.lr param)
                            (SGDParam.wd param) (SGDParam.rescale_grad param)) (mem s)\<rparr>))"

definition SGDUpdateRspRspImpl ::
  "collaborators \<Rightarrow> SGDParam \<Rightarrow> NDArray \<Rightarrow> NDArray \<Rightarrow> OpReqType \<Rightarrow> NDArray \<Rightarrow> state \<Rightarrow> result" where
  "SGDUpdateRspRspImpl env param weight grad req out s =
     (if \<not> RSP_ALL_ROWS_NON_ZERO env weight s then
        Fatal (CheckFailed ''SGDUpdate for RowSparse weights is only implemented for RowSparse weights with all rows containing non-zeros'') s
      else
        let out_blob = data out s
        in SGDUpdateDnsRspImpl param (data weight s) grad req out_blob s)"

definition SGDUpdateEx ::
  "collaborators \<Rightarrow> SGDParam \<Rightarrow> NDArray list \<Rightarrow> OpReqType list \<Rightarrow> NDArray list \<Rightarrow> state \<Rightarrow> result" where
  "SGDUpdateEx env param inputs req outputs s =
     (let weight_stype = storage_type (inputs ! 0);
          grad_stype = storage_type (inputs ! 1)
      in if weight_stype = kRowSparseStorage \<and> grad_stype = kRowSparseStorage then
           let out = outputs ! 0
           in SGDUpdateRspRspImpl env param (inputs ! 0) (inputs ! 1) (req ! 0) out s
         else if weight_stype = kRowSparseStorage \<and> grad_stype = kDefaultStorage then
           let out = outputs ! 0
           in SGDUpdateRspDnsImpl env param (inputs ! 0) (data (inputs ! 1) s) (req ! 0) out s
         else
           FCompExFallback env inputs req outputs (SGDUpdate param) ''SGDUpdate'' [] s)"

subsection \<open>SGD with momentum\<close>

record SGDMomParam =
  lr :: real
  momentum :: real
  wd :: real
  rescale_grad :: real
  clip_gradient :: real

definition SGDMomKernel_Map ::
  "nat \<Rightarrow> nat \<Rightarrow> nat \<Rightarrow> nat \<Rightarrow> nat \<Rightarrow> real \<Rightarrow> real \<Rightarrow> real \<Rightarrow> real \<Rightarrow> real \<Rightarrow> OpReqType
     \<Rightarrow> heap \<Rightarrow> heap" where
  "SGDMomKernel_Map i out_data mom_data weight_data grad_data param_clip_gradient
       param_momentum param_lr param_wd param_rescale_grad req h =
     (let h1 =
        (if param_clip_gradient \<ge> 0 then
           h(mom_data + i :=
               param_momentum * h (mom_data + i)
                 - param_lr * param_wd * h (weight_data + i)
                 - param_lr
                   * clip (param_rescale_grad * h (grad_data + i)) param_clip_gradient)
         else
           h(mom_data + i :=
               param_momentum * h (mom_data + i)
                 - param_lr * param_wd * h (weight_data + i)
                 - param_lr * param_rescale_grad * h (grad_data + i)))
      in KERNEL_ASSIGN (out_data + i) req (h1 (weight_data + i) + h1 (mom_data + i)) h1)"

text \<open>The dense entry point: \<open>inputs = [weight, grad, mom]\<close>.\<close>

definition SGDMomUpdate ::
  "SGDMomParam \<Rightarrow> TBlob list \<Rightarrow> OpReqType list \<Rightarrow> TBlob list \<Rightarrow> heap \<Rightarrow> heap" where
  "SGDMomUpdate param inputs req outputs h =
     (let weight = inputs ! 0; grad = inputs ! 1; mom = inputs ! 2; out = outputs ! 0 in
      Launch (Size (blob_shape weight))
        (\<lambda>i. SGDMomKernel_Map i (dptr out) (dptr mom) (dptr weight) (dptr grad)
               (SGDMomParam.clip_gradient param) (SGDMomParam.momentum param)
               (SGDMomParam.lr param) (SGDMomParam.wd param)
               (SGDMomParam.rescale_grad param) (req ! 0)) h)"

subsection \<open>Mixed-precision SGD\<close>

text \<open>
  The master copy \<open>weight32\<close> and the momentum are \<^verbatim>\<open>float\<close>; weight, gradient and output
  are \<^verbatim>\<open>DType\<close>. \<open>to_DType\<close> is the narrowing conversion of the value stored into the
  output.
\<close>

definition MP_SGDKernel_Map ::
  "(real \<Rightarrow> real) \<Rightarrow> nat \<Rightarrow> nat \<Rightarrow> nat \<Rightarrow> nat \<Rightarrow> nat \<Rightarrow> real \<Rightarrow> real \<Rightarrow> real \<Rightarrow> real
     \<Rightarrow> OpReqType \<Rightarrow> heap \<Rightarrow> heap" where
  "MP_SGDKernel_Map to_DType i out_data weight_data grad_data weight32 param_clip_gradient
       param_lr param_wd param_rescale_grad req h =
     (if param_clip_gradient \<ge> 0 then
        let w = h (weight32 + i);
            w = (1 - param_lr * param_wd) * w
                  - param_lr * clip (param_rescale_grad * h (grad_data + i)) param_clip_gradient;
            h1 = h(weight32 + i := w)
        in KERNEL_ASSIGN (out_data + i) req (to_DType w) h1
      else
        let w = h (weight32 + i);
            w = (1 - param_lr * param_wd) * w
                  - (param_lr * param_rescale_grad) * h (grad_data + i);
            h1 = h(weight32 + i := w)
        in KERNEL_ASSIGN (out_data + i) req (to_DType w) h1)"

text \<open>The dense entry point: \<open>inputs = [weight, grad, weight32]\<close>.\<close>

definition MP_SGDUpdate ::
  "(real \<Rightarrow> real) \<Rightarrow> SGDParam \<Rightarrow> TBlob list \<Rightarrow> OpReqType list \<Rightarrow> TBlob list \<Rightarrow> heap \<Rightarrow> heap" where
  "MP_SGDUpdate to_DType param inputs req outputs h =
     (let weight = inputs ! 0; grad = inputs ! 1; weight32 = inputs ! 2; out = outputs ! 0 in
      Launch (Size (blob_shape weight))
        (\<lambda>i. MP_SGDKernel_Map to_DType i (dptr out) (dptr weight) (dptr grad) (dptr weight32)
               (SGDParam.clip_gradient param) (SGDParam.lr param) (SGDParam.wd param)
               (SGDParam.rescale_grad param) (req ! 0)) h)"

definition MP_SGDMomKernel_Map ::
  "(real \<Rightarrow> real) \<Rightarrow> nat \<Rightarrow> nat \<Rightarrow> nat \<Rightarrow> nat \<Rightarrow> nat \<Rightarrow> nat \<Rightarrow> real \<Rightarrow> real \<Rightarrow> real \<Rightarrow> real
     \<Rightarrow> real \<Rightarrow> OpReqType \<Rightarrow> heap \<Rightarrow> heap" where
  "MP_SGDMomKernel_Map to_DType i out_data mom_data weight_data grad_data weight32
       param_clip_gradient param_momentum param_lr param_wd param_rescale_grad req h =
     (let w = h (weight32 + i);
          mom = h (mom_data + i);
          mom =
            (if param_clip_gradient \<ge> 0 then
               param_momentum * mom
                 - param_lr * param_wd * w
                 - param_lr
                   * clip (param_rescale_grad * h (grad_data + i)) param_clip_gradient
             else
               param_momentum * mom
                 - param_lr * param_wd * w
                 - param_lr * param_rescale_grad * h (grad_data + i));
          h1 = h(mom_data + i := mom);
          w = w + mom;
          h2 = h1(weight32 + i := w)
      in KERNEL_ASSIGN (out_data + i) req (to_DType w) h2)"

text \<open>The dense entry point: \<open>inputs = [weight, grad, mom, weight32]\<close>.\<close>

definition MP_SGDMomUpdate ::
  "(real \<Rightarrow> real) \<Rightarrow> SGDMomParam \<Rightarrow> TBlob list \<Rightarrow> OpReqType list \<Rightarrow> TBlob list \<Rightarrow> heap \<Rightarrow> heap" where
  "MP_SGDMomUpdate to_DType param inputs req outputs h =
     (let weight = inputs ! 0; grad = inputs ! 1; mom = inputs ! 2; weight32 = inputs ! 3;
          out = outputs ! 0 in
      Launch (Size (blob_shape weight))
        (\<lambda>i. MP_SGDMomKernel_Map to_DType i (dptr out) (dptr mom) (dptr weight) (dptr grad)
               (dptr weight32) (SGDMomParam.clip_gradient param) (SGDMomParam.momentum param)
               (SGDMomParam.lr param) (SGDMomParam.wd param)
               (SGDMomParam.rescale_grad param) (req ! 0)) h)"

subsection \<open>SGD with momentum on row-sparse storage\<close>

definition SGDMomDnsRspDnsKernel_Map ::
  "OpReqType \<Rightarrow> nat \<Rightarrow> nat \<Rightarrow> nat \<Rightarrow> nat \<Rightarrow> nat \<Rightarrow> nat list \<Rightarrow> nat \<Rightarrow> real \<Rightarrow> real \<Rightarrow> real
     \<Rightarrow> real \<Rightarrow> real \<Rightarrow> heap \<Rightarrow> heap" where
  "SGDMomDnsRspDnsKernel_Map req i row_length out_data mom_data weight_data grad_idx grad_data
       param_clip_gradient param_momentum param_lr param_wd param_rescale_grad h =
     (let rate = param_lr * param_wd in
      fold (\<lambda>j h.
         let data_i = grad_idx ! i * row_length + j;
             grad_i = i * row_length + j;
             h1 =
               (if param_clip_gradient \<ge> 0 then
                  h(mom_data + data_i :=
                      param_momentum * h (mom_data + data_i)
                        - rate * h (weight_data + data_i)
                        - param_lr
                          * clip (param_rescale_grad * h (grad_data + grad_i))
                              param_clip_gradient)
                else
                  h(mom_data + data_i :=
                      param_momentum * h (mom_data + data_i)
                        - rate * h (weight_data + data_i)
                        - param_lr * param_rescale_grad * h (grad_data + grad_i)))
         in KERNEL_ASSIGN (out_data + data_i) req
              (h1 (weight_data + data_i) + h1 (mom_data + data_i)) h1)
        [0..<row_length] h)"

definition SGDMomUpdateDnsRspDnsImpl ::
  "SGDMomParam \<Rightarrow> TBlob \<Rightarrow> NDArray \<Rightarrow> TBlob \<Rightarrow> OpReqType \<Rightarrow> TBlob \<Rightarrow> state \<Rightarrow> result" where
  "SGDMomUpdateDnsRspDnsImpl param weight grad mom req out s =
     (if \<not> storage_initialized grad s \<or> req = kNullOp then Done s
      else if req \<noteq> kWriteInplace then
        Fatal (CheckFailed ''kWriteInplace is expected for sparse sgd_mom_update'') s
      else if \<not> Size (blob_shape weight) > 0 then
        Fatal (CheckFailed ''weight.shape_.Size() > 0'') s
      else if \<not> Size (blob_shape mom) > 0 then
        Fatal (CheckFailed ''mom.shape_.Size() > 0'') s
      else
        let weight_data = dptr weight;
            grad_idx = aux_data grad s;
            grad_val = dptr (data grad s);
            mom_data = dptr mom;
            out_data = dptr out;
            num_rows = length (aux_data grad s);
            row_length = ProdShape (blob_shape weight) 1 (length (blob_shape weight))
        in Done (s\<lparr>mem := Launch num_rows
                     (\<lambda>i. SGDMomDnsRspDnsKernel_Map req i row_length out_data mom_data
                            weight_data grad_idx grad_val (SGDMomParam.clip_gradient param)
                            (SGDMomParam.momentum param) (SGDMomParam.lr param)
                            (SGDMomParam.wd param) (SGDMomParam.rescale_grad param))
                     (mem s)\<rparr>))"

definition SGDMomRspDnsKernel_Map ::
  "OpReqType \<Rightarrow> nat \<Rightarrow> nat \<Rightarrow> nat \<Rightarrow> nat \<Rightarrow> nat \<Rightarrow> nat \<Rightarrow> real \<Rightarrow> real \<Rightarrow> real \<Rightarrow> real \<Rightarrow> real
     \<Rightarrow> heap \<Rightarrow> heap" where
  "SGDMomRspDnsKernel_Map req i num_cols out mom weight grad param_clip_gradient
       param_momentum param_lr param_wd param_rescale_grad h =
     (let offset = i * num_cols;
          contains_non_zeros = list_ex (\<lambda>j. h (grad + (offset + j)) \<noteq> 0) [0..<num_cols]
      in if \<not> contains_non_zeros then h
         else
           let rate = param_lr * param_wd in
           fold (\<lambda>j h.
              let index = offset + j;
                  h1 =
                    (if param_clip_gradient \<ge> 0 then
                       h(mom + index :=
                           param_momentum * h (mom + index) - rate * h (weight + index)
                             - param_lr
                               * clip (param_rescale_grad * h (grad + index))
                                   param_clip_gradient)
                     else
                       h(mom + index :=
                           param_momentum * h (mom + index) - rate * h (weight + index)
                             - param_lr * param_rescale_grad * h (grad + index)))
              in KERNEL_ASSIGN (out + index) req (h1 (weight + index) + h1 (mom + index)) h1)
             [0..<num_cols] h)"

definition SGDMomUpdateRspDnsImpl ::
  "collaborators \<Rightarrow> SGDMomParam \<Rightarrow> NDArray \<Rightarrow> TBlob \<Rightarrow> NDArray \<Rightarrow> OpReqType \<Rightarrow> NDArray
     \<Rightarrow> state \<Rightarrow> result" where
  "SGDMomUpdateRspDnsImpl env param weight grad mom req out s =
     (if \<not> RSP_ALL_ROWS_NON_ZERO env weight s then
        Fatal (CheckFailed ''SGDMomUpdate for RowSparse weights is only implemented for RowSparse weights with all rows containing non-zeros'') s
      else if storage_type weight \<noteq> kRowSparseStorage then
        Fatal (CheckFailed ''weight.storage_type() == kRowSparseStorage'') s
      else if req = kNullOp then Done s
      else if req \<noteq> kWriteInplace then
        Fatal (CheckFailed ''kWriteInplace is expected for sparse sgd_mom_update'') s
      else if \<not> storage_initialized weight s then
        Fatal (CheckFailed ''weight.storage_initialized()'') s
      else
        let s1 = (if \<not> storage_initialized mom s then FillDnsZerosRspImpl env mom s else s);
            weight_data = dptr (data weight s1);
            grad_data = dptr grad;
            mom_data = dptr (data mom s1);
            num_rows = length (aux_data weight s1);
            num_cols = ProdShape (shape weight) 1 (length (shape weight))
        in Done (s1\<lparr>mem := Launch num_rows
                      (\<lambda>i. SGDMomRspDnsKernel_Map req i num_cols (dptr (data out s1)) mom_data
                             weight_data grad_data (SGDMomParam.clip_gradient param)
                             (SGDMomParam.momentum param) (SGDMomParam.lr param)
                             (SGDMomParam.wd param) (SGDMomParam.rescale_grad param))
                      (mem s1)\<rparr>))"

definition SGDMomUpdateRspRspRspImpl ::
  "collaborators \<Rightarrow> SGDMomParam \<Rightarrow> NDArray \<Rightarrow> NDArray \<Rightarrow> NDArray \<Rightarrow> OpReqType \<Rightarrow> NDArray
     \<Rightarrow> state \<Rightarrow> result" where
  "SGDMomUpdateRspRspRspImpl env param weight grad mom req out s =
     (if \<not> RSP_ALL_ROWS_NON_ZERO env weight s then
        Fatal (CheckFailed ''SGDMomUpdate for RowSparse weights is only implemented for RowSparse weights with all rows containing non-zeros'') s
      else
        let s1 = (if \<not> storage_initialized mom s then FillDnsZerosRspImpl env mom s else s);
            out_blob = data out s1
        in SGDMomUpdateDnsRspDnsImpl param (data weight s1) grad (data mom s1) req out_blob s1)"

definition SGDMomUpdateEx ::
  "collaborators \<Rightarrow> SGDMomParam \<Rightarrow> NDArray list \<Rightarrow> OpReqType list \<Rightarrow> NDArray list \<Rightarrow> state
     \<Rightarrow> result" where
  "SGDMomUpdateEx env param inputs req outputs s =
     (let weight = inputs ! 0;
          grad = inputs ! 1;
          mom = inputs ! 2;
          weight_stype = storage_type weight;
          grad_stype = storage_type grad;
          mom_stype = storage_type mom
      in if weight_stype \<noteq> mom_stype then
           Fatal (CheckFailed ''Inconsistent storage type detected between mom.stype and weight.stype'') s
         else if weight_stype = kRowSparseStorage \<and> grad_stype = kRowSparseStorage \<and>
                 mom_stype = kRowSparseStorage then
           let out = outputs ! 0
           in SGDMomUpdateRspRspRspImpl env param weight grad mom (req ! 0) out s
         else if weight_stype = kRowSparseStorage \<and> grad_stype = kDefaultStorage \<and>
                 mom_stype = kRowSparseStorage then
           let out = outputs ! 0
           in SGDMomUpdateRspDnsImpl env param weight (data grad s) mom (req ! 0) out s
         else
           FCompExFallback env inputs req outputs (SGDMomUpdate param) ''SGDMomUpdate'' [2] s)"

subsection \<open>Adam\<close>

record AdamParam =
  lr :: real
  beta1 :: real
  beta2 :: real
  epsilon :: real
  wd :: real
  rescale_grad :: real
  clip_gradient :: real

text \<open>
  The dense entry point, \<open>inputs = [weight, grad, mean, var]\<close>: four tensor statements, the
  first of which stores into the gradient tensor.
\<close>

definition AdamUpdate ::
  "AdamParam \<Rightarrow> TBlob list \<Rightarrow> OpReqType list \<Rightarrow> TBlob list \<Rightarrow> heap \<Rightarrow> heap" where
  "AdamUpdate param inputs req outputs h =
     (let weight = dptr (inputs ! 0); grad = dptr (inputs ! 1); mean = dptr (inputs ! 2);
          var = dptr (inputs ! 3); out = dptr (outputs ! 0);
          h1 = tensor_assign grad (Size (blob_shape (inputs ! 1)))
                 (\<lambda>h i. AdamParam.rescale_grad param * h (grad + i)
                          + AdamParam.wd param * h (weight + i)) h;
          h3 =
            (if AdamParam.clip_gradient param \<ge> 0 then
               let h2 = tensor_assign mean (Size (blob_shape (inputs ! 2)))
                          (\<lambda>h i. AdamParam.beta1 param * h (mean + i)
                                   + (1 - AdamParam.beta1 param)
                                     * clip (h (grad + i)) (AdamParam.clip_gradient param)) h1
               in tensor_assign var (Size (blob_shape (inputs ! 3)))
                    (\<lambda>h i. AdamParam.beta2 param * h (var + i)
                             + (1 - AdamParam.beta2 param)
                               * square (clip (h (grad + i)) (AdamParam.clip_gradient param))) h2
             else
               let h2 = tensor_assign mean (Size (blob_shape (inputs ! 2)))
                          (\<lambda>h i. AdamParam.beta1 param * h (mean + i)
                                   + (1 - AdamParam.beta1 param) * h (grad + i)) h1
               in tensor_assign var (Size (blob_shape (inputs ! 3)))
                    (\<lambda>h i. AdamParam.beta2 param * h (var + i)
                             + (1 - AdamParam.beta2 param) * square (h (grad + i))) h2)
      in Assign out (Size (blob_shape (outputs ! 0))) (req ! 0)
           (\<lambda>h i. h (weight + i)
                    - AdamParam.lr param * h (mean + i)
                      / (square_root (h (var + i)) + AdamParam.epsilon param)) h3)"

text \<open>Sparse gradient, dense weight, mean and var: work item \<open>i\<close> is row \<open>i\<close> of the gradient.\<close>

definition AdamDnsRspDnsKernel_Map ::
  "OpReqType \<Rightarrow> nat \<Rightarrow> nat \<Rightarrow> nat \<Rightarrow> nat \<Rightarrow> nat \<Rightarrow> nat \<Rightarrow> nat list \<Rightarrow> nat \<Rightarrow> real \<Rightarrow> real
     \<Rightarrow> real \<Rightarrow> real \<Rightarrow> real \<Rightarrow> real \<Rightarrow> real \<Rightarrow> heap \<Rightarrow> heap" where
  "AdamDnsRspDnsKernel_Map req i row_length out_data mean_data var_data weight_data grad_idx
       grad_data param_clip_gradient param_beta1 param_beta2 param_lr param_wd param_epsilon
       param_rescale_grad h =
     (let row_offset = grad_idx ! i * row_length in
      fold (\<lambda>j h.
         let data_i = row_offset + j;
             grad_i = i * row_length + j;
             grad_rescaled = h (grad_data + grad_i) * param_rescale_grad
                               + h (weight_data + data_i) * param_wd;
             h2 =
               (if param_clip_gradient \<ge> 0 then
                  let h1 = h(mean_data + data_i :=
                               param_beta1 * h (mean_data + data_i)
                                 + (1 - param_beta1) * clip grad_rescaled param_clip_gradient)
                  in h1(var_data + data_i :=
                          param_beta2 * h1 (var_data + data_i)
                            + (1 - param_beta2)
                              * square (clip grad_rescaled param_clip_gradient))
                else
                  let h1 = h(mean_data + data_i :=
                               param_beta1 * h (mean_data + data_i)
                                 + (1 - param_beta1) * grad_rescaled)
                  in h1(var_data + data_i :=
                          param_beta2 * h1 (var_data + data_i)
                            + (1 - param_beta2) * grad_rescaled * grad_rescaled))
         in KERNEL_ASSIGN (out_data + data_i) req
              (h2 (weight_data + data_i)
                 - param_lr * h2 (mean_data + data_i)
                   / (square_root (h2 (var_data + data_i)) + param_epsilon)) h2)
        [0..<row_length] h)"

definition AdamUpdateDnsRspDnsImpl ::
  "AdamParam \<Rightarrow> TBlob \<Rightarrow> NDArray \<Rightarrow> TBlob \<Rightarrow> TBlob \<Rightarrow> OpReqType \<Rightarrow> TBlob \<Rightarrow> state \<Rightarrow> result" where
  "AdamUpdateDnsRspDnsImpl param weight grad mean var req out s =
     (if \<not> storage_initialized grad s \<or> req = kNullOp then Done s
      else if req \<noteq> kWriteInplace then
        Fatal (CheckFailed ''kWriteInplace is expected for sparse adam_update'') s
      else if \<not> Size (blob_shape weight) > 0 then
        Fatal (CheckFailed ''weight.shape_.Size() > 0'') s
      else if \<not> Size (blob_shape mean) > 0 then
        Fatal (CheckFailed ''mean.shape_.Size() > 0'') s
      else if \<not> Size (blob_shape var) > 0 then
        Fatal (CheckFailed ''var.shape_.Size() > 0'') s
      else
        let weight_data = dptr weight;
            grad_idx = aux_data grad s;
            grad_val = dptr (data grad s);
            mean_data = dptr mean;
            var_data = dptr var;
            out_data = dptr out;
            num_rows = length (aux_data grad s);
            row_length = ProdShape (blob_shape weight) 1 (length (blob_shape weight))
        in Done (s\<lparr>mem := Launch num_rows
                     (\<lambda>i. AdamDnsRspDnsKernel_Map req i row_length out_data mean_data var_data
                            weight_data grad_idx grad_val (AdamParam.clip_gradient param)
                            (AdamParam.beta1 param) (AdamParam.beta2 param)
                            (AdamParam.lr param) (AdamParam.wd param)
                            (AdamParam.epsilon param) (AdamParam.rescale_grad param))
                     (mem s)\<rparr>))"

definition AdamUpdateRspRspRspImpl ::
  "collaborators \<Rightarrow> AdamParam \<Rightarrow> NDArray \<Rightarrow> NDArray \<Rightarrow> NDArray \<Rightarrow> NDArray \<Rightarrow> OpReqType
     \<Rightarrow> NDArray \<Rightarrow> state \<Rightarrow> result" where
  "AdamUpdateRspRspRspImpl env param weight grad mean var req out s =
     (if \<not> RSP_ALL_ROWS_NON_ZERO env weight s then
        Fatal (CheckFailed ''AdamUpdate for RowSparse weights is only implemented for RowSparse weights with all rows containing non-zeros'') s
      else
        let s1 = (if \<not> storage_initialized mean s then FillDnsZerosRspImpl env mean s else s);
            s2 = (if \<not> storage_initialized var s1 then FillDnsZerosRspImpl env var s1 else s1);
            out_blob = data out s2
        in AdamUpdateDnsRspDnsImpl param (data weight s2) grad (data mean s2) (data var s2)
             req out_blob s2)"

text \<open>The storage-aware entry point: \<open>inputs = [weight, grad, mean, var]\<close>.\<close>

definition AdamUpdateEx ::
  "collaborators \<Rightarrow> AdamParam \<Rightarrow> NDArray list \<Rightarrow> OpReqType list \<Rightarrow> NDArray list \<Rightarrow> state
     \<Rightarrow> result" where
  "AdamUpdateEx env param inputs req outputs s =
     (let weight_stype = storage_type (inputs ! 0);
          grad_stype = storage_type (inputs ! 1);
          mean_stype = storage_type (inputs ! 2);
          var_stype = storage_type (inputs ! 3);
          out_stype = storage_type (outputs ! 0)
      in if mean_stype \<noteq> weight_stype then
           Fatal (CheckFailed ''Inconsistent storage type detected between  mean.stype and weight.stype'') s
         else if var_stype \<noteq> weight_stype then
           Fatal (CheckFailed ''Inconsistent storage type detected between  var.stype and weight.stype'') s
         else if weight_stype = kRowSparseStorage \<and> mean_stype = kRowSparseStorage \<and>
                 var_stype = kRowSparseStorage \<and> grad_stype = kRowSparseStorage \<and>
                 out_stype = kRowSparseStorage then
           let out = outputs ! 0
           in AdamUpdateRspRspRspImpl env param (inputs ! 0) (inputs ! 1) (inputs ! 2)
                (inputs ! 3) (req ! 0) out s
         else
           Fatal (LogFatal ''Unexpected storage types'') s)"

subsection \<open>RMSProp\<close>

record RMSPropAlexParam =
  lr :: real
  gamma1 :: real
  gamma2 :: real
  epsilon :: real
  wd :: real
  rescale_grad :: real
  clip_gradient :: real
  clip_weights :: real

text \<open>
  The version of Graves (2013), \<open>inputs = [weight, grad, state_n, state_g, delta]\<close>.
\<close>

definition RMSPropAlexUpdate ::
  "RMSPropAlexParam \<Rightarrow> TBlob list \<Rightarrow> OpReqType list \<Rightarrow> TBlob list \<Rightarrow> heap \<Rightarrow> heap" where
  "RMSPropAlexUpdate param inputs req outputs h =
     (let weight = dptr (inputs ! 0); grad = dptr (inputs ! 1); state_n = dptr (inputs ! 2);
          state_g = dptr (inputs ! 3); delta = dptr (inputs ! 4); out = dptr (outputs ! 0);
          n_grad = Size (blob_shape (inputs ! 1)); n_state_n = Size (blob_shape (inputs ! 2));
          n_state_g = Size (blob_shape (inputs ! 3)); n_delta = Size (blob_shape (inputs ! 4));
          n_out = Size (blob_shape (outputs ! 0));
          c = RMSPropAlexParam.clip_gradient param;
          h1 = tensor_assign grad n_grad
                 (\<lambda>h i. RMSPropAlexParam.rescale_grad param * h (grad + i)
                          + RMSPropAlexParam.wd param * h (weight + i)) h;
          h4 =
            (if c \<ge> 0 then
               let h2 = tensor_assign state_n n_state_n
                          (\<lambda>h i. (1 - RMSPropAlexParam.gamma1 param)
                                     * clip (h (grad + i)) c * clip (h (grad + i)) c
                                   + RMSPropAlexParam.gamma1 param * h (state_n + i)) h1;
                   h3 = tensor_assign state_g n_state_g
                          (\<lambda>h i. (1 - RMSPropAlexParam.gamma1 param) * clip (h (grad + i)) c
                                   + RMSPropAlexParam.gamma1 param * h (state_g + i)) h2
               in tensor_assign delta n_delta
                    (\<lambda>h i. RMSPropAlexParam.gamma2 param * h (delta + i)
                             - RMSPropAlexParam.lr param
                               * (clip (h (grad + i)) c
                                  / square_root (h (state_n + i)
                                       - h (state_g + i) * h (state_g + i)
                                       + RMSPropAlexParam.epsilon param))) h3
             else
               let h2 = tensor_assign state_n n_state_n
                          (\<lambda>h i. (1 - RMSPropAlexParam.gamma1 param)
                                     * (h (grad + i) * h (grad + i))
                                   + RMSPropAlexParam.gamma1 param * h (state_n + i)) h1;
                   h3 = tensor_assign state_g n_state_g
                          (\<lambda>h i. (1 - RMSPropAlexParam.gamma1 param) * h (grad + i)
                                   + RMSPropAlexParam.gamma1 param * h (state_g + i)) h2
               in tensor_assign delta n_delta
                    (\<lambda>h i. RMSPropAlexParam.gamma2 param * h (delta + i)
                             - RMSPropAlexParam.lr param
                               * (h (grad + i)
                                  / square_root (h (state_n + i)
                                       - h (state_g + i) * h (state_g + i)
                                       + RMSPropAlexParam.epsilon param))) h3)
      in if RMSPropAlexParam.clip_weights param \<ge> 0 then
           Assign out n_out (req ! 0)
             (\<lambda>h i. clip (h (weight + i) + h (delta + i)) (RMSPropAlexParam.clip_weights param)) h4
         else
           Assign out n_out (req ! 0) (\<lambda>h i. h (weight + i) + h (delta + i)) h4)"

record RMSPropParam =
  lr :: real
  gamma1 :: real
  epsilon :: real
  wd :: real
  rescale_grad :: real
  clip_gradient :: real
  clip_weights :: real

text \<open>The version of Tieleman and Hinton (2012), \<open>inputs = [weight, grad, state_n]\<close>.\<close>

definition RMSPropUpdate ::
  "RMSPropParam \<Rightarrow> TBlob list \<Rightarrow> OpReqType list \<Rightarrow> TBlob list \<Rightarrow> heap \<Rightarrow> heap" where
  "RMSPropUpdate param inputs req outputs h =
     (let weight = dptr (inputs ! 0); grad = dptr (inputs ! 1); state_n = dptr (inputs ! 2);
          out = dptr (outputs ! 0);
          n_grad = Size (blob_shape (inputs ! 1)); n_state_n = Size (blob_shape (inputs ! 2));
          n_out = Size (blob_shape (outputs ! 0));
          c = RMSPropParam.clip_gradient param;
          h1 = tensor_assign grad n_grad
                 (\<lambda>h i. RMSPropParam.rescale_grad param * h (grad + i)
                          + RMSPropParam.wd param * h (weight + i)) h
      in if c \<ge> 0 then
           let h2 = tensor_assign state_n n_state_n
                      (\<lambda>h i. (1 - RMSPropParam.gamma1 param)
                                 * clip (h (grad + i)) c * clip (h (grad + i)) c
                               + RMSPropParam.gamma1 param * h (state_n + i)) h1
           in if RMSPropParam.clip_weights param \<ge> 0 then
                Assign out n_out (req ! 0)
                  (\<lambda>h i. clip (h (weight + i)
                                 - RMSPropParam.lr param
                                   * (clip (h (grad + i)) c
                                      / square_root (h (state_n + i)
                                                       + RMSPropParam.epsilon param)))
                            (RMSPropParam.clip_weights param)) h2
              else
                Assign out n_out (req ! 0)
                  (\<lambda>h i. h (weight + i)
                           - RMSPropParam.lr param
                             * (clip (h (grad + i)) c
                                / square_root (h (state_n + i)
                                                 + RMSPropParam.epsilon param))) h2
         else
           let h2 = tensor_assign state_n n_state_n
                      (\<lambda>h i. (1 - RMSPropParam.gamma1 param) * (h (grad + i) * h (grad + i))
                               + RMSPropParam.gamma1 param * h (state_n + i)) h1
           in if RMSPropParam.clip_weights param \<ge> 0 then
                Assign out n_out (req ! 0)
                  (\<lambda>h i. clip (h (weight + i)
                                 - RMSPropParam.lr param
                                   * (h (grad + i)
                                      / square_root (h (state_n + i)
                                                       + RMSPropParam.epsilon param)))
                            (RMSPropParam.clip_weights param)) h2
              else
                Assign out n_out (req ! 0)
                  (\<lambda>h i. h (weight + i)
                           - RMSPropParam.lr param
                             * (h (grad + i)
                                / square_root (h (state_n + i)
                                                 + RMSPropParam.epsilon param))) h2)"

subsection \<open>Vocabulary of the statements\<close>

text \<open>
  Two regions of memory, \<open>n\<close> cells at \<open>p\<close> and \<open>m\<close> cells at \<open>q\<close>, that share no cell.
\<close>

definition separate :: "nat \<Rightarrow> nat \<Rightarrow> nat \<Rightarrow> nat \<Rightarrow> bool" where
  "separate p n q m = (p + n \<le> q \<or> q + m \<le> p)"

text \<open>
  The specification's clipping rule, in its words: a value is clipped to
  \<open>[-bound, bound]\<close> iff \<open>bound \<ge> 0\<close>; a negative bound disables clipping.
\<close>

definition clipped :: "real \<Rightarrow> real \<Rightarrow> real" where
  "clipped bound x = (if bound \<ge> 0 then max (min x bound) (- bound) else x)"

text \<open>
  The specification's \<^emph>\<open>effective gradient\<close> of SGD, SGD with momentum and mixed-precision
  SGD: \<open>rescale_grad * grad\<close>, clipped iff \<open>clip_gradient \<ge> 0\<close>.
\<close>

definition effective_gradient :: "real \<Rightarrow> real \<Rightarrow> real \<Rightarrow> real" where
  "effective_gradient param_rescale_grad param_clip_gradient g =
     clipped param_clip_gradient (param_rescale_grad * g)"

text \<open>
  The specification's update rules for one element, stated on the cells involved: \<open>out\<close>
  receives the new weight through the write mode, the state cells are updated in place,
  \<open>w\<close> is the weight cell and \<open>g\<close> the gradient cell.
  \<^item> SGD: \<open>new_weight = (1 - lr * wd) * weight - lr * effective_gradient\<close>.
  \<^item> SGD with momentum: \<open>mom' = momentum * mom - lr * wd * weight - lr * effective_gradient\<close>,
    \<open>new_weight = weight + mom'\<close>.
  \<^item> Adam: \<open>grad' = rescale_grad * grad + wd * weight\<close>, clipped if enabled;
    \<open>mean' = beta1 * mean + (1 - beta1) * grad'\<close>; \<open>var' = beta2 * var + (1 - beta2) * grad'^2\<close>;
    \<open>new_weight = weight - lr * mean' / (sqrt(var') + epsilon)\<close>.
\<close>

definition SGD_step ::
  "real \<Rightarrow> real \<Rightarrow> real \<Rightarrow> real \<Rightarrow> OpReqType \<Rightarrow> nat \<Rightarrow> nat \<Rightarrow> nat \<Rightarrow> heap \<Rightarrow> heap" where
  "SGD_step param_clip_gradient param_lr param_wd param_rescale_grad req out w g h =
     KERNEL_ASSIGN out req
       ((1 - param_lr * param_wd) * h w
          - param_lr * effective_gradient param_rescale_grad param_clip_gradient (h g)) h"

definition SGDMom_step ::
  "real \<Rightarrow> real \<Rightarrow> real \<Rightarrow> real \<Rightarrow> real \<Rightarrow> OpReqType \<Rightarrow> nat \<Rightarrow> nat \<Rightarrow> nat \<Rightarrow> nat
     \<Rightarrow> heap \<Rightarrow> heap" where
  "SGDMom_step param_clip_gradient param_momentum param_lr param_wd param_rescale_grad req
       out mom w g h =
     (let h1 = h(mom := param_momentum * h mom - param_lr * param_wd * h w
                          - param_lr
                            * effective_gradient param_rescale_grad param_clip_gradient (h g))
      in KERNEL_ASSIGN out req (h1 w + h1 mom) h1)"

definition Adam_step ::
  "real \<Rightarrow> real \<Rightarrow> real \<Rightarrow> real \<Rightarrow> real \<Rightarrow> real \<Rightarrow> real \<Rightarrow> OpReqType
     \<Rightarrow> nat \<Rightarrow> nat \<Rightarrow> nat \<Rightarrow> nat \<Rightarrow> nat \<Rightarrow> heap \<Rightarrow> heap" where
  "Adam_step param_clip_gradient param_beta1 param_beta2 param_lr param_wd param_epsilon
       param_rescale_grad req out mean var w g h =
     (let grad' = clipped param_clip_gradient (param_rescale_grad * h g + param_wd * h w);
          h1 = h(mean := param_beta1 * h mean + (1 - param_beta1) * grad');
          h2 = h1(var := param_beta2 * h1 var + (1 - param_beta2) * (grad' * grad'))
      in KERNEL_ASSIGN out req
           (h2 w - param_lr * h2 mean / (sqrt (h2 var) + param_epsilon)) h2)"

text \<open>The memory a call leaves behind, whether it returned or failed.\<close>

fun final_state :: "result \<Rightarrow> state" where
  "final_state (Done s) = s"
| "final_state (Fatal e s) = s"

fun is_fatal :: "result \<Rightarrow> bool" where
  "is_fatal (Done s) = False"
| "is_fatal (Fatal e s) = True"

subsection \<open>Dense SGD in rounded arithmetic\<close>

text \<open>
  Floating-point arithmetic delivers, for every operation, the rounding of the exact
  result to the element type. \<open>float32_round\<close> is that rounding for \<^verbatim>\<open>float\<close> (IEEE 754
  binary32, round to nearest, ties to even): a value of binade \<open>e\<close>, that is with
  \<open>2^e \<le> |x| < 2^(e+1)\<close>, is rounded to a multiple of \<open>2^(e - 23)\<close>, and below \<open>2^(-126)\<close>
  (subnormal numbers) to a multiple of \<open>2^(-149)\<close>. The search for the binade runs through
  at most 300 doublings or halvings, more than the exponent range of the format needs.
  Overflow to infinity (a result of magnitude \<open>2^128\<close> or more) is not modelled.
\<close>

definition round_to_even :: "real \<Rightarrow> int" where
  "round_to_even y =
     (let n = \<lfloor>y\<rfloor>; d = y - of_int n in
      if d < 1/2 then n else if 1/2 < d then n + 1 else if even n then n else n + 1)"

fun binade :: "nat \<Rightarrow> real \<Rightarrow> int" where
  "binade 0 a = 0"
| "binade (Suc n) a =
     (if 2 \<le> a then binade n (a / 2) + 1 else if a < 1 then binade n (2 * a) - 1 else 0)"

definition float32_round :: "real \<Rightarrow> real" where
  "float32_round x =
     (let e = max (binade 300 \<bar>x\<bar>) (- 126); u = 2 powi (e - 23)
      in of_int (round_to_even (x / u)) * u)"

text \<open>
  \<^verbatim>\<open>KERNEL_ASSIGN\<close> and \<^verbatim>\<open>SGDKernel::Map\<close> with the rounding \<open>rnd\<close> of the element type
  applied to the result of every multiplication, subtraction and addition, in the order
  in which the source writes them: the clipped branch multiplies \<^verbatim>\<open>param_lr\<close> with the
  clipped product \<^verbatim>\<open>param_rescale_grad*grad_data[i]\<close>, the other branch multiplies the
  product \<^verbatim>\<open>param_lr*param_rescale_grad\<close> with \<^verbatim>\<open>grad_data[i]\<close>. A comparison, \<^verbatim>\<open>max\<close> and
  \<^verbatim>\<open>min\<close> do not round. With \<open>rnd\<close> the identity these are the exact definitions above.
  The hyperparameters are \<^verbatim>\<open>float\<close> fields, so for \<^verbatim>\<open>DType = float\<close> their
  \<^verbatim>\<open>static_cast<DType>\<close> in \<^verbatim>\<open>SGDUpdate\<close> is the identity.
\<close>

definition KERNEL_ASSIGN_rounded ::
  "(real \<Rightarrow> real) \<Rightarrow> nat \<Rightarrow> OpReqType \<Rightarrow> real \<Rightarrow> heap \<Rightarrow> heap" where
  "KERNEL_ASSIGN_rounded rnd a req val h =
     (case req of
        kNullOp \<Rightarrow> h
      | kWriteTo \<Rightarrow> h(a := val)
      | kWriteInplace \<Rightarrow> h(a := val)
      | kAddTo \<Rightarrow> h(a := rnd (h a + val)))"

definition SGDKernel_Map_rounded ::
  "(real \<Rightarrow> real) \<Rightarrow> nat \<Rightarrow> nat \<Rightarrow> nat \<Rightarrow> nat \<Rightarrow> real \<Rightarrow> real \<Rightarrow> real \<Rightarrow> real \<Rightarrow> OpReqType
     \<Rightarrow> heap \<Rightarrow> heap" where
  "SGDKernel_Map_rounded rnd i out_data weight_data grad_data param_clip_gradient param_lr
       param_wd param_rescale_grad req h =
     (if param_clip_gradient \<ge> 0 then
        KERNEL_ASSIGN_rounded rnd (out_data + i) req
          (rnd (rnd (rnd (1 - rnd (param_lr * param_wd)) * h (weight_data + i))
                - rnd (param_lr
                       * clip (rnd (param_rescale_grad * h (grad_data + i)))
                           param_clip_gradient))) h
      else
        KERNEL_ASSIGN_rounded rnd (out_data + i) req
          (rnd (rnd (rnd (1 - rnd (param_lr * param_wd)) * h (weight_data + i))
                - rnd (rnd (param_lr * param_rescale_grad) * h (grad_data + i)))) h)"

definition SGDUpdate_rounded ::
  "(real \<Rightarrow> real) \<Rightarrow> SGDParam \<Rightarrow> TBlob list \<Rightarrow> OpReqType list \<Rightarrow> TBlob list \<Rightarrow> heap \<Rightarrow> heap" where
  "SGDUpdate_rounded rnd param inputs req outputs h =
     (let weight = inputs ! 0; grad = inputs ! 1; out = outputs ! 0 in
      Launch (Size (blob_shape weight))
        (\<lambda>i. SGDKernel_Map_rounded rnd i (dptr out) (dptr weight) (dptr grad)
               (SGDParam.clip_gradient param) (SGDParam.lr param) (SGDParam.wd param)
               (SGDParam.rescale_grad param) (req ! 0)) h)"

section \<open>Loops and work items\<close>

lemma fold_frame:
  assumes "\<And>j h. j < n \<Longrightarrow> f j h a = h a"
  shows "fold f [0..<n] h a = h a"
  using assms by (induction n) simp_all

lemma fold_at:
  assumes "i < n"
    and other: "\<And>j h. j < n \<Longrightarrow> j \<noteq> i \<Longrightarrow> f j h a = h a"
    and reads: "\<And>j h r. j < n \<Longrightarrow> j \<noteq> i \<Longrightarrow> r \<in> R \<Longrightarrow> f j h r = h r"
    and dep: "\<And>h h'. (\<forall>r\<in>R. h r = h' r) \<Longrightarrow> f i h a = f i h' a"
  shows "fold f [0..<n] h a = f i h a"
  using assms(1,2,3)
proof (induction n)
  case 0
  then show ?case by simp
next
  case (Suc n)
  show ?case
  proof (cases "i = n")
    case True
    have "\<forall>r\<in>R. fold f [0..<n] h r = h r"
    proof
      fix r assume "r \<in> R"
      show "fold f [0..<n] h r = h r"
        by (rule fold_frame) (use Suc.prems(3) True \<open>r \<in> R\<close> in auto)
    qed
    then have "f i (fold f [0..<n] h) a = f i h a" by (rule dep)
    with True show ?thesis by simp
  next
    case False
    with Suc.prems(1) have "i < n" by simp
    have "fold f [0..<Suc n] h a = f n (fold f [0..<n] h) a" by simp
    also have "\<dots> = fold f [0..<n] h a"
      using Suc.prems(2)[of n] False by simp
    also have "\<dots> = f i h a"
      using Suc.IH[OF \<open>i < n\<close>] Suc.prems(2,3) by simp
    finally show ?thesis .
  qed
qed

lemma Launch_frame:
  assumes "\<And>j h. j < N \<Longrightarrow> Map j h a = h a"
  shows "Launch N Map h a = h a"
  unfolding Launch_def using assms by (rule fold_frame)

text \<open>
  Element-wise kernels: work item \<open>j\<close> writes only the cells \<open>p + j\<close> for the pointers
  \<open>p\<close> of \<open>ws\<close>, and the value it leaves in the cell \<open>a\<close> depends only on the cells
  \<open>q + i\<close> for the pointers \<open>q\<close> of \<open>rs\<close>.
\<close>

lemma Launch_elementwise:
  assumes "i < N"
    and frame: "\<And>j h b. j < N \<Longrightarrow> \<forall>p\<in>set ws. b \<noteq> p + j \<Longrightarrow> Map j h b = h b"
    and dep: "\<And>h h'. (\<forall>q\<in>set rs. h (q + i) = h' (q + i)) \<Longrightarrow> Map i h a = Map i h' a"
    and sep: "\<forall>p\<in>set ws. \<forall>q\<in>set rs. p = q \<or> separate p N q N"
    and a: "\<exists>q\<in>set rs. a = q + i"
  shows "Launch N Map h a = Map i h a"
  unfolding Launch_def
proof (rule fold_at[where R = "(\<lambda>q. q + i) ` set rs"])
  show "i < N" by fact
next
  fix j and h :: heap assume j: "j < N" "j \<noteq> i"
  from a obtain q where q: "q \<in> set rs" "a = q + i" by blast
  have "\<forall>p\<in>set ws. a \<noteq> p + j"
    using sep q j \<open>i < N\<close> by (fastforce simp: separate_def)
  then show "Map j h a = h a" using frame j by blast
next
  fix j r and h :: heap assume j: "j < N" "j \<noteq> i" and "r \<in> (\<lambda>q. q + i) ` set rs"
  then obtain q where q: "q \<in> set rs" "r = q + i" by blast
  have "\<forall>p\<in>set ws. r \<noteq> p + j"
    using sep q j \<open>i < N\<close> by (fastforce simp: separate_def)
  then show "Map j h r = h r" using frame j by blast
next
  fix h h' :: heap assume "\<forall>r\<in>(\<lambda>q. q + i) ` set rs. h r = h' r"
  then show "Map i h a = Map i h' a" by (intro dep) simp
qed

lemma KERNEL_ASSIGN_other: "b \<noteq> a \<Longrightarrow> KERNEL_ASSIGN a req v h b = h b"
  by (simp add: KERNEL_ASSIGN_def split: OpReqType.splits)

lemma KERNEL_ASSIGN_write:
  "req = kWriteTo \<or> req = kWriteInplace \<Longrightarrow> KERNEL_ASSIGN a req v h a = v"
  by (auto simp: KERNEL_ASSIGN_def)

lemma clip_clipped: "c \<ge> 0 \<Longrightarrow> clip x c = clipped c x"
  by (simp add: clip_def clipped_def)

lemma clipped_neg: "\<not> c \<ge> 0 \<Longrightarrow> clipped c x = x"
  by (simp add: clipped_def)

section \<open>Dense SGD\<close>

lemma SGDKernel_Map_eq:
  "SGDKernel_Map i out w g c l d r req h =
     KERNEL_ASSIGN (out + i) req ((1 - l * d) * h (w + i) - l * effective_gradient r c (h (g + i))) h"
  by (simp add: SGDKernel_Map_def effective_gradient_def clip_clipped clipped_neg mult.assoc)

lemma SGDKernel_Map_other:
  "b \<noteq> out + j \<Longrightarrow> SGDKernel_Map j out w g c l d r req h b = h b"
  by (simp add: SGDKernel_Map_eq KERNEL_ASSIGN_other)

lemma SGDKernel_Map_dep:
  "\<forall>q\<in>set [out, w, g]. h (q + i) = h' (q + i) \<Longrightarrow>
     SGDKernel_Map i out w g c l d r req h (out + i) = SGDKernel_Map i out w g c l d r req h' (out + i)"
  by (simp add: SGDKernel_Map_eq KERNEL_ASSIGN_def split: OpReqType.splits)

lemma Launch_SGDKernel_at:
  assumes "i < N"
    and "out = w \<or> separate out N w N"
    and "separate out N g N"
  shows "Launch N (\<lambda>i. SGDKernel_Map i out w g c l d r req) h (out + i) =
     KERNEL_ASSIGN (out + i) req ((1 - l * d) * h (w + i) - l * effective_gradient r c (h (g + i))) h (out + i)"
proof -
  have "Launch N (\<lambda>i. SGDKernel_Map i out w g c l d r req) h (out + i)
      = SGDKernel_Map i out w g c l d r req h (out + i)"
    by (rule Launch_elementwise[where ws = "[out]" and rs = "[out, w, g]"])
       (use assms in \<open>auto simp: SGDKernel_Map_other intro: SGDKernel_Map_dep\<close>)
  then show ?thesis by (simp add: SGDKernel_Map_eq)
qed

lemma effective_gradient_within:
  "c \<ge> 0 \<Longrightarrow> \<bar>r * g\<bar> \<le> c \<Longrightarrow> effective_gradient r c g = r * g"
  by (simp add: effective_gradient_def clipped_def)

lemma effective_gradient_disabled:
  "c < 0 \<Longrightarrow> effective_gradient r c g = r * g"
  by (simp add: effective_gradient_def clipped_def)

lemma Launch_SGDKernel_grad_unchanged:
  assumes "separate out N g N" "n \<le> N" "k < N"
  shows "Launch n (\<lambda>i. SGDKernel_Map i out w g c l d r req) h (g + k) = h (g + k)"
proof (rule Launch_frame)
  fix j and h :: heap assume "j < n"
  then have "g + k \<noteq> out + j" using assms by (auto simp: separate_def)
  then show "SGDKernel_Map j out w g c l d r req h (g + k) = h (g + k)"
    by (rule SGDKernel_Map_other)
qed

lemma Launch_SGDKernel_clip_noop:
  assumes "c \<ge> 0" "c' < 0" "\<forall>i<N. \<bar>r * h (g + i)\<bar> \<le> c" "separate out N g N" "n \<le> N"
  shows "Launch n (\<lambda>i. SGDKernel_Map i out w g c l d r req) h =
         Launch n (\<lambda>i. SGDKernel_Map i out w g c' l d r req) h"
  using assms(5)
proof (induction n)
  case 0
  show ?case by (simp add: Launch_def)
next
  case (Suc n)
  let ?H = "Launch n (\<lambda>i. SGDKernel_Map i out w g c' l d r req) h"
  have IH: "Launch n (\<lambda>i. SGDKernel_Map i out w g c l d r req) h = ?H"
    using Suc by simp
  have "?H (g + n) = h (g + n)"
    using assms(4) Suc.prems by (intro Launch_SGDKernel_grad_unchanged[where N = N]) simp_all
  moreover have "\<bar>r * h (g + n)\<bar> \<le> c" using assms(3) Suc.prems by simp
  ultimately have "effective_gradient r c (?H (g + n)) = effective_gradient r c' (?H (g + n))"
    using assms(1,2) by (simp add: effective_gradient_within effective_gradient_disabled)
  then have "SGDKernel_Map n out w g c l d r req ?H = SGDKernel_Map n out w g c' l d r req ?H"
    by (simp add: SGDKernel_Map_eq)
  with IH show ?case by (simp add: Launch_def)
qed

lemma separate_sym: "separate p n q m \<Longrightarrow> separate q m p n"
  by (auto simp: separate_def)

lemma separate_ne: "separate p n q m \<Longrightarrow> i < n \<Longrightarrow> j < m \<Longrightarrow> p + i \<noteq> q + j"
  by (auto simp: separate_def)

section \<open>Dense SGD with momentum\<close>

lemma SGDMomKernel_Map_eq:
  "SGDMomKernel_Map i out mom w g c m l d r req h =
     (let h1 = h(mom + i := m * h (mom + i) - l * d * h (w + i)
                               - l * effective_gradient r c (h (g + i)))
      in KERNEL_ASSIGN (out + i) req (h1 (w + i) + h1 (mom + i)) h1)"
  by (simp add: SGDMomKernel_Map_def effective_gradient_def clip_clipped clipped_neg mult.assoc)

lemma SGDMomKernel_Map_other:
  "\<forall>p\<in>set [out, mom]. b \<noteq> p + j \<Longrightarrow> SGDMomKernel_Map j out mom w g c m l d r req h b = h b"
  by (simp add: SGDMomKernel_Map_eq KERNEL_ASSIGN_other Let_def)

lemma SGDMomKernel_Map_dep:
  "\<forall>q\<in>set [out, mom, w, g]. h (q + i) = h' (q + i) \<Longrightarrow> a = out + i \<or> a = mom + i \<Longrightarrow>
     SGDMomKernel_Map i out mom w g c m l d r req h a = SGDMomKernel_Map i out mom w g c m l d r req h' a"
  by (cases req) (auto simp: SGDMomKernel_Map_eq KERNEL_ASSIGN_def Let_def)

lemma SGDMomKernel_Map_mom:
  "mom \<noteq> out \<Longrightarrow> SGDMomKernel_Map i out mom w g c m l d r req h (mom + i) =
     m * h (mom + i) - l * d * h (w + i) - l * effective_gradient r c (h (g + i))"
  by (simp add: SGDMomKernel_Map_eq KERNEL_ASSIGN_other Let_def)

lemma SGDMomKernel_Map_out:
  "mom \<noteq> w \<Longrightarrow> mom \<noteq> out \<Longrightarrow> SGDMomKernel_Map i out mom w g c m l d r req h (out + i) =
     KERNEL_ASSIGN (out + i) req
       (h (w + i) + (m * h (mom + i) - l * d * h (w + i) - l * effective_gradient r c (h (g + i))))
       h (out + i)"
  by (cases req) (simp_all add: SGDMomKernel_Map_eq KERNEL_ASSIGN_def Let_def)

lemma Launch_SGDMomKernel:
  assumes "i < N"
    and "out = w \<or> separate out N w N"
    and "separate out N g N" "separate mom N out N" "separate mom N w N" "separate mom N g N"
  shows "Launch N (\<lambda>i. SGDMomKernel_Map i out mom w g c m l d r req) h (mom + i) =
           m * h (mom + i) - l * d * h (w + i) - l * effective_gradient r c (h (g + i))"
    and "Launch N (\<lambda>i. SGDMomKernel_Map i out mom w g c m l d r req) h (out + i) =
           KERNEL_ASSIGN (out + i) req
             (h (w + i) + (m * h (mom + i) - l * d * h (w + i)
                            - l * effective_gradient r c (h (g + i)))) h (out + i)"
proof -
  have ne: "mom \<noteq> out" "mom \<noteq> w"
    using assms by (auto simp: separate_def)
  have sep: "\<forall>p\<in>set [out, mom]. \<forall>q\<in>set [out, mom, w, g]. p = q \<or> separate p N q N"
    using assms by (auto simp: separate_def)
  have at: "Launch N (\<lambda>i. SGDMomKernel_Map i out mom w g c m l d r req) h a
      = SGDMomKernel_Map i out mom w g c m l d r req h a" if "a = out + i \<or> a = mom + i" for a
  proof (rule Launch_elementwise[where ws = "[out, mom]" and rs = "[out, mom, w, g]"])
    show "i < N" by fact
    show "\<forall>p\<in>set [out, mom]. \<forall>q\<in>set [out, mom, w, g]. p = q \<or> separate p N q N"
      by (rule sep)
    show "\<exists>q\<in>set [out, mom, w, g]. a = q + i"
      using that by auto
  next
    fix j b and h :: heap
    assume "j < N" "\<forall>p\<in>set [out, mom]. b \<noteq> p + j"
    then show "SGDMomKernel_Map j out mom w g c m l d r req h b = h b"
      by (intro SGDMomKernel_Map_other)
  next
    fix h h' :: heap
    assume "\<forall>q\<in>set [out, mom, w, g]. h (q + i) = h' (q + i)"
    then show "SGDMomKernel_Map i out mom w g c m l d r req h a =
               SGDMomKernel_Map i out mom w g c m l d r req h' a"
      using that by (intro SGDMomKernel_Map_dep)
  qed
  show "Launch N (\<lambda>i. SGDMomKernel_Map i out mom w g c m l d r req) h (mom + i) =
           m * h (mom + i) - l * d * h (w + i) - l * effective_gradient r c (h (g + i))"
    using at[of "mom + i"] ne by (simp add: SGDMomKernel_Map_mom)
  show "Launch N (\<lambda>i. SGDMomKernel_Map i out mom w g c m l d r req) h (out + i) =
           KERNEL_ASSIGN (out + i) req
             (h (w + i) + (m * h (mom + i) - l * d * h (w + i)
                            - l * effective_gradient r c (h (g + i)))) h (out + i)"
    using at[of "out + i"] ne by (simp add: SGDMomKernel_Map_out)
qed

section \<open>Mixed precision\<close>

lemma MP_SGDMomKernel_Map_eq:
  "MP_SGDMomKernel_Map cast i out mom w g w32 c m l d r req h =
     (let mom' = m * h (mom + i) - l * d * h (w32 + i) - l * effective_gradient r c (h (g + i));
          h1 = h(mom + i := mom');
          h2 = h1(w32 + i := h (w32 + i) + mom')
      in KERNEL_ASSIGN (out + i) req (cast (h (w32 + i) + mom')) h2)"
  by (simp add: MP_SGDMomKernel_Map_def effective_gradient_def clip_clipped clipped_neg mult.assoc Let_def)

lemma MP_SGDMomKernel_Map_other:
  "\<forall>p\<in>set [out, mom, w32]. b \<noteq> p + j \<Longrightarrow>
     MP_SGDMomKernel_Map cast j out mom w g w32 c m l d r req h b = h b"
  by (simp add: MP_SGDMomKernel_Map_eq KERNEL_ASSIGN_other Let_def)

lemma MP_SGDMomKernel_Map_dep:
  "\<forall>q\<in>set [out, mom, w32, g]. h (q + i) = h' (q + i) \<Longrightarrow>
     a = out + i \<or> a = mom + i \<or> a = w32 + i \<Longrightarrow>
     MP_SGDMomKernel_Map cast i out mom w g w32 c m l d r req h a =
     MP_SGDMomKernel_Map cast i out mom w g w32 c m l d r req h' a"
  by (cases req) (auto simp: MP_SGDMomKernel_Map_eq KERNEL_ASSIGN_def Let_def)

lemma Launch_MP_SGDMomKernel:
  assumes "i < N"
    and "separate out N g N" "separate mom N out N" "separate mom N w32 N" "separate mom N g N"
    and "separate w32 N out N" "separate w32 N g N"
  shows "Launch N (\<lambda>i. MP_SGDMomKernel_Map cast i out mom w g w32 c m l d r req) h (mom + i) =
           m * h (mom + i) - l * d * h (w32 + i) - l * effective_gradient r c (h (g + i))"
    and "Launch N (\<lambda>i. MP_SGDMomKernel_Map cast i out mom w g w32 c m l d r req) h (w32 + i) =
           h (w32 + i) + (m * h (mom + i) - l * d * h (w32 + i)
                            - l * effective_gradient r c (h (g + i)))"
    and "Launch N (\<lambda>i. MP_SGDMomKernel_Map cast i out mom w g w32 c m l d r req) h (out + i) =
           KERNEL_ASSIGN (out + i) req
             (cast (h (w32 + i) + (m * h (mom + i) - l * d * h (w32 + i)
                            - l * effective_gradient r c (h (g + i))))) h (out + i)"
proof -
  have ne: "mom \<noteq> out" "mom \<noteq> w32" "w32 \<noteq> out"
    using assms by (auto simp: separate_def)
  have sep: "\<forall>p\<in>set [out, mom, w32]. \<forall>q\<in>set [out, mom, w32, g]. p = q \<or> separate p N q N"
    using assms by (auto simp: separate_def)
  have at: "Launch N (\<lambda>i. MP_SGDMomKernel_Map cast i out mom w g w32 c m l d r req) h a
      = MP_SGDMomKernel_Map cast i out mom w g w32 c m l d r req h a"
    if "a = out + i \<or> a = mom + i \<or> a = w32 + i" for a
  proof (rule Launch_elementwise[where ws = "[out, mom, w32]" and rs = "[out, mom, w32, g]"])
    show "i < N" by fact
    show "\<forall>p\<in>set [out, mom, w32]. \<forall>q\<in>set [out, mom, w32, g]. p = q \<or> separate p N q N"
      by (rule sep)
    show "\<exists>q\<in>set [out, mom, w32, g]. a = q + i"
      using that by auto
  next
    fix j b and h :: heap
    assume "j < N" "\<forall>p\<in>set [out, mom, w32]. b \<noteq> p + j"
    then show "MP_SGDMomKernel_Map cast j out mom w g w32 c m l d r req h b = h b"
      by (intro MP_SGDMomKernel_Map_other)
  next
    fix h h' :: heap
    assume "\<forall>q\<in>set [out, mom, w32, g]. h (q + i) = h' (q + i)"
    then show "MP_SGDMomKernel_Map cast i out mom w g w32 c m l d r req h a =
               MP_SGDMomKernel_Map cast i out mom w g w32 c m l d r req h' a"
      using that by (intro MP_SGDMomKernel_Map_dep)
  qed
  show "Launch N (\<lambda>i. MP_SGDMomKernel_Map cast i out mom w g w32 c m l d r req) h (mom + i) =
           m * h (mom + i) - l * d * h (w32 + i) - l * effective_gradient r c (h (g + i))"
    using at[of "mom + i"] ne by (simp add: MP_SGDMomKernel_Map_eq KERNEL_ASSIGN_other Let_def)
  show "Launch N (\<lambda>i. MP_SGDMomKernel_Map cast i out mom w g w32 c m l d r req) h (w32 + i) =
           h (w32 + i) + (m * h (mom + i) - l * d * h (w32 + i)
                            - l * effective_gradient r c (h (g + i)))"
    using at[of "w32 + i"] ne by (simp add: MP_SGDMomKernel_Map_eq KERNEL_ASSIGN_other Let_def)
  show "Launch N (\<lambda>i. MP_SGDMomKernel_Map cast i out mom w g w32 c m l d r req) h (out + i) =
           KERNEL_ASSIGN (out + i) req
             (cast (h (w32 + i) + (m * h (mom + i) - l * d * h (w32 + i)
                            - l * effective_gradient r c (h (g + i))))) h (out + i)"
    using at[of "out + i"] ne
    by (cases req) (simp_all add: MP_SGDMomKernel_Map_eq KERNEL_ASSIGN_def Let_def)
qed

section \<open>Rows\<close>

lemma cell_inj:
  assumes "j < L" "j' < L" "r * L + j = r' * L + j'"
  shows "r = r' \<and> j = (j'::nat)"
proof -
  have "(r * L + j) div L = r" "(r' * L + j') div L = r'"
    using assms(1,2) by simp_all
  then have "r = r'" using assms(3) by simp
  then show ?thesis using assms(3) by simp
qed

lemma cell_bound:
  assumes "r < R" "j < L"
  shows "r * L + j < R * (L::nat)"
proof -
  have "r * L + j < Suc r * L" using assms(2) by simp
  also have "\<dots> \<le> R * L" using assms(1) by (intro mult_le_mono1) simp
  finally show ?thesis .
qed

lemma rows_frame:
  assumes "\<And>i j h. i < N \<Longrightarrow> j < L \<Longrightarrow> body i j h b = h b"
  shows "Launch N (\<lambda>i. fold (body i) [0..<L]) h b = h b"
proof (rule Launch_frame)
  fix i and h :: heap assume "i < N"
  then show "fold (body i) [0..<L] h b = h b"
    by (intro fold_frame assms)
qed

lemma rows_at:
  fixes body :: "nat \<Rightarrow> nat \<Rightarrow> heap \<Rightarrow> heap"
  assumes "i < N" "j < L"
    and frame: "\<And>i' j' h b. i' < N \<Longrightarrow> j' < L \<Longrightarrow> b \<notin> W i' j' \<Longrightarrow> body i' j' h b = h b"
    and dep: "\<And>h h'. (\<forall>r\<in>R. h r = h' r) \<Longrightarrow> body i j h a = body i j h' a"
    and disj: "\<And>i' j'. i' < N \<Longrightarrow> j' < L \<Longrightarrow> (i', j') \<noteq> (i, j) \<Longrightarrow>
                 a \<notin> W i' j' \<and> R \<inter> W i' j' = {}"
  shows "Launch N (\<lambda>i. fold (body i) [0..<L]) h a = body i j h a"
proof -
  have inner: "fold (body i) [0..<L] g a = body i j g a" for g :: heap
  proof (rule fold_at[where R = R])
    show "j < L" by fact
  next
    fix j' and h :: heap assume "j' < L" "j' \<noteq> j"
    then show "body i j' h a = h a"
      using disj[of i j'] \<open>i < N\<close> by (intro frame) auto
  next
    fix j' r and h :: heap assume "j' < L" "j' \<noteq> j" "r \<in> R"
    then show "body i j' h r = h r"
      using disj[of i j'] \<open>i < N\<close> by (intro frame) auto
  next
    fix h h' :: heap assume "\<forall>r\<in>R. h r = h' r"
    then show "body i j h a = body i j h' a" by (rule dep)
  qed
  have "fold (\<lambda>i. fold (body i) [0..<L]) [0..<N] h a = fold (body i) [0..<L] h a"
  proof (rule fold_at[where R = R])
    show "i < N" by fact
  next
    fix i' and h :: heap assume i': "i' < N" "i' \<noteq> i"
    show "fold (body i') [0..<L] h a = h a"
    proof (rule fold_frame)
      fix j' and h :: heap assume "j' < L"
      then show "body i' j' h a = h a"
        using disj[of i' j'] i' by (intro frame) auto
    qed
  next
    fix i' r and h :: heap assume i': "i' < N" "i' \<noteq> i" and r: "r \<in> R"
    show "fold (body i') [0..<L] h r = h r"
    proof (rule fold_frame)
      fix j' and h :: heap assume "j' < L"
      then show "body i' j' h r = h r"
        using disj[of i' j'] i' r by (intro frame) auto
    qed
  next
    fix h h' :: heap assume "\<forall>r\<in>R. h r = h' r"
    then show "fold (body i) [0..<L] h a = fold (body i) [0..<L] h' a"
      by (simp add: inner dep)
  qed
  then show ?thesis by (simp add: Launch_def inner)
qed

text \<open>
  Row kernels driven by a row-index array \<open>idx\<close>: the step for column \<open>j\<close> of work item
  \<open>i\<close> writes only the cells \<open>p + (idx ! i * L + j)\<close> for the pointers \<open>p\<close> of \<open>ws\<close>, and what
  it leaves in the cell \<open>a\<close> depends only on the cells \<open>q + (idx ! i * L + j)\<close> for the
  pointers \<open>q\<close> of \<open>rs\<close> and on the gradient cell \<open>gv + (i * L + j)\<close>.
\<close>

lemma sparse_rows_frame:
  assumes frame: "\<And>i j h. i < length idx \<Longrightarrow> j < L \<Longrightarrow>
                    \<forall>p\<in>set ws. b \<noteq> p + (idx ! i * L + j) \<Longrightarrow> body i j h b = h b"
    and b: "\<forall>x\<in>set idx. \<forall>j<L. \<forall>p\<in>set ws. b \<noteq> p + (x * L + j)"
  shows "Launch (length idx) (\<lambda>i. fold (body i) [0..<L]) h b = h b"
proof (rule rows_frame)
  fix i j and h :: heap assume "i < length idx" "j < L"
  then show "body i j h b = h b"
    using b by (intro frame) auto
qed

lemma sparse_rows_at:
  fixes body :: "nat \<Rightarrow> nat \<Rightarrow> heap \<Rightarrow> heap"
  assumes i: "i < length idx" and j: "j < L" and dist: "distinct idx"
    and bound: "\<forall>x\<in>set idx. x < R"
    and frame: "\<And>i' j' h b. i' < length idx \<Longrightarrow> j' < L \<Longrightarrow>
                  \<forall>p\<in>set ws. b \<noteq> p + (idx ! i' * L + j') \<Longrightarrow> body i' j' h b = h b"
    and dep: "\<And>h h'. (\<forall>q\<in>set rs. h (q + (idx ! i * L + j)) = h' (q + (idx ! i * L + j))) \<Longrightarrow>
                  h (gv + (i * L + j)) = h' (gv + (i * L + j)) \<Longrightarrow> body i j h a = body i j h' a"
    and sep: "\<forall>p\<in>set ws. \<forall>q\<in>set rs. p = q \<or> separate p (R * L) q (R * L)"
    and sepg: "\<forall>p\<in>set ws. separate p (R * L) gv (length idx * L)"
    and a: "\<exists>q\<in>set rs. a = q + (idx ! i * L + j)"
  shows "Launch (length idx) (\<lambda>i. fold (body i) [0..<L]) h a = body i j h a"
proof (rule rows_at[where
    W = "\<lambda>i' j'. (\<lambda>p. p + (idx ! i' * L + j')) ` set ws" and
    R = "insert (gv + (i * L + j)) ((\<lambda>q. q + (idx ! i * L + j)) ` set rs)"])
  show "i < length idx" "j < L" by fact+
next
  fix i' j' b and h :: heap
  assume "i' < length idx" "j' < L" "b \<notin> (\<lambda>p. p + (idx ! i' * L + j')) ` set ws"
  then show "body i' j' h b = h b" by (intro frame) auto
next
  fix h h' :: heap
  assume "\<forall>r\<in>insert (gv + (i * L + j)) ((\<lambda>q. q + (idx ! i * L + j)) ` set rs). h r = h' r"
  then show "body i j h a = body i j h' a" by (intro dep) auto
next
  fix i' j' assume i': "i' < length idx" and j': "j' < L" and ne: "(i', j') \<noteq> (i, j)"
  let ?d = "idx ! i * L + j" and ?d' = "idx ! i' * L + j'"
  have d: "?d < R * L" using bound i j by (intro cell_bound) auto
  have d': "?d' < R * L" using bound i' j' by (intro cell_bound) auto
  have g: "i * L + j < length idx * L" using i j by (intro cell_bound) auto
  have dd: "?d' \<noteq> ?d"
  proof
    assume "?d' = ?d"
    then have "idx ! i' = idx ! i \<and> j' = j" using j j' by (intro cell_inj)
    then show False using ne dist i i' by (auto simp: nth_eq_iff_index_eq)
  qed
  have 1: "p + ?d' \<noteq> q + ?d" if "p \<in> set ws" "q \<in> set rs" for p q
    using sep that d d' dd by (fastforce simp: separate_def)
  have 2: "p + ?d' \<noteq> gv + (i * L + j)" if "p \<in> set ws" for p
    using sepg that d' g by (fastforce simp: separate_def)
  show "a \<notin> (\<lambda>p. p + ?d') ` set ws \<and>
        insert (gv + (i * L + j)) ((\<lambda>q. q + ?d) ` set rs) \<inter> (\<lambda>p. p + ?d') ` set ws = {}"
    using a 1 2 1[THEN not_sym] 2[THEN not_sym] by blast
qed

section \<open>The update rules on cells\<close>

lemma SGD_step_other: "b \<noteq> out \<Longrightarrow> SGD_step c l d r req out w g h b = h b"
  by (simp add: SGD_step_def KERNEL_ASSIGN_other)

lemma SGDMom_step_other:
  "b \<noteq> out \<Longrightarrow> b \<noteq> mom \<Longrightarrow> SGDMom_step c m l d r req out mom w g h b = h b"
  by (simp add: SGDMom_step_def KERNEL_ASSIGN_other Let_def)

lemma SGDMom_step_dep:
  "h out = h' out \<Longrightarrow> h mom = h' mom \<Longrightarrow> h w = h' w \<Longrightarrow> h g = h' g \<Longrightarrow>
   a = out \<or> a = mom \<Longrightarrow>
   SGDMom_step c m l d r req out mom w g h a = SGDMom_step c m l d r req out mom w g h' a"
  by (cases req) (auto simp: SGDMom_step_def KERNEL_ASSIGN_def Let_def)

lemma SGDMom_step_mom:
  "mom \<noteq> out \<Longrightarrow> SGDMom_step c m l d r req out mom w g h mom =
     m * h mom - l * d * h w - l * effective_gradient r c (h g)"
  by (simp add: SGDMom_step_def KERNEL_ASSIGN_other Let_def)

lemma SGDMom_step_out:
  "mom \<noteq> out \<Longrightarrow> mom \<noteq> w \<Longrightarrow> SGDMom_step c m l d r req out mom w g h out =
     KERNEL_ASSIGN out req
       (h w + (m * h mom - l * d * h w - l * effective_gradient r c (h g))) h out"
  by (cases req) (simp_all add: SGDMom_step_def KERNEL_ASSIGN_def Let_def)

lemma Adam_step_other:
  "b \<noteq> out \<Longrightarrow> b \<noteq> mean \<Longrightarrow> b \<noteq> var \<Longrightarrow>
   Adam_step c b1 b2 l d e r req out mean var w g h b = h b"
  by (simp add: Adam_step_def KERNEL_ASSIGN_other Let_def)

lemma Adam_step_dep:
  "h out = h' out \<Longrightarrow> h mean = h' mean \<Longrightarrow> h var = h' var \<Longrightarrow> h w = h' w \<Longrightarrow> h g = h' g \<Longrightarrow>
   a = out \<or> a = mean \<or> a = var \<Longrightarrow>
   Adam_step c b1 b2 l d e r req out mean var w g h a =
   Adam_step c b1 b2 l d e r req out mean var w g h' a"
  by (cases req) (auto simp: Adam_step_def KERNEL_ASSIGN_def Let_def)

lemma Adam_step_mean:
  "mean \<noteq> out \<Longrightarrow> mean \<noteq> var \<Longrightarrow>
   Adam_step c b1 b2 l d e r req out mean var w g h mean =
     b1 * h mean + (1 - b1) * clipped c (r * h g + d * h w)"
  by (simp add: Adam_step_def KERNEL_ASSIGN_other Let_def)

lemma Adam_step_var:
  "var \<noteq> out \<Longrightarrow> mean \<noteq> var \<Longrightarrow>
   Adam_step c b1 b2 l d e r req out mean var w g h var =
     b2 * h var + (1 - b2) * (clipped c (r * h g + d * h w) * clipped c (r * h g + d * h w))"
  by (simp add: Adam_step_def KERNEL_ASSIGN_other Let_def)

lemma Adam_step_out:
  "mean \<noteq> out \<Longrightarrow> var \<noteq> out \<Longrightarrow> mean \<noteq> var \<Longrightarrow> mean \<noteq> w \<Longrightarrow> var \<noteq> w \<Longrightarrow>
   Adam_step c b1 b2 l d e r req out mean var w g h out =
     KERNEL_ASSIGN out req
       (h w - l * (b1 * h mean + (1 - b1) * clipped c (r * h g + d * h w))
              / (sqrt (b2 * h var
                        + (1 - b2) * (clipped c (r * h g + d * h w)
                                        * clipped c (r * h g + d * h w))) + e)) h out"
  by (cases req) (simp_all add: Adam_step_def KERNEL_ASSIGN_def Let_def)

section \<open>The row kernels as loops of the update rules\<close>

lemma SGDDnsRspKernel_Map_steps:
  "SGDDnsRspKernel_Map req i L out w idx gv c l d r =
     fold (\<lambda>j. SGD_step c l d r req (out + (idx ! i * L + j)) (w + (idx ! i * L + j))
                 (gv + (i * L + j))) [0..<L]"
  unfolding SGDDnsRspKernel_Map_def Let_def
  by (intro ext fold_cong refl)
     (simp add: SGD_step_def effective_gradient_def clip_clipped clipped_neg mult.assoc)

lemma SGDMomDnsRspDnsKernel_Map_steps:
  "SGDMomDnsRspDnsKernel_Map req i L out mom w idx gv c m l d r =
     fold (\<lambda>j. SGDMom_step c m l d r req (out + (idx ! i * L + j)) (mom + (idx ! i * L + j))
                 (w + (idx ! i * L + j)) (gv + (i * L + j))) [0..<L]"
  unfolding SGDMomDnsRspDnsKernel_Map_def Let_def
  by (intro ext fold_cong refl)
     (simp add: SGDMom_step_def Let_def effective_gradient_def clip_clipped clipped_neg mult.assoc)

lemma AdamDnsRspDnsKernel_Map_steps:
  "AdamDnsRspDnsKernel_Map req i L out mean var w idx gv c b1 b2 l d e r =
     fold (\<lambda>j. Adam_step c b1 b2 l d e r req (out + (idx ! i * L + j)) (mean + (idx ! i * L + j))
                 (var + (idx ! i * L + j)) (w + (idx ! i * L + j)) (gv + (i * L + j))) [0..<L]"
  unfolding AdamDnsRspDnsKernel_Map_def Let_def
  by (intro ext fold_cong refl)
     (simp add: Adam_step_def Let_def square_def square_root_def clip_clipped clipped_neg
        mult.assoc mult.commute[of _ r] mult.commute[of _ d])

lemma SGDRspDnsKernel_Map_steps:
  "SGDRspDnsKernel_Map req i C out w g c l d r h =
     (if list_ex (\<lambda>j. h (g + (i * C + j)) \<noteq> 0) [0..<C]
      then fold (\<lambda>j. SGD_step c l d r req (out + (i * C + j)) (w + (i * C + j))
                       (g + (i * C + j))) [0..<C] h
      else h)"
proof -
  have "fold (\<lambda>j h. if 0 \<le> c
            then KERNEL_ASSIGN (out + (i * C + j)) req
                   ((1 - l * d) * h (w + (i * C + j))
                      - l * clip (r * h (g + (i * C + j))) c) h
            else KERNEL_ASSIGN (out + (i * C + j)) req
                   ((1 - l * d) * h (w + (i * C + j)) - l * r * h (g + (i * C + j))) h)
          [0..<C] h =
        fold (\<lambda>j. SGD_step c l d r req (out + (i * C + j)) (w + (i * C + j))
                       (g + (i * C + j))) [0..<C] h"
    by (intro ext fold_cong refl)
       (simp add: SGD_step_def effective_gradient_def clip_clipped clipped_neg mult.assoc)
  then show ?thesis
    by (simp add: SGDRspDnsKernel_Map_def Let_def)
qed

lemma SGDMomRspDnsKernel_Map_steps:
  "SGDMomRspDnsKernel_Map req i C out mom w g c m l d r h =
     (if list_ex (\<lambda>j. h (g + (i * C + j)) \<noteq> 0) [0..<C]
      then fold (\<lambda>j. SGDMom_step c m l d r req (out + (i * C + j)) (mom + (i * C + j))
                       (w + (i * C + j)) (g + (i * C + j))) [0..<C] h
      else h)"
proof -
  have "fold (\<lambda>j h.
           let index = i * C + j;
               h1 = (if c \<ge> 0 then
                       h(mom + index := m * h (mom + index) - l * d * h (w + index)
                                          - l * clip (r * h (g + index)) c)
                     else
                       h(mom + index := m * h (mom + index) - l * d * h (w + index)
                                          - l * r * h (g + index)))
           in KERNEL_ASSIGN (out + index) req (h1 (w + index) + h1 (mom + index)) h1)
          [0..<C] h =
        fold (\<lambda>j. SGDMom_step c m l d r req (out + (i * C + j)) (mom + (i * C + j))
                       (w + (i * C + j)) (g + (i * C + j))) [0..<C] h"
    by (intro ext fold_cong refl)
       (simp add: SGDMom_step_def Let_def effective_gradient_def clip_clipped clipped_neg mult.assoc)
  then show ?thesis
    by (simp add: SGDMomRspDnsKernel_Map_def Let_def)
qed

section \<open>Sparse gradient, dense weight: what a launch writes\<close>

lemma Launch_SGDDnsRsp_frame:
  assumes "\<forall>x\<in>set idx. \<forall>j<L. b \<noteq> out + (x * L + j)"
  shows "Launch (length idx) (\<lambda>i. SGDDnsRspKernel_Map req i L out w idx gv c l d r) h b = h b"
  unfolding SGDDnsRspKernel_Map_steps
  by (rule sparse_rows_frame[where ws = "[out]"]) (use assms in \<open>simp_all add: SGD_step_other\<close>)

lemma Launch_SGDMomDnsRspDns_frame:
  assumes "\<forall>x\<in>set idx. \<forall>j<L. b \<noteq> out + (x * L + j) \<and> b \<noteq> mom + (x * L + j)"
  shows "Launch (length idx)
           (\<lambda>i. SGDMomDnsRspDnsKernel_Map req i L out mom w idx gv c m l d r) h b = h b"
  unfolding SGDMomDnsRspDnsKernel_Map_steps
  by (rule sparse_rows_frame[where ws = "[out, mom]"])
     (use assms in \<open>simp_all add: SGDMom_step_other\<close>)

lemma Launch_AdamDnsRspDns_frame:
  assumes "\<forall>x\<in>set idx. \<forall>j<L. b \<noteq> out + (x * L + j) \<and> b \<noteq> mean + (x * L + j)
             \<and> b \<noteq> var + (x * L + j)"
  shows "Launch (length idx)
           (\<lambda>i. AdamDnsRspDnsKernel_Map req i L out mean var w idx gv c b1 b2 l d e r) h b = h b"
  unfolding AdamDnsRspDnsKernel_Map_steps
  by (rule sparse_rows_frame[where ws = "[out, mean, var]"])
     (use assms in \<open>simp_all add: Adam_step_other\<close>)

text \<open>A cell of a row that is not listed is none of the cells of the listed rows.\<close>

lemma unlisted_row_cell:
  fixes p L j j' :: nat
  assumes "r \<notin> set idx" "j < L" "x \<in> set idx" "j' < L"
  shows "p + (r * L + j) \<noteq> p + (x * L + j')"
  using assms cell_inj[of j L j' r x] by auto

lemma other_region_cell:
  assumes "separate p (R * L) q (R * L)" "r < R" "j < L" "x < R" "j' < L"
  shows "p + (r * L + j) \<noteq> q + (x * L + j')"
  using assms(1) cell_bound[OF assms(2,3)] cell_bound[OF assms(4,5)]
  by (auto simp: separate_def)

section \<open>Sparse gradient, dense weight: the values of the listed rows\<close>

lemma Launch_SGDMomDnsRspDns_at:
  assumes i: "i < length idx" and j: "j < L" and "distinct idx" and "\<forall>x\<in>set idx. x < R"
    and ow: "out = w \<or> separate out (R * L) w (R * L)"
    and mo: "separate mom (R * L) out (R * L)" and mw: "separate mom (R * L) w (R * L)"
    and go: "separate out (R * L) gv (length idx * L)"
    and gm: "separate mom (R * L) gv (length idx * L)"
    and a: "a = out + (idx ! i * L + j) \<or> a = mom + (idx ! i * L + j)"
  shows "Launch (length idx)
           (\<lambda>i. SGDMomDnsRspDnsKernel_Map req i L out mom w idx gv c m l d r) h a =
         SGDMom_step c m l d r req (out + (idx ! i * L + j)) (mom + (idx ! i * L + j))
           (w + (idx ! i * L + j)) (gv + (i * L + j)) h a"
  unfolding SGDMomDnsRspDnsKernel_Map_steps
proof (rule sparse_rows_at[where ws = "[out, mom]" and rs = "[out, mom, w]" and R = R])
  show "i < length idx" "j < L" "distinct idx" "\<forall>x\<in>set idx. x < R" by fact+
  show "\<forall>p\<in>set [out, mom]. \<forall>q\<in>set [out, mom, w]. p = q \<or> separate p (R * L) q (R * L)"
    using ow mo mw by (auto simp: separate_def)
  show "\<forall>p\<in>set [out, mom]. separate p (R * L) gv (length idx * L)"
    using go gm by simp
  show "\<exists>q\<in>set [out, mom, w]. a = q + (idx ! i * L + j)"
    using a by auto
next
  fix i' j' b and h :: heap
  assume "\<forall>p\<in>set [out, mom]. b \<noteq> p + (idx ! i' * L + j')"
  then show "SGDMom_step c m l d r req (out + (idx ! i' * L + j')) (mom + (idx ! i' * L + j'))
               (w + (idx ! i' * L + j')) (gv + (i' * L + j')) h b = h b"
    by (intro SGDMom_step_other) simp_all
next
  fix h h' :: heap
  assume "\<forall>q\<in>set [out, mom, w]. h (q + (idx ! i * L + j)) = h' (q + (idx ! i * L + j))"
    and "h (gv + (i * L + j)) = h' (gv + (i * L + j))"
  then show "SGDMom_step c m l d r req (out + (idx ! i * L + j)) (mom + (idx ! i * L + j))
               (w + (idx ! i * L + j)) (gv + (i * L + j)) h a =
             SGDMom_step c m l d r req (out + (idx ! i * L + j)) (mom + (idx ! i * L + j))
               (w + (idx ! i * L + j)) (gv + (i * L + j)) h' a"
    using a by (intro SGDMom_step_dep) simp_all
qed

lemma Launch_AdamDnsRspDns_at:
  assumes i: "i < length idx" and j: "j < L" and "distinct idx" and "\<forall>x\<in>set idx. x < R"
    and ow: "out = w \<or> separate out (R * L) w (R * L)"
    and mo: "separate mean (R * L) out (R * L)" and mw: "separate mean (R * L) w (R * L)"
    and vo: "separate var (R * L) out (R * L)" and vw: "separate var (R * L) w (R * L)"
    and mv: "separate mean (R * L) var (R * L)"
    and go: "separate out (R * L) gv (length idx * L)"
    and gm: "separate mean (R * L) gv (length idx * L)"
    and gvv: "separate var (R * L) gv (length idx * L)"
    and a: "a = out + (idx ! i * L + j) \<or> a = mean + (idx ! i * L + j)
              \<or> a = var + (idx ! i * L + j)"
  shows "Launch (length idx)
           (\<lambda>i. AdamDnsRspDnsKernel_Map req i L out mean var w idx gv c b1 b2 l d e r) h a =
         Adam_step c b1 b2 l d e r req (out + (idx ! i * L + j)) (mean + (idx ! i * L + j))
           (var + (idx ! i * L + j)) (w + (idx ! i * L + j)) (gv + (i * L + j)) h a"
  unfolding AdamDnsRspDnsKernel_Map_steps
proof (rule sparse_rows_at[where ws = "[out, mean, var]" and rs = "[out, mean, var, w]" and R = R])
  show "i < length idx" "j < L" "distinct idx" "\<forall>x\<in>set idx. x < R" by fact+
  show "\<forall>p\<in>set [out, mean, var]. \<forall>q\<in>set [out, mean, var, w].
          p = q \<or> separate p (R * L) q (R * L)"
    using ow mo mw vo vw mv by (auto simp: separate_def)
  show "\<forall>p\<in>set [out, mean, var]. separate p (R * L) gv (length idx * L)"
    using go gm gvv by simp
  show "\<exists>q\<in>set [out, mean, var, w]. a = q + (idx ! i * L + j)"
    using a by auto
next
  fix i' j' b and h :: heap
  assume "\<forall>p\<in>set [out, mean, var]. b \<noteq> p + (idx ! i' * L + j')"
  then show "Adam_step c b1 b2 l d e r req (out + (idx ! i' * L + j')) (mean + (idx ! i' * L + j'))
               (var + (idx ! i' * L + j')) (w + (idx ! i' * L + j')) (gv + (i' * L + j')) h b
             = h b"
    by (intro Adam_step_other) simp_all
next
  fix h h' :: heap
  assume "\<forall>q\<in>set [out, mean, var, w]. h (q + (idx ! i * L + j)) = h' (q + (idx ! i * L + j))"
    and "h (gv + (i * L + j)) = h' (gv + (i * L + j))"
  then show "Adam_step c b1 b2 l d e r req (out + (idx ! i * L + j)) (mean + (idx ! i * L + j))
               (var + (idx ! i * L + j)) (w + (idx ! i * L + j)) (gv + (i * L + j)) h a =
             Adam_step c b1 b2 l d e r req (out + (idx ! i * L + j)) (mean + (idx ! i * L + j))
               (var + (idx ! i * L + j)) (w + (idx ! i * L + j)) (gv + (i * L + j)) h' a"
    using a by (intro Adam_step_dep) simp_all
qed

section \<open>Sparse weight, dense gradient: rows with an all-zero gradient\<close>

lemma rows_skip:
  fixes Map :: "nat \<Rightarrow> heap \<Rightarrow> heap"
  assumes frame: "\<And>i' h b. i' < N \<Longrightarrow> b \<notin> W i' \<Longrightarrow> Map i' h b = h b"
    and skip: "\<And>h. \<forall>r\<in>G. h r = 0 \<Longrightarrow> Map i h = h"
    and G: "\<And>i'. i' < N \<Longrightarrow> G \<inter> W i' = {}"
    and a: "\<And>i'. i' < N \<Longrightarrow> i' \<noteq> i \<Longrightarrow> a \<notin> W i'"
    and zero: "\<forall>r\<in>G. h r = 0"
  shows "Launch N Map h a = h a"
proof -
  have "n \<le> N \<Longrightarrow> Launch n Map h a = h a \<and> (\<forall>r\<in>G. Launch n Map h r = 0)" for n
  proof (induction n)
    case 0
    show ?case using zero by (simp add: Launch_def)
  next
    case (Suc n)
    let ?H = "Launch n Map h"
    have IH: "?H a = h a" "\<forall>r\<in>G. ?H r = 0" using Suc by simp_all
    have step: "Launch (Suc n) Map h = Map n ?H" by (simp add: Launch_def)
    have n: "n < N" using Suc.prems by simp
    have G': "\<forall>r\<in>G. Map n ?H r = 0"
    proof
      fix r assume "r \<in> G"
      then have "r \<notin> W n" using G[OF n] by auto
      then show "Map n ?H r = 0" using frame[OF n] IH(2) \<open>r \<in> G\<close> by simp
    qed
    have "Map n ?H a = h a"
    proof (cases "n = i")
      case True
      then show ?thesis using skip[OF IH(2)] IH(1) by simp
    next
      case False
      then show ?thesis using frame[OF n, of a] a[OF n] IH(1) by simp
    qed
    then show ?case using G' step by simp
  qed
  then show ?thesis by simp
qed

lemma list_ex_upt: "list_ex P [0..<n] \<longleftrightarrow> (\<exists>j<n. P j)"
  by (auto simp: list_ex_iff)

lemma SGDRspDnsKernel_Map_zero_row:
  assumes "\<forall>j<C. h (g + (i * C + j)) = 0"
  shows "SGDRspDnsKernel_Map req i C out w g c l d r h = h"
proof -
  have "\<not> list_ex (\<lambda>j. h (g + (i * C + j)) \<noteq> 0) [0..<C]"
    using assms by (simp add: list_ex_upt)
  then show ?thesis by (simp only: SGDRspDnsKernel_Map_steps if_False)
qed

lemma SGDMomRspDnsKernel_Map_zero_row:
  assumes "\<forall>j<C. h (g + (i * C + j)) = 0"
  shows "SGDMomRspDnsKernel_Map req i C out mom w g c m l d r h = h"
proof -
  have "\<not> list_ex (\<lambda>j. h (g + (i * C + j)) \<noteq> 0) [0..<C]"
    using assms by (simp add: list_ex_upt)
  then show ?thesis by (simp only: SGDMomRspDnsKernel_Map_steps if_False)
qed

lemma SGDRspDnsKernel_Map_other:
  assumes "\<forall>j<C. b \<noteq> out + (i * C + j)"
  shows "SGDRspDnsKernel_Map req i C out w g c l d r h b = h b"
proof -
  have "fold (\<lambda>j. SGD_step c l d r req (out + (i * C + j)) (w + (i * C + j))
                       (g + (i * C + j))) [0..<C] h b = h b"
    by (rule fold_frame) (use assms in \<open>simp add: SGD_step_other\<close>)
  then show ?thesis by (simp add: SGDRspDnsKernel_Map_steps)
qed

lemma SGDMomRspDnsKernel_Map_other:
  assumes "\<forall>j<C. b \<noteq> out + (i * C + j) \<and> b \<noteq> mom + (i * C + j)"
  shows "SGDMomRspDnsKernel_Map req i C out mom w g c m l d r h b = h b"
proof -
  have "fold (\<lambda>j. SGDMom_step c m l d r req (out + (i * C + j)) (mom + (i * C + j))
                       (w + (i * C + j)) (g + (i * C + j))) [0..<C] h b = h b"
    by (rule fold_frame) (use assms in \<open>simp add: SGDMom_step_other\<close>)
  then show ?thesis by (simp add: SGDMomRspDnsKernel_Map_steps)
qed

lemma Launch_SGDRspDns_zero_row:
  assumes i: "i < N" and j: "j < C"
    and zero: "\<forall>j<C. h (g + (i * C + j)) = 0"
    and sep: "separate out (N * C) g (N * C)"
  shows "Launch N (\<lambda>i. SGDRspDnsKernel_Map req i C out w g c l d r) h (out + (i * C + j))
           = h (out + (i * C + j))"
proof (rule rows_skip[where W = "\<lambda>i'. (\<lambda>j. out + (i' * C + j)) ` {..<C}"
      and G = "(\<lambda>j. g + (i * C + j)) ` {..<C}" and i = i])
  fix i' b and h :: heap assume "i' < N" "b \<notin> (\<lambda>j. out + (i' * C + j)) ` {..<C}"
  then show "SGDRspDnsKernel_Map req i' C out w g c l d r h b = h b"
    by (intro SGDRspDnsKernel_Map_other) auto
next
  fix h :: heap assume "\<forall>r\<in>(\<lambda>j. g + (i * C + j)) ` {..<C}. h r = 0"
  then show "SGDRspDnsKernel_Map req i C out w g c l d r h = h"
    by (intro SGDRspDnsKernel_Map_zero_row) auto
next
  fix i' assume i': "i' < N"
  have "g + (i * C + j) \<noteq> out + (i' * C + j')" if "j < C" "j' < C" for j j'
    using other_region_cell[OF sep i' that(2) i that(1)] by simp
  then show "(\<lambda>j. g + (i * C + j)) ` {..<C} \<inter> (\<lambda>j. out + (i' * C + j)) ` {..<C} = {}"
    by blast
next
  fix i' assume "i' < N" "i' \<noteq> i"
  then have "out + (i * C + j) \<noteq> out + (i' * C + j')" if "j' < C" for j'
    using cell_inj[of j C j' i i'] j that by auto
  then show "out + (i * C + j) \<notin> (\<lambda>j. out + (i' * C + j)) ` {..<C}"
    by blast
next
  show "\<forall>r\<in>(\<lambda>j. g + (i * C + j)) ` {..<C}. h r = 0"
    using zero by auto
qed

lemma Launch_SGDMomRspDns_zero_row:
  assumes i: "i < N" and j: "j < C"
    and zero: "\<forall>j<C. h (g + (i * C + j)) = 0"
    and sep: "separate out (N * C) g (N * C)" "separate mom (N * C) g (N * C)"
    and om: "separate out (N * C) mom (N * C)"
    and a: "a = out + (i * C + j) \<or> a = mom + (i * C + j)"
  shows "Launch N (\<lambda>i. SGDMomRspDnsKernel_Map req i C out mom w g c m l d r) h a = h a"
proof (rule rows_skip[where
      W = "\<lambda>i'. (\<lambda>j. out + (i' * C + j)) ` {..<C} \<union> (\<lambda>j. mom + (i' * C + j)) ` {..<C}"
      and G = "(\<lambda>j. g + (i * C + j)) ` {..<C}" and i = i])
  fix i' b and h :: heap
  assume "i' < N"
    "b \<notin> (\<lambda>j. out + (i' * C + j)) ` {..<C} \<union> (\<lambda>j. mom + (i' * C + j)) ` {..<C}"
  then show "SGDMomRspDnsKernel_Map req i' C out mom w g c m l d r h b = h b"
    by (intro SGDMomRspDnsKernel_Map_other) auto
next
  fix h :: heap assume "\<forall>r\<in>(\<lambda>j. g + (i * C + j)) ` {..<C}. h r = 0"
  then show "SGDMomRspDnsKernel_Map req i C out mom w g c m l d r h = h"
    by (intro SGDMomRspDnsKernel_Map_zero_row) auto
next
  fix i' assume i': "i' < N"
  have "g + (i * C + j) \<noteq> out + (i' * C + j')" "g + (i * C + j) \<noteq> mom + (i' * C + j')"
    if "j < C" "j' < C" for j j'
    using other_region_cell[OF sep(1) i' that(2) i that(1)]
      other_region_cell[OF sep(2) i' that(2) i that(1)] by simp_all
  then show "(\<lambda>j. g + (i * C + j)) ` {..<C}
          \<inter> ((\<lambda>j. out + (i' * C + j)) ` {..<C} \<union> (\<lambda>j. mom + (i' * C + j)) ` {..<C}) = {}"
    by blast
next
  fix i' assume i': "i' < N" "i' \<noteq> i"
  have 1: "out + (i * C + j) \<noteq> out + (i' * C + j')" "mom + (i * C + j) \<noteq> mom + (i' * C + j')"
    if "j' < C" for j'
    using cell_inj[of j C j' i i'] j that i' by auto
  have 2: "out + (i * C + j) \<noteq> mom + (i' * C + j')" "mom + (i * C + j) \<noteq> out + (i' * C + j')"
    if "j' < C" for j'
    using other_region_cell[OF om i j i'(1) that] other_region_cell[OF om i'(1) that i j]
    by simp_all
  show "a \<notin> (\<lambda>j. out + (i' * C + j)) ` {..<C} \<union> (\<lambda>j. mom + (i' * C + j)) ` {..<C}"
  proof
    assume "a \<in> (\<lambda>j. out + (i' * C + j)) ` {..<C} \<union> (\<lambda>j. mom + (i' * C + j)) ` {..<C}"
    then obtain j' where j': "j' < C" "a = out + (i' * C + j') \<or> a = mom + (i' * C + j')"
      by blast
    show False using a j'(2) 1[OF j'(1)] 2[OF j'(1)] by metis
  qed
next
  show "\<forall>r\<in>(\<lambda>j. g + (i * C + j)) ` {..<C}. h r = 0"
    using zero by auto
qed

section \<open>What the sparse-gradient drivers write\<close>

lemma SGDUpdateDnsRspImpl_frame:
  assumes "\<forall>x\<in>set (aux_data grad s).
             \<forall>j<ProdShape (blob_shape weight) 1 (length (blob_shape weight)).
               b \<noteq> dptr out + (x * ProdShape (blob_shape weight) 1 (length (blob_shape weight)) + j)"
  shows "mem (final_state (SGDUpdateDnsRspImpl param weight grad req out s)) b = mem s b"
  using assms by (simp add: SGDUpdateDnsRspImpl_def Let_def Launch_SGDDnsRsp_frame)

lemma SGDMomUpdateDnsRspDnsImpl_frame:
  assumes "\<forall>x\<in>set (aux_data grad s).
             \<forall>j<ProdShape (blob_shape weight) 1 (length (blob_shape weight)).
               b \<noteq> dptr out + (x * ProdShape (blob_shape weight) 1 (length (blob_shape weight)) + j)
               \<and> b \<noteq> dptr mom + (x * ProdShape (blob_shape weight) 1 (length (blob_shape weight)) + j)"
  shows "mem (final_state (SGDMomUpdateDnsRspDnsImpl param weight grad mom req out s)) b = mem s b"
  using assms by (simp add: SGDMomUpdateDnsRspDnsImpl_def Let_def Launch_SGDMomDnsRspDns_frame)

lemma AdamUpdateDnsRspDnsImpl_frame:
  assumes "\<forall>x\<in>set (aux_data grad s).
             \<forall>j<ProdShape (blob_shape weight) 1 (length (blob_shape weight)).
               b \<noteq> dptr out + (x * ProdShape (blob_shape weight) 1 (length (blob_shape weight)) + j)
               \<and> b \<noteq> dptr mean + (x * ProdShape (blob_shape weight) 1 (length (blob_shape weight)) + j)
               \<and> b \<noteq> dptr var + (x * ProdShape (blob_shape weight) 1 (length (blob_shape weight)) + j)"
  shows "mem (final_state (AdamUpdateDnsRspDnsImpl param weight grad mean var req out s)) b = mem s b"
  using assms by (simp add: AdamUpdateDnsRspDnsImpl_def Let_def Launch_AdamDnsRspDns_frame)

text \<open>
  The cells of row \<open>r\<close> of a tensor at \<open>p\<close>, against the cells that a launch over the
  listed rows writes in the tensors at \<open>p\<close> and at \<open>q\<close>.
\<close>

lemma unlisted_row_safe:
  fixes p q L R :: nat
  assumes "r \<notin> set idx" "j < L" "r < R" "\<forall>x\<in>set idx. x < R"
    and "p = q \<or> separate p (R * L) q (R * L)"
  shows "\<forall>x\<in>set idx. \<forall>j'<L. p + (r * L + j) \<noteq> q + (x * L + j')"
proof (intro ballI allI impI)
  fix x j' assume x: "x \<in> set idx" and j': "j' < L"
  show "p + (r * L + j) \<noteq> q + (x * L + j')"
  proof (cases "p = q")
    case True
    then show ?thesis using unlisted_row_cell[OF assms(1,2) x j'] by simp
  next
    case False
    then have "separate p (R * L) q (R * L)" using assms(5) by simp
    then show ?thesis using other_region_cell assms(2,3,4) x j' by blast
  qed
qed

section \<open>Tensor statements\<close>

lemma tensor_assign_other:
  assumes "\<forall>j<n. b \<noteq> dst + j"
  shows "tensor_assign dst n e h b = h b"
  unfolding tensor_assign_def
  by (rule Launch_frame) (use assms in simp)

lemma tensor_assign_at:
  assumes "i < n"
    and dep: "\<And>h h'. (\<forall>q\<in>set rs. h (q + i) = h' (q + i)) \<Longrightarrow> e h i = e h' i"
    and sep: "\<forall>q\<in>set rs. dst = q \<or> separate dst n q n"
  shows "tensor_assign dst n e h (dst + i) = e h i"
proof -
  have "Launch n (\<lambda>i h. h(dst + i := e h i)) h (dst + i) = (h(dst + i := e h i)) (dst + i)"
  proof (rule Launch_elementwise[where ws = "[dst]" and rs = "dst # rs"])
    show "i < n" by fact
    show "\<forall>p\<in>set [dst]. \<forall>q\<in>set (dst # rs). p = q \<or> separate p n q n"
      using sep by simp
    show "\<exists>q\<in>set (dst # rs). dst + i = q + i" by simp
  next
    fix j b and h :: heap
    assume "\<forall>p\<in>set [dst]. b \<noteq> p + j"
    then show "(h(dst + j := e h j)) b = h b" by simp
  next
    fix h h' :: heap
    assume "\<forall>q\<in>set (dst # rs). h (q + i) = h' (q + i)"
    then have "e h i = e h' i" by (intro dep) simp
    then show "(h(dst + i := e h i)) (dst + i) = (h'(dst + i := e h' i)) (dst + i)" by simp
  qed
  then show ?thesis by (simp add: tensor_assign_def)
qed

lemma tensor_assign_other_region:
  assumes "separate dst n q n" "i < n"
  shows "tensor_assign dst n e h (q + i) = h (q + i)"
  by (rule tensor_assign_other) (use assms in \<open>auto simp: separate_def\<close>)

lemma Assign_other:
  assumes "\<forall>j<n. b \<noteq> out + j"
  shows "Assign out n req e h b = h b"
  using assms by (cases req) (simp_all add: Assign_def tensor_assign_other)

lemma Assign_other_region:
  assumes "separate out n q n" "i < n"
  shows "Assign out n req e h (q + i) = h (q + i)"
  by (rule Assign_other) (use assms in \<open>auto simp: separate_def\<close>)

lemma Assign_at:
  assumes "i < n"
    and dep: "\<And>h h'. (\<forall>q\<in>set rs. h (q + i) = h' (q + i)) \<Longrightarrow> e h i = e h' i"
    and sep: "\<forall>q\<in>set rs. out = q \<or> separate out n q n"
  shows "Assign out n req e h (out + i) = KERNEL_ASSIGN (out + i) req (e h i) h (out + i)"
proof (cases req)
  case kAddTo
  have "tensor_assign out n (\<lambda>h i. h (out + i) + e h i) h (out + i) = h (out + i) + e h i"
  proof (rule tensor_assign_at[where rs = "out # rs"])
    show "i < n" by fact
    show "\<forall>q\<in>set (out # rs). out = q \<or> separate out n q n" using sep by simp
  next
    fix h h' :: heap assume *: "\<forall>q\<in>set (out # rs). h (q + i) = h' (q + i)"
    then have "e h i = e h' i" by (intro dep) simp
    then show "h (out + i) + e h i = h' (out + i) + e h' i" using * by simp
  qed
  then show ?thesis using kAddTo by (simp add: Assign_def KERNEL_ASSIGN_def)
qed (use assms in \<open>simp_all add: Assign_def KERNEL_ASSIGN_def tensor_assign_at[where rs = rs]\<close>)

section \<open>Dense Adam\<close>

text \<open>The dense entry point with the clipping decision made by \<open>clipped\<close>.\<close>

lemma AdamUpdate_clipped:
  "AdamUpdate param inputs req outputs h =
     (let weight = dptr (inputs ! 0); grad = dptr (inputs ! 1); mean = dptr (inputs ! 2);
          var = dptr (inputs ! 3); out = dptr (outputs ! 0);
          h1 = tensor_assign grad (Size (blob_shape (inputs ! 1)))
                 (\<lambda>h i. AdamParam.rescale_grad param * h (grad + i)
                          + AdamParam.wd param * h (weight + i)) h;
          h2 = tensor_assign mean (Size (blob_shape (inputs ! 2)))
                 (\<lambda>h i. AdamParam.beta1 param * h (mean + i)
                          + (1 - AdamParam.beta1 param)
                            * clipped (AdamParam.clip_gradient param) (h (grad + i))) h1;
          h3 = tensor_assign var (Size (blob_shape (inputs ! 3)))
                 (\<lambda>h i. AdamParam.beta2 param * h (var + i)
                          + (1 - AdamParam.beta2 param)
                            * (clipped (AdamParam.clip_gradient param) (h (grad + i))
                               * clipped (AdamParam.clip_gradient param) (h (grad + i)))) h2
      in Assign out (Size (blob_shape (outputs ! 0))) (req ! 0)
           (\<lambda>h i. h (weight + i)
                    - AdamParam.lr param * h (mean + i)
                      / (sqrt (h (var + i)) + AdamParam.epsilon param)) h3)"
  by (cases "AdamParam.clip_gradient param \<ge> 0")
     (simp_all add: AdamUpdate_def Let_def clip_clipped clipped_neg square_def square_root_def)

lemma AdamUpdate_cells:
  fixes weight grad mean var out :: TBlob and param :: AdamParam and req :: OpReqType
    and h :: heap and i N :: nat
  defines "w \<equiv> dptr weight" and "g \<equiv> dptr grad" and "m \<equiv> dptr mean" and "v \<equiv> dptr var"
    and "o' \<equiv> dptr out"
  assumes sizes: "Size (blob_shape grad) = N" "Size (blob_shape mean) = N"
      "Size (blob_shape var) = N" "Size (blob_shape out) = N"
    and i: "i < N"
    and ow: "o' = w \<or> separate o' N w N"
    and g: "separate g N w N" "separate g N m N" "separate g N v N" "separate g N o' N"
    and m: "separate m N v N" "separate m N w N" "separate m N o' N"
    and v: "separate v N w N" "separate v N o' N"
  defines "h' \<equiv> AdamUpdate param [weight, grad, mean, var] [req] [out] h"
    and "grad' \<equiv> AdamParam.rescale_grad param * h (g + i) + AdamParam.wd param * h (w + i)"
  defines "mean' \<equiv> AdamParam.beta1 param * h (m + i)
                      + (1 - AdamParam.beta1 param) * clipped (AdamParam.clip_gradient param) grad'"
    and "var' \<equiv> AdamParam.beta2 param * h (v + i)
                      + (1 - AdamParam.beta2 param)
                        * (clipped (AdamParam.clip_gradient param) grad'
                           * clipped (AdamParam.clip_gradient param) grad')"
  shows "h' (g + i) = grad'"
    and "h' (m + i) = mean'"
    and "h' (v + i) = var'"
    and "h' (o' + i) =
           KERNEL_ASSIGN (o' + i) req
             (h (w + i) - AdamParam.lr param * mean' / (sqrt var' + AdamParam.epsilon param))
             h (o' + i)"
proof -
  let ?c = "AdamParam.clip_gradient param"
  define h1 where "h1 = tensor_assign g N
      (\<lambda>h i. AdamParam.rescale_grad param * h (g + i) + AdamParam.wd param * h (w + i)) h"
  define h2 where "h2 = tensor_assign m N
      (\<lambda>h i. AdamParam.beta1 param * h (m + i)
               + (1 - AdamParam.beta1 param) * clipped ?c (h (g + i))) h1"
  define h3 where "h3 = tensor_assign v N
      (\<lambda>h i. AdamParam.beta2 param * h (v + i)
               + (1 - AdamParam.beta2 param)
                 * (clipped ?c (h (g + i)) * clipped ?c (h (g + i)))) h2"
  have h': "h' = Assign o' N req
      (\<lambda>h i. h (w + i) - AdamParam.lr param * h (m + i)
                 / (sqrt (h (v + i)) + AdamParam.epsilon param)) h3"
    unfolding h'_def AdamUpdate_clipped
    by (simp add: Let_def sizes h1_def h2_def h3_def w_def g_def m_def v_def o'_def)
  note sym = separate_sym
  \<comment> \<open>after the gradient statement\<close>
  have h1_g: "h1 (g + i) = grad'"
    unfolding h1_def grad'_def
    by (rule tensor_assign_at[where rs = "[g, w]"]) (use i g in simp_all)
  have h1_w: "h1 (w + i) = h (w + i)" and h1_m: "h1 (m + i) = h (m + i)"
    and h1_v: "h1 (v + i) = h (v + i)" and h1_o: "h1 (o' + i) = h (o' + i)"
    unfolding h1_def using i g by (simp_all add: tensor_assign_other_region)
  \<comment> \<open>after the mean statement\<close>
  have h2_m: "h2 (m + i) = mean'"
  proof -
    have "h2 (m + i) = AdamParam.beta1 param * h1 (m + i)
               + (1 - AdamParam.beta1 param) * clipped ?c (h1 (g + i))"
      unfolding h2_def
      by (rule tensor_assign_at[where rs = "[m, g]"]) (use i g(2)[THEN sym] in simp_all)
    then show ?thesis by (simp add: h1_m h1_g mean'_def)
  qed
  have h2_g: "h2 (g + i) = grad'" and h2_w: "h2 (w + i) = h (w + i)"
    and h2_v: "h2 (v + i) = h (v + i)" and h2_o: "h2 (o' + i) = h (o' + i)"
    unfolding h2_def using i m g(2)[THEN sym]
    by (simp_all add: tensor_assign_other_region h1_g h1_w h1_v h1_o)
  \<comment> \<open>after the var statement\<close>
  have h3_v: "h3 (v + i) = var'"
  proof -
    have "h3 (v + i) = AdamParam.beta2 param * h2 (v + i)
               + (1 - AdamParam.beta2 param)
                 * (clipped ?c (h2 (g + i)) * clipped ?c (h2 (g + i)))"
      unfolding h3_def
      by (rule tensor_assign_at[where rs = "[v, g]"]) (use i g(3)[THEN sym] in simp_all)
    then show ?thesis by (simp add: h2_v h2_g var'_def)
  qed
  have h3_g: "h3 (g + i) = grad'" and h3_w: "h3 (w + i) = h (w + i)"
    and h3_m: "h3 (m + i) = mean'" and h3_o: "h3 (o' + i) = h (o' + i)"
    unfolding h3_def using i v g(3)[THEN sym] m(1)[THEN sym]
    by (simp_all add: tensor_assign_other_region h2_g h2_w h2_m h2_o)
  \<comment> \<open>after the output statement\<close>
  show "h' (g + i) = grad'" "h' (m + i) = mean'" "h' (v + i) = var'"
    unfolding h' using i g(4)[THEN sym] m(3)[THEN sym] v(2)[THEN sym]
    by (simp_all add: Assign_other_region h3_g h3_m h3_v)
  have "h' (o' + i) = KERNEL_ASSIGN (o' + i) req
      (h3 (w + i) - AdamParam.lr param * h3 (m + i)
                 / (sqrt (h3 (v + i)) + AdamParam.epsilon param)) h3 (o' + i)"
    unfolding h'
    by (rule Assign_at[where rs = "[w, m, v]"])
       (use i ow m(3)[THEN sym] v(2)[THEN sym] in simp_all)
  then show "h' (o' + i) =
           KERNEL_ASSIGN (o' + i) req
             (h (w + i) - AdamParam.lr param * mean' / (sqrt var' + AdamParam.epsilon param))
             h (o' + i)"
    by (cases req) (simp_all add: KERNEL_ASSIGN_def h3_w h3_m h3_v h3_o)
qed

lemma sqrt_milli_bounds:
  "3162/100000 < sqrt (1/1000)" "sqrt (1/1000) < 3163/100000"
proof -
  show "3162/100000 < sqrt (1/1000)"
    by (rule real_less_rsqrt) (simp add: power2_eq_square)
  show "sqrt (1/1000) < 3163/100000"
    by (rule real_less_lsqrt) (simp_all add: power2_eq_square)
qed

lemma Adam_scenario_value:
  fixes s :: real
  assumes "3162/100000 < s" "s < 3163/100000"
  shows "\<bar>(0 - 1/1000 * (1/10) / (s + 1/100000000)) - (- 3162/1000000)\<bar> < 1/1000000"
proof -
  let ?d = "s + 1/100000000"
  have pos: "0 < ?d" using assms by simp
  have up: "1/10000 / ?d < 3163/1000000"
    using assms pos by (simp add: pos_divide_less_eq)
  have lo: "3161/1000000 < 1/10000 / ?d"
    using assms pos by (simp add: pos_less_divide_eq)
  define q where "q = 1/10000 / ?d"
  have q: "q < 3163/1000000" "3161/1000000 < q"
    using up lo by (simp_all only: q_def)
  have "(0 - 1/1000 * (1/10) / ?d) - (- 3162/1000000) = 3162/1000000 - q"
    by (simp add: q_def)
  moreover have "\<bar>3162/1000000 - q\<bar> < 1/1000000"
    unfolding abs_less_iff using q by (intro conjI; linarith)
  ultimately show ?thesis by (simp only:)
qed

lemma Adam_dense_cells_let:
  assumes A: "i < Size (blob_shape weight)
      \<and> Size (blob_shape grad) = Size (blob_shape weight) \<and> Size (blob_shape mean) = Size (blob_shape weight)
      \<and> Size (blob_shape var) = Size (blob_shape weight) \<and> Size (blob_shape out) = Size (blob_shape weight)
      \<and> (dptr out = dptr weight \<or> separate (dptr out) (Size (blob_shape weight)) (dptr weight) (Size (blob_shape weight)))
      \<and> separate (dptr grad) (Size (blob_shape weight)) (dptr weight) (Size (blob_shape weight))
      \<and> separate (dptr grad) (Size (blob_shape weight)) (dptr mean) (Size (blob_shape weight))
      \<and> separate (dptr grad) (Size (blob_shape weight)) (dptr var) (Size (blob_shape weight))
      \<and> separate (dptr grad) (Size (blob_shape weight)) (dptr out) (Size (blob_shape weight))
      \<and> separate (dptr mean) (Size (blob_shape weight)) (dptr var) (Size (blob_shape weight))
      \<and> separate (dptr mean) (Size (blob_shape weight)) (dptr weight) (Size (blob_shape weight))
      \<and> separate (dptr mean) (Size (blob_shape weight)) (dptr out) (Size (blob_shape weight))
      \<and> separate (dptr var) (Size (blob_shape weight)) (dptr weight) (Size (blob_shape weight))
      \<and> separate (dptr var) (Size (blob_shape weight)) (dptr out) (Size (blob_shape weight))"
  shows "let h' = AdamUpdate param [weight, grad, mean, var] [req] [out] h;
           grad' = clipped (AdamParam.clip_gradient param)
                     (AdamParam.rescale_grad param * h (dptr grad + i)
                        + AdamParam.wd param * h (dptr weight + i));
           mean' = AdamParam.beta1 param * h (dptr mean + i)
                     + (1 - AdamParam.beta1 param) * grad';
           var' = AdamParam.beta2 param * h (dptr var + i)
                     + (1 - AdamParam.beta2 param) * grad'\<^sup>2;
           new_weight = h (dptr weight + i)
                          - AdamParam.lr param * mean' / (sqrt var' + AdamParam.epsilon param)
       in h' (dptr mean + i) = mean'
          \<and> h' (dptr var + i) = var'
          \<and> h' (dptr out + i) = KERNEL_ASSIGN (dptr out + i) req new_weight h (dptr out + i)
          \<and> (req = kWriteTo \<or> req = kWriteInplace \<longrightarrow> h' (dptr out + i) = new_weight)"
proof -
  note cells = AdamUpdate_cells[where weight = weight and grad = grad and mean = mean
      and var = var and out = out and N = "Size (blob_shape weight)" and i = i and param = param and req = req
      and h = h]
  have c: "h' (dptr mean + i) = mean'" "h' (dptr var + i) = var'"
      "h' (dptr out + i) = KERNEL_ASSIGN (dptr out + i) req new_weight h (dptr out + i)"
    if "h' = AdamUpdate param [weight, grad, mean, var] [req] [out] h"
      and "grad' = clipped (AdamParam.clip_gradient param)
                     (AdamParam.rescale_grad param * h (dptr grad + i)
                        + AdamParam.wd param * h (dptr weight + i))"
      and "mean' = AdamParam.beta1 param * h (dptr mean + i)
                     + (1 - AdamParam.beta1 param) * grad'"
      and "var' = AdamParam.beta2 param * h (dptr var + i)
                     + (1 - AdamParam.beta2 param) * grad'\<^sup>2"
      and "new_weight = h (dptr weight + i)
                          - AdamParam.lr param * mean' / (sqrt var' + AdamParam.epsilon param)"
    for h' grad' mean' var' new_weight
    unfolding that power2_eq_square using A by (intro cells; simp)+
  show ?thesis
    unfolding Let_def using c[OF refl refl refl refl refl]
    by (simp add: KERNEL_ASSIGN_write)
qed

lemma Adam_sparse_cells_let:
  assumes B: "k < length grad_idx \<and> j < row_length \<and> distinct grad_idx
      \<and> (\<forall>x\<in>set grad_idx. x < num_rows)
      \<and> (out_data = weight_data \<or> separate out_data (num_rows * row_length) weight_data (num_rows * row_length))
      \<and> separate mean_data (num_rows * row_length) out_data (num_rows * row_length)
      \<and> separate mean_data (num_rows * row_length) weight_data (num_rows * row_length)
      \<and> separate var_data (num_rows * row_length) out_data (num_rows * row_length)
      \<and> separate var_data (num_rows * row_length) weight_data (num_rows * row_length)
      \<and> separate mean_data (num_rows * row_length) var_data (num_rows * row_length)
      \<and> separate out_data (num_rows * row_length) grad_data (length grad_idx * row_length)
      \<and> separate mean_data (num_rows * row_length) grad_data (length grad_idx * row_length)
      \<and> separate var_data (num_rows * row_length) grad_data (length grad_idx * row_length)"
  shows "let h' = Launch (length grad_idx)
                  (\<lambda>i. AdamDnsRspDnsKernel_Map req' i row_length out_data mean_data var_data
                         weight_data grad_idx grad_data c b1 b2 l d e r) hs;
           data_i = grad_idx ! k * row_length + j;
           grad_i = k * row_length + j;
           grad' = clipped c (r * hs (grad_data + grad_i) + d * hs (weight_data + data_i));
           mean' = b1 * hs (mean_data + data_i) + (1 - b1) * grad';
           var' = b2 * hs (var_data + data_i) + (1 - b2) * grad'\<^sup>2;
           new_weight = hs (weight_data + data_i) - l * mean' / (sqrt var' + e)
       in h' (mean_data + data_i) = mean'
          \<and> h' (var_data + data_i) = var'
          \<and> h' (out_data + data_i) =
              KERNEL_ASSIGN (out_data + data_i) req' new_weight hs (out_data + data_i)
          \<and> (req' = kWriteTo \<or> req' = kWriteInplace \<longrightarrow> h' (out_data + data_i) = new_weight)"
proof -
  let ?d = "grad_idx ! k * row_length + j"
  have d: "?d < num_rows * row_length"
    using B by (intro cell_bound) auto
  have ne: "mean_data + ?d \<noteq> out_data + ?d" "var_data + ?d \<noteq> out_data + ?d"
    "mean_data + ?d \<noteq> var_data + ?d" "mean_data + ?d \<noteq> weight_data + ?d"
    "var_data + ?d \<noteq> weight_data + ?d"
  proof -
    from B have s: "separate mean_data (num_rows * row_length) out_data (num_rows * row_length)"
      "separate var_data (num_rows * row_length) out_data (num_rows * row_length)"
      "separate mean_data (num_rows * row_length) var_data (num_rows * row_length)"
      "separate mean_data (num_rows * row_length) weight_data (num_rows * row_length)"
      "separate var_data (num_rows * row_length) weight_data (num_rows * row_length)"
      by blast+
    show "mean_data + ?d \<noteq> out_data + ?d" "var_data + ?d \<noteq> out_data + ?d"
      "mean_data + ?d \<noteq> var_data + ?d" "mean_data + ?d \<noteq> weight_data + ?d"
      "var_data + ?d \<noteq> weight_data + ?d"
      using separate_ne[OF s(1) d d] separate_ne[OF s(2) d d] separate_ne[OF s(3) d d]
        separate_ne[OF s(4) d d] separate_ne[OF s(5) d d] by blast+
  qed
  have at: "Launch (length grad_idx)
                  (\<lambda>i. AdamDnsRspDnsKernel_Map req' i row_length out_data mean_data var_data
                         weight_data grad_idx grad_data c b1 b2 l d e r) hs a =
            Adam_step c b1 b2 l d e r req' (out_data + ?d) (mean_data + ?d) (var_data + ?d)
              (weight_data + ?d) (grad_data + (k * row_length + j)) hs a"
    if "a = out_data + ?d \<or> a = mean_data + ?d \<or> a = var_data + ?d" for a
    using B that by (intro Launch_AdamDnsRspDns_at[where R = num_rows]) simp_all
  have m: "Launch (length grad_idx)
                  (\<lambda>i. AdamDnsRspDnsKernel_Map req' i row_length out_data mean_data var_data
                         weight_data grad_idx grad_data c b1 b2 l d e r) hs (mean_data + ?d) =
        b1 * hs (mean_data + ?d) + (1 - b1)
          * clipped c (r * hs (grad_data + (k * row_length + j)) + d * hs (weight_data + ?d))"
    by (subst at) (simp_all add: Adam_step_mean[OF ne(1) ne(3)])
  have v: "Launch (length grad_idx)
                  (\<lambda>i. AdamDnsRspDnsKernel_Map req' i row_length out_data mean_data var_data
                         weight_data grad_idx grad_data c b1 b2 l d e r) hs (var_data + ?d) =
        b2 * hs (var_data + ?d) + (1 - b2)
          * (clipped c (r * hs (grad_data + (k * row_length + j)) + d * hs (weight_data + ?d))
             * clipped c (r * hs (grad_data + (k * row_length + j)) + d * hs (weight_data + ?d)))"
    by (subst at) (simp_all add: Adam_step_var[OF ne(2) ne(3)])
  have o: "Launch (length grad_idx)
                  (\<lambda>i. AdamDnsRspDnsKernel_Map req' i row_length out_data mean_data var_data
                         weight_data grad_idx grad_data c b1 b2 l d e r) hs (out_data + ?d) =
        KERNEL_ASSIGN (out_data + ?d) req'
          (hs (weight_data + ?d)
             - l * (b1 * hs (mean_data + ?d) + (1 - b1)
                      * clipped c (r * hs (grad_data + (k * row_length + j))
                                     + d * hs (weight_data + ?d)))
               / (sqrt (b2 * hs (var_data + ?d) + (1 - b2)
                      * (clipped c (r * hs (grad_data + (k * row_length + j))
                                      + d * hs (weight_data + ?d))
                         * clipped c (r * hs (grad_data + (k * row_length + j))
                                        + d * hs (weight_data + ?d)))) + e)) hs (out_data + ?d)"
    by (subst at) (simp_all add: Adam_step_out[OF ne(1) ne(2) ne(3) ne(4) ne(5)])
  show ?thesis
    unfolding Let_def power2_eq_square m v o
    by (simp add: KERNEL_ASSIGN_write)
qed

lemma Adam_scenario:
  "let h' = AdamUpdate
                  \<lparr>AdamParam.lr = 1/1000, beta1 = 9/10, beta2 = 999/1000, epsilon = 1/100000000, wd = 0, rescale_grad = 1, clip_gradient = - 1\<rparr>
                  [\<lparr>dptr = 0, blob_shape = [1]\<rparr>, \<lparr>dptr = 1, blob_shape = [1]\<rparr>,
                   \<lparr>dptr = 2, blob_shape = [1]\<rparr>, \<lparr>dptr = 3, blob_shape = [1]\<rparr>]
                  [kWriteInplace] [\<lparr>dptr = 0, blob_shape = [1]\<rparr>] ((\<lambda>_. 0)(1 := 1))
       in h' 2 = 1/10 \<and> h' 3 = 1/1000 \<and> \<bar>h' 0 - (- 3162/1000000)\<bar> < 1/1000000"
proof -
  note cells = AdamUpdate_cells[where weight = "\<lparr>dptr = 0, blob_shape = [1]\<rparr>"
      and grad = "\<lparr>dptr = 1, blob_shape = [1]\<rparr>" and mean = "\<lparr>dptr = 2, blob_shape = [1]\<rparr>"
      and var = "\<lparr>dptr = 3, blob_shape = [1]\<rparr>" and out = "\<lparr>dptr = 0, blob_shape = [1]\<rparr>"
      and N = 1 and i = 0 and req = kWriteInplace and h = "(\<lambda>_. 0)(1 := 1)"
      and param = "\<lparr>AdamParam.lr = 1/1000, beta1 = 9/10, beta2 = 999/1000, epsilon = 1/100000000, wd = 0, rescale_grad = 1, clip_gradient = - 1\<rparr>"]
  let ?h' = "AdamUpdate
                  \<lparr>AdamParam.lr = 1/1000, beta1 = 9/10, beta2 = 999/1000, epsilon = 1/100000000, wd = 0, rescale_grad = 1, clip_gradient = - 1\<rparr>
                  [\<lparr>dptr = 0, blob_shape = [1]\<rparr>, \<lparr>dptr = 1, blob_shape = [1]\<rparr>,
                   \<lparr>dptr = 2, blob_shape = [1]\<rparr>, \<lparr>dptr = 3, blob_shape = [1]\<rparr>]
                  [kWriteInplace] [\<lparr>dptr = 0, blob_shape = [1]\<rparr>] ((\<lambda>_. 0)(1 := 1))"
  have m: "?h' (2 + 0) = 1/10"
    using cells(2) by (simp add: Size_def separate_def clipped_def)
  have v: "?h' (3 + 0) = 1/1000"
    using cells(3) by (simp add: Size_def separate_def clipped_def)
  have o: "?h' (0 + 0) = 0 - 1/1000 * (1/10) / (sqrt (1/1000) + 1/100000000)"
    using cells(4) by (simp add: Size_def separate_def clipped_def KERNEL_ASSIGN_def)
  have "\<bar>?h' (0 + 0) - (- 3162/1000000)\<bar> < 1/1000000"
    unfolding o by (rule Adam_scenario_value[OF sqrt_milli_bounds])
  then show ?thesis
    using m v by (simp add: Let_def)
qed

section \<open>The gradient buffer after a dense call\<close>

lemma RMSPropUpdate_grad:
  assumes sizes: "Size (blob_shape grad) = N" "Size (blob_shape state_n) = N"
      "Size (blob_shape out) = N"
    and i: "i < N"
    and g: "separate (dptr grad) N (dptr weight) N" "separate (dptr grad) N (dptr state_n) N"
      "separate (dptr grad) N (dptr out) N"
  shows "RMSPropUpdate param [weight, grad, state_n] [req] [out] h (dptr grad + i) =
           RMSPropParam.rescale_grad param * h (dptr grad + i)
             + RMSPropParam.wd param * h (dptr weight + i)"
proof -
  have h1: "tensor_assign (dptr grad) N
              (\<lambda>h i. RMSPropParam.rescale_grad param * h (dptr grad + i)
                       + RMSPropParam.wd param * h (dptr weight + i)) h (dptr grad + i) =
            RMSPropParam.rescale_grad param * h (dptr grad + i)
              + RMSPropParam.wd param * h (dptr weight + i)"
    by (rule tensor_assign_at[where rs = "[dptr grad, dptr weight]"]) (use i g in simp_all)
  note frames = Assign_other_region[OF separate_sym[OF g(3)] i]
    tensor_assign_other_region[OF separate_sym[OF g(2)] i]
  show ?thesis
    unfolding RMSPropUpdate_def Let_def
    by (simp add: sizes frames h1)
qed

lemma RMSPropAlexUpdate_grad:
  assumes sizes: "Size (blob_shape grad) = N" "Size (blob_shape state_n) = N"
      "Size (blob_shape state_g) = N" "Size (blob_shape delta) = N" "Size (blob_shape out) = N"
    and i: "i < N"
    and g: "separate (dptr grad) N (dptr weight) N" "separate (dptr grad) N (dptr state_n) N"
      "separate (dptr grad) N (dptr state_g) N" "separate (dptr grad) N (dptr delta) N"
      "separate (dptr grad) N (dptr out) N"
  shows "RMSPropAlexUpdate param [weight, grad, state_n, state_g, delta] [req] [out] h
           (dptr grad + i) =
           RMSPropAlexParam.rescale_grad param * h (dptr grad + i)
             + RMSPropAlexParam.wd param * h (dptr weight + i)"
proof -
  have h1: "tensor_assign (dptr grad) N
              (\<lambda>h i. RMSPropAlexParam.rescale_grad param * h (dptr grad + i)
                       + RMSPropAlexParam.wd param * h (dptr weight + i)) h (dptr grad + i) =
            RMSPropAlexParam.rescale_grad param * h (dptr grad + i)
              + RMSPropAlexParam.wd param * h (dptr weight + i)"
    by (rule tensor_assign_at[where rs = "[dptr grad, dptr weight]"]) (use i g in simp_all)
  note frames = Assign_other_region[OF separate_sym[OF g(5)] i]
    tensor_assign_other_region[OF separate_sym[OF g(2)] i]
    tensor_assign_other_region[OF separate_sym[OF g(3)] i]
    tensor_assign_other_region[OF separate_sym[OF g(4)] i]
  show ?thesis
    unfolding RMSPropAlexUpdate_def Let_def
    by (simp add: sizes frames h1)
qed

lemma SGDUpdate_grad:
  assumes "i < Size (blob_shape weight)"
    and "separate (dptr out) (Size (blob_shape weight)) (dptr grad) (Size (blob_shape weight))"
  shows "SGDUpdate param [weight, grad] [req] [out] h (dptr grad + i) = h (dptr grad + i)"
  using assms
  by (simp add: SGDUpdate_def Launch_SGDKernel_grad_unchanged[where N = "Size (blob_shape weight)"])

lemma SGDMomUpdate_grad:
  assumes i: "i < Size (blob_shape weight)"
    and o: "separate (dptr out) (Size (blob_shape weight)) (dptr grad) (Size (blob_shape weight))"
    and m: "separate (dptr mom) (Size (blob_shape weight)) (dptr grad) (Size (blob_shape weight))"
  shows "SGDMomUpdate param [weight, grad, mom] [req] [out] h (dptr grad + i) = h (dptr grad + i)"
proof -
  have "Launch (Size (blob_shape weight))
          (\<lambda>i. SGDMomKernel_Map i (dptr out) (dptr mom) (dptr weight) (dptr grad)
                 (SGDMomParam.clip_gradient param) (SGDMomParam.momentum param)
                 (SGDMomParam.lr param) (SGDMomParam.wd param)
                 (SGDMomParam.rescale_grad param) req) h (dptr grad + i) = h (dptr grad + i)"
  proof (rule Launch_frame)
    fix j and h :: heap assume j: "j < Size (blob_shape weight)"
    have "\<forall>p\<in>set [dptr out, dptr mom]. dptr grad + i \<noteq> p + j"
      using separate_ne[OF o j i] separate_ne[OF m j i] by auto
    then show "SGDMomKernel_Map j (dptr out) (dptr mom) (dptr weight) (dptr grad)
                 (SGDMomParam.clip_gradient param) (SGDMomParam.momentum param)
                 (SGDMomParam.lr param) (SGDMomParam.wd param)
                 (SGDMomParam.rescale_grad param) req h (dptr grad + i) = h (dptr grad + i)"
      by (rule SGDMomKernel_Map_other)
  qed
  then show ?thesis by (simp add: SGDMomUpdate_def)
qed

section \<open>Every rule with the clipping decision made by \<open>clipped\<close>\<close>








section \<open>Dense SGD in rounded arithmetic\<close>

text \<open>The binade found is the binade of the value.\<close>

lemma binade_bounds:
  "1 / 2 ^ n \<le> a \<Longrightarrow> a < 2 * 2 ^ n \<Longrightarrow>
     2 powi (binade n a) \<le> a \<and> a < 2 powi (binade n a + 1)"
proof (induction n arbitrary: a)
  case 0
  then show ?case by simp
next
  case (Suc n)
  show ?case
  proof (cases "2 \<le> a")
    case True
    have "1 / 2 ^ n \<le> a / 2"
    proof -
      have "1 / 2 ^ n \<le> (1::real)" by (simp add: divide_le_eq)
      also have "\<dots> \<le> a / 2" using True by simp
      finally show ?thesis .
    qed
    moreover have "a / 2 < 2 * 2 ^ n" using Suc.prems by simp
    ultimately have "2 powi (binade n (a / 2)) \<le> a / 2 \<and> a / 2 < 2 powi (binade n (a / 2) + 1)"
      by (rule Suc.IH)
    then show ?thesis using True by (simp add: power_int_add)
  next
    case False
    show ?thesis
    proof (cases "a < 1")
      case True
      have "1 / 2 ^ n \<le> 2 * a" using Suc.prems by (simp add: field_simps)
      moreover have "2 * a < 2 * 2 ^ n"
      proof -
        have "2 * a < 2 * (1::real)" using True by simp
        also have "\<dots> \<le> 2 * 2 ^ n" by simp
        finally show ?thesis .
      qed
      ultimately have "2 powi (binade n (2 * a)) \<le> 2 * a \<and> 2 * a < 2 powi (binade n (2 * a) + 1)"
        by (rule Suc.IH)
      then show ?thesis using True False by (simp add: power_int_diff power_int_add)
    next
      case F2: False
      then show ?thesis using False by simp
    qed
  qed
qed

lemma binade_numeral:
  "binade (numeral k) a =
     (if 2 \<le> a then binade (pred_numeral k) (a / 2) + 1
      else if a < 1 then binade (pred_numeral k) (2 * a) - 1 else 0)"
  by (simp add: numeral_eq_Suc)

lemma float32_round_0: "float32_round 0 = 0"
  by (simp add: float32_round_def Let_def round_to_even_def)

lemmas float32_round_eval =
  float32_round_def Let_def round_to_even_def binade_numeral power_int_minus

text \<open>Without rounding, the rounded kernel is the exact one.\<close>

lemma KERNEL_ASSIGN_rounded_id: "KERNEL_ASSIGN_rounded (\<lambda>x. x) = KERNEL_ASSIGN"
  by (intro ext) (simp add: KERNEL_ASSIGN_rounded_def KERNEL_ASSIGN_def)

lemma SGDKernel_Map_rounded_id: "SGDKernel_Map_rounded (\<lambda>x. x) = SGDKernel_Map"
  by (intro ext) (simp add: SGDKernel_Map_rounded_def SGDKernel_Map_def KERNEL_ASSIGN_rounded_id)

lemma SGDUpdate_rounded_id: "SGDUpdate_rounded (\<lambda>x. x) = SGDUpdate"
  by (intro ext) (simp add: SGDUpdate_rounded_def SGDUpdate_def SGDKernel_Map_rounded_id)

lemma KERNEL_ASSIGN_rounded_other:
  "b \<noteq> a \<Longrightarrow> KERNEL_ASSIGN_rounded rnd a req v h b = h b"
  by (cases req) (simp_all add: KERNEL_ASSIGN_rounded_def)

lemma SGDKernel_Map_rounded_other:
  "b \<noteq> out + j \<Longrightarrow> SGDKernel_Map_rounded rnd j out w g c l d r req h b = h b"
  by (simp add: SGDKernel_Map_rounded_def KERNEL_ASSIGN_rounded_other)

lemma Launch_SGDKernel_rounded_grad_unchanged:
  assumes "separate out N g N" "n \<le> N" "k < N"
  shows "Launch n (\<lambda>i. SGDKernel_Map_rounded rnd i out w g c l d r req) h (g + k) = h (g + k)"
proof (rule Launch_frame)
  fix j and h :: heap assume "j < n"
  then have "g + k \<noteq> out + j" using assms by (auto simp: separate_def)
  then show "SGDKernel_Map_rounded rnd j out w g c l d r req h (g + k) = h (g + k)"
    by (rule SGDKernel_Map_rounded_other)
qed

text \<open>
  The two branches of the rounded kernel agree on a gradient cell within the bound exactly
  when the two associations of the product round to the same value.
\<close>

lemma SGDKernel_Map_rounded_branches:
  assumes "c \<ge> 0" "c' < 0" "\<bar>rnd (r * h (g + i))\<bar> \<le> c"
    and "rnd (l * rnd (r * h (g + i))) = rnd (rnd (l * r) * h (g + i))"
  shows "SGDKernel_Map_rounded rnd i out w g c l d r req h =
         SGDKernel_Map_rounded rnd i out w g c' l d r req h"
proof -
  have "clip (rnd (r * h (g + i))) c = rnd (r * h (g + i))"
    using assms(1,3) by (simp add: clip_def)
  then show ?thesis using assms(1,2,4) by (simp add: SGDKernel_Map_rounded_def)
qed

lemma Launch_SGDKernel_rounded_clip_noop:
  assumes "c \<ge> 0" "c' < 0"
    and "\<forall>i<N. \<bar>rnd (r * h (g + i))\<bar> \<le> c
               \<and> rnd (l * rnd (r * h (g + i))) = rnd (rnd (l * r) * h (g + i))"
    and "separate out N g N" "n \<le> N"
  shows "Launch n (\<lambda>i. SGDKernel_Map_rounded rnd i out w g c l d r req) h =
         Launch n (\<lambda>i. SGDKernel_Map_rounded rnd i out w g c' l d r req) h"
  using assms(5)
proof (induction n)
  case 0
  show ?case by (simp add: Launch_def)
next
  case (Suc n)
  let ?H = "Launch n (\<lambda>i. SGDKernel_Map_rounded rnd i out w g c' l d r req) h"
  have IH: "Launch n (\<lambda>i. SGDKernel_Map_rounded rnd i out w g c l d r req) h = ?H"
    using Suc by simp
  have H: "?H (g + n) = h (g + n)"
    using assms(4) Suc.prems
    by (intro Launch_SGDKernel_rounded_grad_unchanged[where N = N]) simp_all
  have "\<bar>rnd (r * h (g + n))\<bar> \<le> c"
    and "rnd (l * rnd (r * h (g + n))) = rnd (rnd (l * r) * h (g + n))"
    using assms(3) Suc.prems by simp_all
  then have "SGDKernel_Map_rounded rnd n out w g c l d r req ?H =
             SGDKernel_Map_rounded rnd n out w g c' l d r req ?H"
    using assms(1,2) H by (intro SGDKernel_Map_rounded_branches) simp_all
  with IH show ?case by (simp add: Launch_def)
qed

section \<open>The claims of the specification\<close>

text \<open>
  Claim C1. Lazy update. For the three sparse-gradient drivers (SGD, SGD with momentum,
  Adam; the update is in place, the output is the weight), whatever the write mode and
  however the call ends: a row \<open>r\<close> that the row-sparse gradient does not list keeps every
  one of its weight values, and its momentum, mean and var values. For the kernels with a
  sparse weight and a dense gradient: a stored row whose gradient row is entirely zero
  keeps its weight values and its momentum values, so no weight decay reaches it.
\<close>

theorem lazy_update_untouched_rows:
  "(L = ProdShape (blob_shape weight) 1 (length (blob_shape weight))
      \<and> dptr out = dptr weight \<and> r \<notin> set (aux_data grad s) \<and> j < L
    \<longrightarrow> mem (final_state (SGDUpdateDnsRspImpl sgd weight grad req out s))
            (dptr weight + (r * L + j)) = mem s (dptr weight + (r * L + j)))
   \<and> (L = ProdShape (blob_shape weight) 1 (length (blob_shape weight))
      \<and> dptr out = dptr weight \<and> r \<notin> set (aux_data grad s) \<and> j < L
      \<and> r < R \<and> (\<forall>x\<in>set (aux_data grad s). x < R)
      \<and> separate (dptr weight) (R * L) (dptr mom) (R * L)
    \<longrightarrow> (let s' = final_state (SGDMomUpdateDnsRspDnsImpl sgdmom weight grad mom req out s)
         in mem s' (dptr weight + (r * L + j)) = mem s (dptr weight + (r * L + j))
            \<and> mem s' (dptr mom + (r * L + j)) = mem s (dptr mom + (r * L + j))))
   \<and> (L = ProdShape (blob_shape weight) 1 (length (blob_shape weight))
      \<and> dptr out = dptr weight \<and> r \<notin> set (aux_data grad s) \<and> j < L
      \<and> r < R \<and> (\<forall>x\<in>set (aux_data grad s). x < R)
      \<and> separate (dptr weight) (R * L) (dptr mean) (R * L)
      \<and> separate (dptr weight) (R * L) (dptr var) (R * L)
      \<and> separate (dptr mean) (R * L) (dptr var) (R * L)
    \<longrightarrow> (let s' = final_state (AdamUpdateDnsRspDnsImpl adam weight grad mean var req out s)
         in mem s' (dptr weight + (r * L + j)) = mem s (dptr weight + (r * L + j))
            \<and> mem s' (dptr mean + (r * L + j)) = mem s (dptr mean + (r * L + j))
            \<and> mem s' (dptr var + (r * L + j)) = mem s (dptr var + (r * L + j))))
   \<and> (i < N \<and> k < C \<and> (\<forall>k'<C. h (g + (i * C + k')) = 0)
      \<and> separate weight_data (N * C) g (N * C)
    \<longrightarrow> Launch N (\<lambda>i. SGDRspDnsKernel_Map req' i C weight_data weight_data g pc pl pd pr) h
            (weight_data + (i * C + k)) = h (weight_data + (i * C + k)))
   \<and> (i < N \<and> k < C \<and> (\<forall>k'<C. h (g + (i * C + k')) = 0)
      \<and> separate weight_data (N * C) g (N * C) \<and> separate mom_data (N * C) g (N * C)
      \<and> separate weight_data (N * C) mom_data (N * C)
    \<longrightarrow> (let h' = Launch N
                     (\<lambda>i. SGDMomRspDnsKernel_Map req' i C weight_data mom_data weight_data g
                            pc pm pl pd pr) h
         in h' (weight_data + (i * C + k)) = h (weight_data + (i * C + k))
            \<and> h' (mom_data + (i * C + k)) = h (mom_data + (i * C + k))))"
proof (intro conjI impI)
  assume A: "L = ProdShape (blob_shape weight) 1 (length (blob_shape weight))
      \<and> dptr out = dptr weight \<and> r \<notin> set (aux_data grad s) \<and> j < L"
  then have "\<forall>x\<in>set (aux_data grad s). \<forall>j'<L.
               dptr weight + (r * L + j) \<noteq> dptr out + (x * L + j')"
    using unlisted_row_cell[of r "aux_data grad s" j L] by auto
  then show "mem (final_state (SGDUpdateDnsRspImpl sgd weight grad req out s))
            (dptr weight + (r * L + j)) = mem s (dptr weight + (r * L + j))"
    using A by (intro SGDUpdateDnsRspImpl_frame) simp
next
  assume A: "L = ProdShape (blob_shape weight) 1 (length (blob_shape weight))
      \<and> dptr out = dptr weight \<and> r \<notin> set (aux_data grad s) \<and> j < L
      \<and> r < R \<and> (\<forall>x\<in>set (aux_data grad s). x < R)
      \<and> separate (dptr weight) (R * L) (dptr mom) (R * L)"
  then have sym: "separate (dptr mom) (R * L) (dptr weight) (R * L)"
    by (blast intro: separate_sym)
  note safe = unlisted_row_safe[of r "aux_data grad s" j L R]
  have ww: "\<forall>x\<in>set (aux_data grad s). \<forall>j'<L.
              dptr weight + (r * L + j) \<noteq> dptr weight + (x * L + j')"
    and wm: "\<forall>x\<in>set (aux_data grad s). \<forall>j'<L.
              dptr weight + (r * L + j) \<noteq> dptr mom + (x * L + j')"
    and mw: "\<forall>x\<in>set (aux_data grad s). \<forall>j'<L.
              dptr mom + (r * L + j) \<noteq> dptr weight + (x * L + j')"
    and mm: "\<forall>x\<in>set (aux_data grad s). \<forall>j'<L.
              dptr mom + (r * L + j) \<noteq> dptr mom + (x * L + j')"
    using A sym by (intro safe; blast)+
  have 1: "mem (final_state (SGDMomUpdateDnsRspDnsImpl sgdmom weight grad mom req out s))
             (dptr weight + (r * L + j)) = mem s (dptr weight + (r * L + j))"
    using A ww wm by (intro SGDMomUpdateDnsRspDnsImpl_frame) simp
  have 2: "mem (final_state (SGDMomUpdateDnsRspDnsImpl sgdmom weight grad mom req out s))
             (dptr mom + (r * L + j)) = mem s (dptr mom + (r * L + j))"
    using A mw mm by (intro SGDMomUpdateDnsRspDnsImpl_frame) simp
  show "let s' = final_state (SGDMomUpdateDnsRspDnsImpl sgdmom weight grad mom req out s)
         in mem s' (dptr weight + (r * L + j)) = mem s (dptr weight + (r * L + j))
            \<and> mem s' (dptr mom + (r * L + j)) = mem s (dptr mom + (r * L + j))"
    using 1 2 by (simp add: Let_def)
next
  assume A: "L = ProdShape (blob_shape weight) 1 (length (blob_shape weight))
      \<and> dptr out = dptr weight \<and> r \<notin> set (aux_data grad s) \<and> j < L
      \<and> r < R \<and> (\<forall>x\<in>set (aux_data grad s). x < R)
      \<and> separate (dptr weight) (R * L) (dptr mean) (R * L)
      \<and> separate (dptr weight) (R * L) (dptr var) (R * L)
      \<and> separate (dptr mean) (R * L) (dptr var) (R * L)"
  then have sym: "separate (dptr mean) (R * L) (dptr weight) (R * L)"
    "separate (dptr var) (R * L) (dptr weight) (R * L)"
    "separate (dptr var) (R * L) (dptr mean) (R * L)"
    by (blast intro: separate_sym)+
  note safe = unlisted_row_safe[of r "aux_data grad s" j L R]
  have w: "\<forall>x\<in>set (aux_data grad s). \<forall>j'<L.
              dptr weight + (r * L + j) \<noteq> dptr weight + (x * L + j')"
          "\<forall>x\<in>set (aux_data grad s). \<forall>j'<L.
              dptr weight + (r * L + j) \<noteq> dptr mean + (x * L + j')"
          "\<forall>x\<in>set (aux_data grad s). \<forall>j'<L.
              dptr weight + (r * L + j) \<noteq> dptr var + (x * L + j')"
    using A by (intro safe; blast)+
  have m: "\<forall>x\<in>set (aux_data grad s). \<forall>j'<L.
              dptr mean + (r * L + j) \<noteq> dptr weight + (x * L + j')"
          "\<forall>x\<in>set (aux_data grad s). \<forall>j'<L.
              dptr mean + (r * L + j) \<noteq> dptr mean + (x * L + j')"
          "\<forall>x\<in>set (aux_data grad s). \<forall>j'<L.
              dptr mean + (r * L + j) \<noteq> dptr var + (x * L + j')"
    using A sym by (intro safe; blast)+
  have v: "\<forall>x\<in>set (aux_data grad s). \<forall>j'<L.
              dptr var + (r * L + j) \<noteq> dptr weight + (x * L + j')"
          "\<forall>x\<in>set (aux_data grad s). \<forall>j'<L.
              dptr var + (r * L + j) \<noteq> dptr mean + (x * L + j')"
          "\<forall>x\<in>set (aux_data grad s). \<forall>j'<L.
              dptr var + (r * L + j) \<noteq> dptr var + (x * L + j')"
    using A sym by (intro safe; blast)+
  have 1: "mem (final_state (AdamUpdateDnsRspDnsImpl adam weight grad mean var req out s))
             (dptr weight + (r * L + j)) = mem s (dptr weight + (r * L + j))"
    using A w by (intro AdamUpdateDnsRspDnsImpl_frame) simp
  have 2: "mem (final_state (AdamUpdateDnsRspDnsImpl adam weight grad mean var req out s))
             (dptr mean + (r * L + j)) = mem s (dptr mean + (r * L + j))"
    using A m by (intro AdamUpdateDnsRspDnsImpl_frame) simp
  have 3: "mem (final_state (AdamUpdateDnsRspDnsImpl adam weight grad mean var req out s))
             (dptr var + (r * L + j)) = mem s (dptr var + (r * L + j))"
    using A v by (intro AdamUpdateDnsRspDnsImpl_frame) simp
  show "let s' = final_state (AdamUpdateDnsRspDnsImpl adam weight grad mean var req out s)
         in mem s' (dptr weight + (r * L + j)) = mem s (dptr weight + (r * L + j))
            \<and> mem s' (dptr mean + (r * L + j)) = mem s (dptr mean + (r * L + j))
            \<and> mem s' (dptr var + (r * L + j)) = mem s (dptr var + (r * L + j))"
    using 1 2 3 by (simp add: Let_def)
next
  assume "i < N \<and> k < C \<and> (\<forall>k'<C. h (g + (i * C + k')) = 0)
      \<and> separate weight_data (N * C) g (N * C)"
  then show "Launch N (\<lambda>i. SGDRspDnsKernel_Map req' i C weight_data weight_data g pc pl pd pr) h
            (weight_data + (i * C + k)) = h (weight_data + (i * C + k))"
    by (intro Launch_SGDRspDns_zero_row) simp_all
next
  assume A: "i < N \<and> k < C \<and> (\<forall>k'<C. h (g + (i * C + k')) = 0)
      \<and> separate weight_data (N * C) g (N * C) \<and> separate mom_data (N * C) g (N * C)
      \<and> separate weight_data (N * C) mom_data (N * C)"
  have "Launch N (\<lambda>i. SGDMomRspDnsKernel_Map req' i C weight_data mom_data weight_data g
                            pc pm pl pd pr) h a = h a"
    if "a = weight_data + (i * C + k) \<or> a = mom_data + (i * C + k)" for a
    using A that by (intro Launch_SGDMomRspDns_zero_row[where j = k]) simp_all
  then show "let h' = Launch N
                     (\<lambda>i. SGDMomRspDnsKernel_Map req' i C weight_data mom_data weight_data g
                            pc pm pl pd pr) h
         in h' (weight_data + (i * C + k)) = h (weight_data + (i * C + k))
            \<and> h' (mom_data + (i * C + k)) = h (mom_data + (i * C + k))"
    by (simp add: Let_def)
qed

theorem lazy_update_untouched_rows_witness:
  "(1 = ProdShape (blob_shape \<lparr>dptr = 0, blob_shape = [2, 1]\<rparr>) 1 (length (blob_shape \<lparr>dptr = 0, blob_shape = [2, 1]\<rparr>))
      \<and> 0 \<notin> set (aux_data \<lparr>storage_type = kRowSparseStorage, shape = [2, 1], data_dptr = 6, aux_handle = 0\<rparr>
                       \<lparr>mem = (\<lambda>_. 0)(0 := 5, 1 := 1, 2 := 3, 3 := 1/4, 4 := 2, 6 := 1/2), aux = (\<lambda>_. [])(0 := [1])\<rparr>)
      \<and> list_all (\<lambda>x. x < 2) (aux_data \<lparr>storage_type = kRowSparseStorage, shape = [2, 1], data_dptr = 6, aux_handle = 0\<rparr>
                       \<lparr>mem = (\<lambda>_. 0)(0 := 5, 1 := 1, 2 := 3, 3 := 1/4, 4 := 2, 6 := 1/2), aux = (\<lambda>_. [])(0 := [1])\<rparr>)
      \<and> separate 0 (2 * 1) 2 (2 * 1) \<and> separate 0 (2 * 1) 4 (2 * 1) \<and> separate 2 (2 * 1) 4 (2 * 1))
   \<and> mem (final_state (SGDUpdateDnsRspImpl \<lparr>SGDParam.lr = 1/10, wd = 1/100, rescale_grad = 1, clip_gradient = - 1\<rparr>
          \<lparr>dptr = 0, blob_shape = [2, 1]\<rparr> \<lparr>storage_type = kRowSparseStorage, shape = [2, 1], data_dptr = 6, aux_handle = 0\<rparr>
          kWriteInplace \<lparr>dptr = 0, blob_shape = [2, 1]\<rparr>
          \<lparr>mem = (\<lambda>_. 0)(0 := 5, 1 := 1, 2 := 3, 3 := 1/4, 4 := 2, 6 := 1/2), aux = (\<lambda>_. [])(0 := [1])\<rparr>))
        (0 + (0 * 1 + 0)) = 5
   \<and> mem (final_state (SGDMomUpdateDnsRspDnsImpl
          \<lparr>SGDMomParam.lr = 1/10, momentum = 9/10, wd = 1/100, rescale_grad = 1, clip_gradient = - 1\<rparr>
          \<lparr>dptr = 0, blob_shape = [2, 1]\<rparr> \<lparr>storage_type = kRowSparseStorage, shape = [2, 1], data_dptr = 6, aux_handle = 0\<rparr>
          \<lparr>dptr = 2, blob_shape = [2, 1]\<rparr> kWriteInplace \<lparr>dptr = 0, blob_shape = [2, 1]\<rparr>
          \<lparr>mem = (\<lambda>_. 0)(0 := 5, 1 := 1, 2 := 3, 3 := 1/4, 4 := 2, 6 := 1/2), aux = (\<lambda>_. [])(0 := [1])\<rparr>))
        (0 + (0 * 1 + 0)) = 5
   \<and> mem (final_state (SGDMomUpdateDnsRspDnsImpl
          \<lparr>SGDMomParam.lr = 1/10, momentum = 9/10, wd = 1/100, rescale_grad = 1, clip_gradient = - 1\<rparr>
          \<lparr>dptr = 0, blob_shape = [2, 1]\<rparr> \<lparr>storage_type = kRowSparseStorage, shape = [2, 1], data_dptr = 6, aux_handle = 0\<rparr>
          \<lparr>dptr = 2, blob_shape = [2, 1]\<rparr> kWriteInplace \<lparr>dptr = 0, blob_shape = [2, 1]\<rparr>
          \<lparr>mem = (\<lambda>_. 0)(0 := 5, 1 := 1, 2 := 3, 3 := 1/4, 4 := 2, 6 := 1/2), aux = (\<lambda>_. [])(0 := [1])\<rparr>))
        (2 + (0 * 1 + 0)) = 3
   \<and> mem (final_state (AdamUpdateDnsRspDnsImpl
          \<lparr>AdamParam.lr = 1/1000, beta1 = 9/10, beta2 = 999/1000, epsilon = 1/100000000, wd = 1/100, rescale_grad = 1, clip_gradient = - 1\<rparr>
          \<lparr>dptr = 0, blob_shape = [2, 1]\<rparr> \<lparr>storage_type = kRowSparseStorage, shape = [2, 1], data_dptr = 6, aux_handle = 0\<rparr>
          \<lparr>dptr = 2, blob_shape = [2, 1]\<rparr> \<lparr>dptr = 4, blob_shape = [2, 1]\<rparr> kWriteInplace \<lparr>dptr = 0, blob_shape = [2, 1]\<rparr>
          \<lparr>mem = (\<lambda>_. 0)(0 := 5, 1 := 1, 2 := 3, 3 := 1/4, 4 := 2, 6 := 1/2), aux = (\<lambda>_. [])(0 := [1])\<rparr>))
        (0 + (0 * 1 + 0)) = 5
   \<and> mem (final_state (AdamUpdateDnsRspDnsImpl
          \<lparr>AdamParam.lr = 1/1000, beta1 = 9/10, beta2 = 999/1000, epsilon = 1/100000000, wd = 1/100, rescale_grad = 1, clip_gradient = - 1\<rparr>
          \<lparr>dptr = 0, blob_shape = [2, 1]\<rparr> \<lparr>storage_type = kRowSparseStorage, shape = [2, 1], data_dptr = 6, aux_handle = 0\<rparr>
          \<lparr>dptr = 2, blob_shape = [2, 1]\<rparr> \<lparr>dptr = 4, blob_shape = [2, 1]\<rparr> kWriteInplace \<lparr>dptr = 0, blob_shape = [2, 1]\<rparr>
          \<lparr>mem = (\<lambda>_. 0)(0 := 5, 1 := 1, 2 := 3, 3 := 1/4, 4 := 2, 6 := 1/2), aux = (\<lambda>_. [])(0 := [1])\<rparr>))
        (2 + (0 * 1 + 0)) = 3
   \<and> mem (final_state (AdamUpdateDnsRspDnsImpl
          \<lparr>AdamParam.lr = 1/1000, beta1 = 9/10, beta2 = 999/1000, epsilon = 1/100000000, wd = 1/100, rescale_grad = 1, clip_gradient = - 1\<rparr>
          \<lparr>dptr = 0, blob_shape = [2, 1]\<rparr> \<lparr>storage_type = kRowSparseStorage, shape = [2, 1], data_dptr = 6, aux_handle = 0\<rparr>
          \<lparr>dptr = 2, blob_shape = [2, 1]\<rparr> \<lparr>dptr = 4, blob_shape = [2, 1]\<rparr> kWriteInplace \<lparr>dptr = 0, blob_shape = [2, 1]\<rparr>
          \<lparr>mem = (\<lambda>_. 0)(0 := 5, 1 := 1, 2 := 3, 3 := 1/4, 4 := 2, 6 := 1/2), aux = (\<lambda>_. [])(0 := [1])\<rparr>))
        (4 + (0 * 1 + 0)) = 2
   \<and> (list_all (\<lambda>k'. ((\<lambda>_. 0)(0 := 5, 1 := 1, 2 := 3, 3 := 1/4, 4 := 0, 5 := 1)) (4 + (0 * 1 + k')) = 0) [0..<1]
        \<and> separate 0 (2 * 1) 4 (2 * 1) \<and> separate 2 (2 * 1) 4 (2 * 1) \<and> separate 0 (2 * 1) 2 (2 * 1))
   \<and> Launch 2 (\<lambda>i. SGDRspDnsKernel_Map kWriteInplace i 1 0 0 4 (- 1) (1/10) (1/100) 1)
        ((\<lambda>_. 0)(0 := 5, 1 := 1, 2 := 3, 3 := 1/4, 4 := 0, 5 := 1)) (0 + (0 * 1 + 0)) = 5
   \<and> Launch 2 (\<lambda>i. SGDMomRspDnsKernel_Map kWriteInplace i 1 0 2 0 4 (- 1) (9/10) (1/10) (1/100) 1)
        ((\<lambda>_. 0)(0 := 5, 1 := 1, 2 := 3, 3 := 1/4, 4 := 0, 5 := 1)) (0 + (0 * 1 + 0)) = 5
   \<and> Launch 2 (\<lambda>i. SGDMomRspDnsKernel_Map kWriteInplace i 1 0 2 0 4 (- 1) (9/10) (1/10) (1/100) 1)
        ((\<lambda>_. 0)(0 := 5, 1 := 1, 2 := 3, 3 := 1/4, 4 := 0, 5 := 1)) (2 + (0 * 1 + 0)) = 3"
  using lazy_update_untouched_rows[where L = 1 and R = 2 and r = 0 and j = 0
      and weight = "\<lparr>dptr = 0, blob_shape = [2, 1]\<rparr>" and out = "\<lparr>dptr = 0, blob_shape = [2, 1]\<rparr>"
      and grad = "\<lparr>storage_type = kRowSparseStorage, shape = [2, 1], data_dptr = 6, aux_handle = 0\<rparr>"
      and s = "\<lparr>mem = (\<lambda>_. 0)(0 := 5, 1 := 1, 2 := 3, 3 := 1/4, 4 := 2, 6 := 1/2), aux = (\<lambda>_. [])(0 := [1])\<rparr>"
      and mom = "\<lparr>dptr = 2, blob_shape = [2, 1]\<rparr>" and mean = "\<lparr>dptr = 2, blob_shape = [2, 1]\<rparr>" and var = "\<lparr>dptr = 4, blob_shape = [2, 1]\<rparr>"
      and req = kWriteInplace
      and sgd = "\<lparr>SGDParam.lr = 1/10, wd = 1/100, rescale_grad = 1, clip_gradient = - 1\<rparr>"
      and sgdmom = "\<lparr>SGDMomParam.lr = 1/10, momentum = 9/10, wd = 1/100, rescale_grad = 1, clip_gradient = - 1\<rparr>"
      and adam = "\<lparr>AdamParam.lr = 1/1000, beta1 = 9/10, beta2 = 999/1000, epsilon = 1/100000000, wd = 1/100, rescale_grad = 1, clip_gradient = - 1\<rparr>"
      and i = 0 and k = 0 and N = 2 and C = 1 and weight_data = 0 and mom_data = 2 and g = 4
      and h = "((\<lambda>_. 0)(0 := 5, 1 := 1, 2 := 3, 3 := 1/4, 4 := 0, 5 := 1))" and req' = kWriteInplace
      and pc = "- 1" and pm = "9/10" and pl = "1/10" and pd = "1/100" and pr = 1]
  by (simp add: separate_def ProdShape_def aux_data_def Let_def eval_nat_numeral)

text \<open>
  Claim C2. Dense SGD: at every index \<open>i\<close> the output cell receives, through the write
  mode, \<open>(1 - lr * wd) * weight[i] - lr * effective_gradient[i]\<close>; under an overwriting
  mode the output equals that value. The output may be the weight itself (in place) or a
  region of its own, and does not overlap the gradient. The specification's scenario
  (\<open>weight = [1.0]\<close>, \<open>grad = [0.5]\<close>, \<open>lr = 0.1\<close>, \<open>wd = 0\<close>, \<open>rescale_grad = 1\<close>,
  \<open>clip_gradient = -1\<close>) gives \<open>[0.95]\<close>.
\<close>

theorem SGD_dense_formula:
  assumes "i < Size (blob_shape weight)"
    and "dptr out = dptr weight \<or>
         separate (dptr out) (Size (blob_shape weight)) (dptr weight) (Size (blob_shape weight))"
    and "separate (dptr out) (Size (blob_shape weight)) (dptr grad) (Size (blob_shape weight))"
  shows "SGDUpdate param [weight, grad] [req] [out] h (dptr out + i) =
           KERNEL_ASSIGN (dptr out + i) req
             ((1 - SGDParam.lr param * SGDParam.wd param) * h (dptr weight + i)
                - SGDParam.lr param
                  * effective_gradient (SGDParam.rescale_grad param)
                      (SGDParam.clip_gradient param) (h (dptr grad + i))) h (dptr out + i)
         \<and> (req = kWriteTo \<or> req = kWriteInplace \<longrightarrow>
             SGDUpdate param [weight, grad] [req] [out] h (dptr out + i) =
               (1 - SGDParam.lr param * SGDParam.wd param) * h (dptr weight + i)
                  - SGDParam.lr param
                    * effective_gradient (SGDParam.rescale_grad param)
                        (SGDParam.clip_gradient param) (h (dptr grad + i)))
         \<and> SGDUpdate \<lparr>SGDParam.lr = 1/10, wd = 0, rescale_grad = 1, clip_gradient = - 1\<rparr>
               [\<lparr>dptr = 0, blob_shape = [1]\<rparr>, \<lparr>dptr = 1, blob_shape = [1]\<rparr>] [kWriteTo]
               [\<lparr>dptr = 2, blob_shape = [1]\<rparr>] ((\<lambda>_. 0)(0 := 1, 1 := 1/2)) 2 = 95/100"
proof -
  have 1: "SGDUpdate param [weight, grad] [req] [out] h (dptr out + i) =
           KERNEL_ASSIGN (dptr out + i) req
             ((1 - SGDParam.lr param * SGDParam.wd param) * h (dptr weight + i)
                - SGDParam.lr param
                  * effective_gradient (SGDParam.rescale_grad param)
                      (SGDParam.clip_gradient param) (h (dptr grad + i))) h (dptr out + i)"
    using assms by (simp add: SGDUpdate_def Launch_SGDKernel_at)
  have 2: "SGDUpdate \<lparr>SGDParam.lr = 1/10, wd = 0, rescale_grad = 1, clip_gradient = - 1\<rparr>
               [\<lparr>dptr = 0, blob_shape = [1]\<rparr>, \<lparr>dptr = 1, blob_shape = [1]\<rparr>] [kWriteTo]
               [\<lparr>dptr = 2, blob_shape = [1]\<rparr>] ((\<lambda>_. 0)(0 := 1, 1 := 1/2)) 2 = 95/100"
    by (simp add: SGDUpdate_def Launch_def Size_def SGDKernel_Map_def KERNEL_ASSIGN_def)
  show ?thesis using 1 2 by (simp add: KERNEL_ASSIGN_write)
qed

theorem SGD_dense_formula_witness:
  "0 < Size (blob_shape \<lparr>dptr = 0, blob_shape = [1]\<rparr>)
   \<and> separate 0 1 1 1
   \<and> SGDUpdate \<lparr>SGDParam.lr = 1/10, wd = 0, rescale_grad = 1, clip_gradient = - 1\<rparr>
         [\<lparr>dptr = 0, blob_shape = [1]\<rparr>, \<lparr>dptr = 1, blob_shape = [1]\<rparr>] [kWriteInplace]
         [\<lparr>dptr = 0, blob_shape = [1]\<rparr>] ((\<lambda>_. 0)(0 := 1, 1 := 1/2)) 0 = 95/100"
  using SGD_dense_formula[where i = 0 and weight = "\<lparr>dptr = 0, blob_shape = [1]\<rparr>"
      and out = "\<lparr>dptr = 0, blob_shape = [1]\<rparr>" and grad = "\<lparr>dptr = 1, blob_shape = [1]\<rparr>"
      and req = kWriteInplace and h = "(\<lambda>_. 0)(0 := 1, 1 := 1/2)"
      and param = "\<lparr>SGDParam.lr = 1/10, wd = 0, rescale_grad = 1, clip_gradient = - 1\<rparr>"]
  by (simp add: separate_def Size_def effective_gradient_def clipped_def)

text \<open>
  Claim C3. Adam, dense entry point and sparse-gradient kernel: at every index, with
  \<open>grad' = rescale_grad * grad + wd * weight\<close> (clipped when enabled), the state becomes
  \<open>mean' = beta1 * mean + (1 - beta1) * grad'\<close> and
  \<open>var' = beta2 * var + (1 - beta2) * grad'\<^sup>2\<close>, and the output cell receives
  \<open>weight - lr * mean' / (sqrt var' + epsilon)\<close> through the write mode, with no
  bias-correction term. The output may be the weight itself (in place); the other buffers
  do not overlap. In the specification's scenario (\<open>weight = [0]\<close>, \<open>grad = [1]\<close>,
  \<open>mean = var = [0]\<close>, \<open>lr = 0.001\<close>, \<open>beta1 = 0.9\<close>, \<open>beta2 = 0.999\<close>,
  \<open>epsilon = 1e-8\<close>, \<open>wd = 0\<close>, \<open>rescale_grad = 1\<close>) this gives \<open>mean' = 0.1\<close>,
  \<open>var' = 0.001\<close> and an output within \<open>1e-6\<close> of \<open>-0.003162\<close>.
\<close>

theorem Adam_formula:
  "(i < Size (blob_shape weight)
      \<and> Size (blob_shape grad) = Size (blob_shape weight) \<and> Size (blob_shape mean) = Size (blob_shape weight)
      \<and> Size (blob_shape var) = Size (blob_shape weight) \<and> Size (blob_shape out) = Size (blob_shape weight)
      \<and> (dptr out = dptr weight \<or> separate (dptr out) (Size (blob_shape weight)) (dptr weight) (Size (blob_shape weight)))
      \<and> separate (dptr grad) (Size (blob_shape weight)) (dptr weight) (Size (blob_shape weight))
      \<and> separate (dptr grad) (Size (blob_shape weight)) (dptr mean) (Size (blob_shape weight))
      \<and> separate (dptr grad) (Size (blob_shape weight)) (dptr var) (Size (blob_shape weight))
      \<and> separate (dptr grad) (Size (blob_shape weight)) (dptr out) (Size (blob_shape weight))
      \<and> separate (dptr mean) (Size (blob_shape weight)) (dptr var) (Size (blob_shape weight))
      \<and> separate (dptr mean) (Size (blob_shape weight)) (dptr weight) (Size (blob_shape weight))
      \<and> separate (dptr mean) (Size (blob_shape weight)) (dptr out) (Size (blob_shape weight))
      \<and> separate (dptr var) (Size (blob_shape weight)) (dptr weight) (Size (blob_shape weight))
      \<and> separate (dptr var) (Size (blob_shape weight)) (dptr out) (Size (blob_shape weight))
    \<longrightarrow>
      (let h' = AdamUpdate param [weight, grad, mean, var] [req] [out] h;
           grad' = clipped (AdamParam.clip_gradient param)
                     (AdamParam.rescale_grad param * h (dptr grad + i)
                        + AdamParam.wd param * h (dptr weight + i));
           mean' = AdamParam.beta1 param * h (dptr mean + i)
                     + (1 - AdamParam.beta1 param) * grad';
           var' = AdamParam.beta2 param * h (dptr var + i)
                     + (1 - AdamParam.beta2 param) * grad'\<^sup>2;
           new_weight = h (dptr weight + i)
                          - AdamParam.lr param * mean' / (sqrt var' + AdamParam.epsilon param)
       in h' (dptr mean + i) = mean'
          \<and> h' (dptr var + i) = var'
          \<and> h' (dptr out + i) = KERNEL_ASSIGN (dptr out + i) req new_weight h (dptr out + i)
          \<and> (req = kWriteTo \<or> req = kWriteInplace \<longrightarrow> h' (dptr out + i) = new_weight)))
   \<and> (k < length grad_idx \<and> j < row_length \<and> distinct grad_idx
      \<and> (\<forall>x\<in>set grad_idx. x < num_rows)
      \<and> (out_data = weight_data \<or> separate out_data (num_rows * row_length) weight_data (num_rows * row_length))
      \<and> separate mean_data (num_rows * row_length) out_data (num_rows * row_length)
      \<and> separate mean_data (num_rows * row_length) weight_data (num_rows * row_length)
      \<and> separate var_data (num_rows * row_length) out_data (num_rows * row_length)
      \<and> separate var_data (num_rows * row_length) weight_data (num_rows * row_length)
      \<and> separate mean_data (num_rows * row_length) var_data (num_rows * row_length)
      \<and> separate out_data (num_rows * row_length) grad_data (length grad_idx * row_length)
      \<and> separate mean_data (num_rows * row_length) grad_data (length grad_idx * row_length)
      \<and> separate var_data (num_rows * row_length) grad_data (length grad_idx * row_length)
    \<longrightarrow>
      (let h' = Launch (length grad_idx)
                  (\<lambda>i. AdamDnsRspDnsKernel_Map req' i row_length out_data mean_data var_data
                         weight_data grad_idx grad_data c b1 b2 l d e r) hs;
           data_i = grad_idx ! k * row_length + j;
           grad_i = k * row_length + j;
           grad' = clipped c (r * hs (grad_data + grad_i) + d * hs (weight_data + data_i));
           mean' = b1 * hs (mean_data + data_i) + (1 - b1) * grad';
           var' = b2 * hs (var_data + data_i) + (1 - b2) * grad'\<^sup>2;
           new_weight = hs (weight_data + data_i) - l * mean' / (sqrt var' + e)
       in h' (mean_data + data_i) = mean'
          \<and> h' (var_data + data_i) = var'
          \<and> h' (out_data + data_i) =
              KERNEL_ASSIGN (out_data + data_i) req' new_weight hs (out_data + data_i)
          \<and> (req' = kWriteTo \<or> req' = kWriteInplace \<longrightarrow> h' (out_data + data_i) = new_weight)))
   \<and> (let h' = AdamUpdate
                  \<lparr>AdamParam.lr = 1/1000, beta1 = 9/10, beta2 = 999/1000, epsilon = 1/100000000, wd = 0, rescale_grad = 1, clip_gradient = - 1\<rparr>
                  [\<lparr>dptr = 0, blob_shape = [1]\<rparr>, \<lparr>dptr = 1, blob_shape = [1]\<rparr>,
                   \<lparr>dptr = 2, blob_shape = [1]\<rparr>, \<lparr>dptr = 3, blob_shape = [1]\<rparr>]
                  [kWriteInplace] [\<lparr>dptr = 0, blob_shape = [1]\<rparr>] ((\<lambda>_. 0)(1 := 1))
       in h' 2 = 1/10 \<and> h' 3 = 1/1000 \<and> \<bar>h' 0 - (- 3162/1000000)\<bar> < 1/1000000)"
  by (rule conjI, rule impI, erule Adam_dense_cells_let,
      rule conjI, rule impI, erule Adam_sparse_cells_let, rule Adam_scenario)

theorem Adam_formula_witness:
  "(0 < Size [1] \<and> separate 1 1 0 1 \<and> separate 1 1 2 1 \<and> separate 1 1 3 1 \<and> separate 2 1 3 1
      \<and> separate 2 1 0 1 \<and> separate 3 1 0 1)
   \<and> AdamUpdate
         \<lparr>AdamParam.lr = 3, beta1 = 1/2, beta2 = 1/2, epsilon = 1, wd = 1, rescale_grad = 1, clip_gradient = - 1\<rparr>
         [\<lparr>dptr = 0, blob_shape = [1]\<rparr>, \<lparr>dptr = 1, blob_shape = [1]\<rparr>, \<lparr>dptr = 2, blob_shape = [1]\<rparr>, \<lparr>dptr = 3, blob_shape = [1]\<rparr>]
         [kWriteInplace] [\<lparr>dptr = 0, blob_shape = [1]\<rparr>] ((\<lambda>_. 0)(0 := 1, 1 := 1, 3 := 4)) (2 + 0) = 1
   \<and> AdamUpdate
         \<lparr>AdamParam.lr = 3, beta1 = 1/2, beta2 = 1/2, epsilon = 1, wd = 1, rescale_grad = 1, clip_gradient = - 1\<rparr>
         [\<lparr>dptr = 0, blob_shape = [1]\<rparr>, \<lparr>dptr = 1, blob_shape = [1]\<rparr>, \<lparr>dptr = 2, blob_shape = [1]\<rparr>, \<lparr>dptr = 3, blob_shape = [1]\<rparr>]
         [kWriteInplace] [\<lparr>dptr = 0, blob_shape = [1]\<rparr>] ((\<lambda>_. 0)(0 := 1, 1 := 1, 3 := 4)) (3 + 0) = 4
   \<and> AdamUpdate
         \<lparr>AdamParam.lr = 3, beta1 = 1/2, beta2 = 1/2, epsilon = 1, wd = 1, rescale_grad = 1, clip_gradient = - 1\<rparr>
         [\<lparr>dptr = 0, blob_shape = [1]\<rparr>, \<lparr>dptr = 1, blob_shape = [1]\<rparr>, \<lparr>dptr = 2, blob_shape = [1]\<rparr>, \<lparr>dptr = 3, blob_shape = [1]\<rparr>]
         [kWriteInplace] [\<lparr>dptr = 0, blob_shape = [1]\<rparr>] ((\<lambda>_. 0)(0 := 1, 1 := 1, 3 := 4)) (0 + 0) = 0
   \<and> (distinct [1::nat] \<and> list_all (\<lambda>x. x < 2) [1::nat] \<and> separate 2 (2 * 1) 0 (2 * 1)
        \<and> separate 4 (2 * 1) 0 (2 * 1) \<and> separate 2 (2 * 1) 4 (2 * 1)
        \<and> separate 0 (2 * 1) 6 (length [1::nat] * 1) \<and> separate 2 (2 * 1) 6 (length [1::nat] * 1)
        \<and> separate 4 (2 * 1) 6 (length [1::nat] * 1))
   \<and> Launch (length [1::nat])
         (\<lambda>i. AdamDnsRspDnsKernel_Map kWriteInplace i 1 0 2 4 0 [1] 6 (- 1) (1/2) (1/2) 3 1 1 1)
         ((\<lambda>_. 0)(1 := 1, 5 := 4, 6 := 1)) (2 + ([1] ! 0 * 1 + 0)) = 1
   \<and> Launch (length [1::nat])
         (\<lambda>i. AdamDnsRspDnsKernel_Map kWriteInplace i 1 0 2 4 0 [1] 6 (- 1) (1/2) (1/2) 3 1 1 1)
         ((\<lambda>_. 0)(1 := 1, 5 := 4, 6 := 1)) (4 + ([1] ! 0 * 1 + 0)) = 4
   \<and> Launch (length [1::nat])
         (\<lambda>i. AdamDnsRspDnsKernel_Map kWriteInplace i 1 0 2 4 0 [1] 6 (- 1) (1/2) (1/2) 3 1 1 1)
         ((\<lambda>_. 0)(1 := 1, 5 := 4, 6 := 1)) (0 + ([1] ! 0 * 1 + 0)) = 0"
  using Adam_formula[where i = 0 and weight = "\<lparr>dptr = 0, blob_shape = [1]\<rparr>"
      and out = "\<lparr>dptr = 0, blob_shape = [1]\<rparr>" and grad = "\<lparr>dptr = 1, blob_shape = [1]\<rparr>"
      and mean = "\<lparr>dptr = 2, blob_shape = [1]\<rparr>" and var = "\<lparr>dptr = 3, blob_shape = [1]\<rparr>"
      and req = kWriteInplace and h = "(\<lambda>_. 0)(0 := 1, 1 := 1, 3 := 4)"
      and param = "\<lparr>AdamParam.lr = 3, beta1 = 1/2, beta2 = 1/2, epsilon = 1, wd = 1, rescale_grad = 1, clip_gradient = - 1\<rparr>"
      and k = 0 and j = 0 and grad_idx = "[1]" and row_length = 1 and num_rows = 2
      and out_data = 0 and weight_data = 0 and mean_data = 2 and var_data = 4 and grad_data = 6
      and req' = kWriteInplace and c = "- 1" and ?b1.0 = "1/2" and ?b2.0 = "1/2" and l = 3
      and d = 1 and e = 1 and r = 1 and hs = "(\<lambda>_. 0)(1 := 1, 5 := 4, 6 := 1)"]
  by (simp add: separate_def Size_def clipped_def Let_def KERNEL_ASSIGN_def eval_nat_numeral)

text \<open>
  Claim C4. SGD with momentum, dense kernel and sparse-gradient kernel: at every index the
  momentum cell is updated in place to
  \<open>mom' = momentum * mom - lr * wd * weight - lr * effective_gradient\<close>, and the output cell
  receives \<open>weight + mom'\<close> through the write mode: the weight decay sits in the momentum
  and the weight itself enters with coefficient one. The output may be the weight itself
  (in place); the momentum, the gradient and the output do not overlap.
\<close>

theorem SGDMom_formula:
  "(i < Size (blob_shape weight)
      \<and> (dptr out = dptr weight
           \<or> separate (dptr out) (Size (blob_shape weight)) (dptr weight) (Size (blob_shape weight)))
      \<and> separate (dptr out) (Size (blob_shape weight)) (dptr grad) (Size (blob_shape weight))
      \<and> separate (dptr mom) (Size (blob_shape weight)) (dptr out) (Size (blob_shape weight))
      \<and> separate (dptr mom) (Size (blob_shape weight)) (dptr weight) (Size (blob_shape weight))
      \<and> separate (dptr mom) (Size (blob_shape weight)) (dptr grad) (Size (blob_shape weight))
    \<longrightarrow>
      (let h' = SGDMomUpdate param [weight, grad, mom] [req] [out] h;
           mom' = SGDMomParam.momentum param * h (dptr mom + i)
                    - SGDMomParam.lr param * SGDMomParam.wd param * h (dptr weight + i)
                    - SGDMomParam.lr param
                      * effective_gradient (SGDMomParam.rescale_grad param)
                          (SGDMomParam.clip_gradient param) (h (dptr grad + i))
       in h' (dptr mom + i) = mom'
          \<and> h' (dptr out + i) =
              KERNEL_ASSIGN (dptr out + i) req (h (dptr weight + i) + mom') h (dptr out + i)
          \<and> (req = kWriteTo \<or> req = kWriteInplace
               \<longrightarrow> h' (dptr out + i) = h (dptr weight + i) + mom')))
   \<and> (k < length grad_idx \<and> j < row_length \<and> distinct grad_idx
      \<and> (\<forall>x\<in>set grad_idx. x < num_rows)
      \<and> (out_data = weight_data
           \<or> separate out_data (num_rows * row_length) weight_data (num_rows * row_length))
      \<and> separate mom_data (num_rows * row_length) out_data (num_rows * row_length)
      \<and> separate mom_data (num_rows * row_length) weight_data (num_rows * row_length)
      \<and> separate out_data (num_rows * row_length) grad_data (length grad_idx * row_length)
      \<and> separate mom_data (num_rows * row_length) grad_data (length grad_idx * row_length)
    \<longrightarrow>
      (let h' = Launch (length grad_idx)
                  (\<lambda>i. SGDMomDnsRspDnsKernel_Map req' i row_length out_data mom_data weight_data
                         grad_idx grad_data c m l d r) g;
           data_i = grad_idx ! k * row_length + j;
           grad_i = k * row_length + j;
           mom' = m * g (mom_data + data_i) - l * d * g (weight_data + data_i)
                    - l * effective_gradient r c (g (grad_data + grad_i))
       in h' (mom_data + data_i) = mom'
          \<and> h' (out_data + data_i) =
              KERNEL_ASSIGN (out_data + data_i) req' (g (weight_data + data_i) + mom') g
                (out_data + data_i)
          \<and> (req' = kWriteTo \<or> req' = kWriteInplace
               \<longrightarrow> h' (out_data + data_i) = g (weight_data + data_i) + mom')))"
proof (intro conjI impI)
  assume A: "i < Size (blob_shape weight)
      \<and> (dptr out = dptr weight
           \<or> separate (dptr out) (Size (blob_shape weight)) (dptr weight) (Size (blob_shape weight)))
      \<and> separate (dptr out) (Size (blob_shape weight)) (dptr grad) (Size (blob_shape weight))
      \<and> separate (dptr mom) (Size (blob_shape weight)) (dptr out) (Size (blob_shape weight))
      \<and> separate (dptr mom) (Size (blob_shape weight)) (dptr weight) (Size (blob_shape weight))
      \<and> separate (dptr mom) (Size (blob_shape weight)) (dptr grad) (Size (blob_shape weight))"
  then show "let h' = SGDMomUpdate param [weight, grad, mom] [req] [out] h;
           mom' = SGDMomParam.momentum param * h (dptr mom + i)
                    - SGDMomParam.lr param * SGDMomParam.wd param * h (dptr weight + i)
                    - SGDMomParam.lr param
                      * effective_gradient (SGDMomParam.rescale_grad param)
                          (SGDMomParam.clip_gradient param) (h (dptr grad + i))
       in h' (dptr mom + i) = mom'
          \<and> h' (dptr out + i) =
              KERNEL_ASSIGN (dptr out + i) req (h (dptr weight + i) + mom') h (dptr out + i)
          \<and> (req = kWriteTo \<or> req = kWriteInplace
               \<longrightarrow> h' (dptr out + i) = h (dptr weight + i) + mom')"
    by (simp add: SGDMomUpdate_def Let_def Launch_SGDMomKernel KERNEL_ASSIGN_write)
next
  assume B: "k < length grad_idx \<and> j < row_length \<and> distinct grad_idx
      \<and> (\<forall>x\<in>set grad_idx. x < num_rows)
      \<and> (out_data = weight_data
           \<or> separate out_data (num_rows * row_length) weight_data (num_rows * row_length))
      \<and> separate mom_data (num_rows * row_length) out_data (num_rows * row_length)
      \<and> separate mom_data (num_rows * row_length) weight_data (num_rows * row_length)
      \<and> separate out_data (num_rows * row_length) grad_data (length grad_idx * row_length)
      \<and> separate mom_data (num_rows * row_length) grad_data (length grad_idx * row_length)"
  let ?d = "grad_idx ! k * row_length + j"
  have d: "?d < num_rows * row_length"
    using B by (intro cell_bound) auto
  have ne: "mom_data + ?d \<noteq> out_data + ?d" "mom_data + ?d \<noteq> weight_data + ?d"
    using B d by (auto simp: separate_def)
  have at: "Launch (length grad_idx)
                  (\<lambda>i. SGDMomDnsRspDnsKernel_Map req' i row_length out_data mom_data weight_data
                         grad_idx grad_data c m l d r) g a =
            SGDMom_step c m l d r req' (out_data + ?d) (mom_data + ?d) (weight_data + ?d)
              (grad_data + (k * row_length + j)) g a"
    if "a = out_data + ?d \<or> a = mom_data + ?d" for a
    using B that by (intro Launch_SGDMomDnsRspDns_at[where R = num_rows]) simp_all
  show "let h' = Launch (length grad_idx)
                  (\<lambda>i. SGDMomDnsRspDnsKernel_Map req' i row_length out_data mom_data weight_data
                         grad_idx grad_data c m l d r) g;
           data_i = grad_idx ! k * row_length + j;
           grad_i = k * row_length + j;
           mom' = m * g (mom_data + data_i) - l * d * g (weight_data + data_i)
                    - l * effective_gradient r c (g (grad_data + grad_i))
       in h' (mom_data + data_i) = mom'
          \<and> h' (out_data + data_i) =
              KERNEL_ASSIGN (out_data + data_i) req' (g (weight_data + data_i) + mom') g
                (out_data + data_i)
          \<and> (req' = kWriteTo \<or> req' = kWriteInplace
               \<longrightarrow> h' (out_data + data_i) = g (weight_data + data_i) + mom')"
    unfolding Let_def
    using at[of "mom_data + ?d"] at[of "out_data + ?d"]
      SGDMom_step_mom[OF ne(1)] SGDMom_step_out[OF ne(1) ne(2)]
    by (simp add: KERNEL_ASSIGN_write)
qed

theorem SGDMom_formula_witness:
  "(0 < Size [1] \<and> separate 0 1 1 1 \<and> separate 2 1 0 1 \<and> separate 2 1 1 1)
   \<and> SGDMomUpdate
         \<lparr>SGDMomParam.lr = 1/10, momentum = 9/10, wd = 1/100, rescale_grad = 1, clip_gradient = - 1\<rparr>
         [\<lparr>dptr = 0, blob_shape = [1]\<rparr>, \<lparr>dptr = 1, blob_shape = [1]\<rparr>, \<lparr>dptr = 2, blob_shape = [1]\<rparr>]
         [kWriteInplace] [\<lparr>dptr = 0, blob_shape = [1]\<rparr>]
         ((\<lambda>_. 0)(0 := 1, 1 := 1/2, 2 := 1/4)) (2 + 0) = 174/1000
   \<and> SGDMomUpdate
         \<lparr>SGDMomParam.lr = 1/10, momentum = 9/10, wd = 1/100, rescale_grad = 1, clip_gradient = - 1\<rparr>
         [\<lparr>dptr = 0, blob_shape = [1]\<rparr>, \<lparr>dptr = 1, blob_shape = [1]\<rparr>, \<lparr>dptr = 2, blob_shape = [1]\<rparr>]
         [kWriteInplace] [\<lparr>dptr = 0, blob_shape = [1]\<rparr>]
         ((\<lambda>_. 0)(0 := 1, 1 := 1/2, 2 := 1/4)) (0 + 0) = 1174/1000
   \<and> (distinct [1::nat] \<and> list_all (\<lambda>x. x < 2) [1::nat] \<and> separate 2 (2 * 1) 0 (2 * 1)
        \<and> separate 0 (2 * 1) 4 (length [1::nat] * 1) \<and> separate 2 (2 * 1) 4 (length [1::nat] * 1))
   \<and> Launch (length [1::nat])
         (\<lambda>i. SGDMomDnsRspDnsKernel_Map kWriteInplace i 1 0 2 0 [1] 4 (- 1) (9/10) (1/10) (1/100) 1)
         ((\<lambda>_. 0)(1 := 1, 3 := 1/4, 4 := 1/2)) (2 + ([1] ! 0 * 1 + 0)) = 174/1000
   \<and> Launch (length [1::nat])
         (\<lambda>i. SGDMomDnsRspDnsKernel_Map kWriteInplace i 1 0 2 0 [1] 4 (- 1) (9/10) (1/10) (1/100) 1)
         ((\<lambda>_. 0)(1 := 1, 3 := 1/4, 4 := 1/2)) (0 + ([1] ! 0 * 1 + 0)) = 1174/1000"
  using SGDMom_formula[where i = 0 and weight = "\<lparr>dptr = 0, blob_shape = [1]\<rparr>"
      and out = "\<lparr>dptr = 0, blob_shape = [1]\<rparr>" and grad = "\<lparr>dptr = 1, blob_shape = [1]\<rparr>"
      and mom = "\<lparr>dptr = 2, blob_shape = [1]\<rparr>"
      and req = kWriteInplace and h = "(\<lambda>_. 0)(0 := 1, 1 := 1/2, 2 := 1/4)"
      and param = "\<lparr>SGDMomParam.lr = 1/10, momentum = 9/10, wd = 1/100, rescale_grad = 1,
                     clip_gradient = - 1\<rparr>"
      and k = 0 and j = 0 and grad_idx = "[1]" and row_length = 1 and num_rows = 2
      and out_data = 0 and weight_data = 0 and mom_data = 2 and grad_data = 4
      and req' = kWriteInplace and c = "- 1" and m = "9/10" and l = "1/10" and d = "1/100"
      and r = 1 and g = "(\<lambda>_. 0)(1 := 1, 3 := 1/4, 4 := 1/2)"]
  by (simp add: separate_def Size_def effective_gradient_def clipped_def Let_def
        KERNEL_ASSIGN_def eval_nat_numeral)



text \<open>
  Claim C6 as the specification states it (the output with the clip enabled and the
  rescaled gradient within the bound is identical to the output with the clip disabled)
  fails in \<^verbatim>\<open>float\<close> arithmetic. With \<open>lr = 4097/8192\<close>, \<open>rescale_grad = 8193/8192\<close>,
  \<open>wd = 0\<close>, \<open>weight = [1]\<close> and \<open>grad = [8197/8192]\<close>, all of them \<^verbatim>\<open>float\<close> values, and
  \<open>|rescale_grad * grad[0]| \<le> 2\<close>, the update with \<open>clip_gradient = 2\<close> stores
  \<open>8380413 / 2^24\<close> and the update with \<open>clip_gradient = -1\<close> stores \<open>8380414 / 2^24\<close>: the
  clipped branch rounds \<open>lr * (rescale_grad * grad[0])\<close>, the other branch
  \<open>(lr * rescale_grad) * grad[0]\<close>.
\<close>

theorem SGDUpdate_float32_clip_counterexample:
  "float32_round (4097/8192) = 4097/8192 \<and> float32_round (8193/8192) = 8193/8192
   \<and> float32_round (8197/8192) = 8197/8192
   \<and> (0::real) \<le> 2 \<and> \<bar>8193/8192 * ((\<lambda>_. 0)(0 := 1, 1 := 8197/8192) :: heap) (1 + 0)\<bar> \<le> (2::real)
   \<and> SGDUpdate_rounded float32_round
         \<lparr>SGDParam.lr = 4097/8192, wd = 0, rescale_grad = 8193/8192, clip_gradient = 2\<rparr>
         [\<lparr>dptr = 0, blob_shape = [1]\<rparr>, \<lparr>dptr = 1, blob_shape = [1]\<rparr>] [kWriteInplace]
         [\<lparr>dptr = 0, blob_shape = [1]\<rparr>] ((\<lambda>_. 0)(0 := 1, 1 := 8197/8192)) 0
       = 8380413 / 2 ^ 24
   \<and> SGDUpdate_rounded float32_round
         \<lparr>SGDParam.lr = 4097/8192, wd = 0, rescale_grad = 8193/8192, clip_gradient = - 1\<rparr>
         [\<lparr>dptr = 0, blob_shape = [1]\<rparr>, \<lparr>dptr = 1, blob_shape = [1]\<rparr>] [kWriteInplace]
         [\<lparr>dptr = 0, blob_shape = [1]\<rparr>] ((\<lambda>_. 0)(0 := 1, 1 := 8197/8192)) 0
       = 8380414 / 2 ^ 24
   \<and> SGDUpdate_rounded float32_round
         \<lparr>SGDParam.lr = 4097/8192, wd = 0, rescale_grad = 8193/8192, clip_gradient = 2\<rparr>
         [\<lparr>dptr = 0, blob_shape = [1]\<rparr>, \<lparr>dptr = 1, blob_shape = [1]\<rparr>] [kWriteInplace]
         [\<lparr>dptr = 0, blob_shape = [1]\<rparr>] ((\<lambda>_. 0)(0 := 1, 1 := 8197/8192))
     \<noteq> SGDUpdate_rounded float32_round
         \<lparr>SGDParam.lr = 4097/8192, wd = 0, rescale_grad = 8193/8192, clip_gradient = - 1\<rparr>
         [\<lparr>dptr = 0, blob_shape = [1]\<rparr>, \<lparr>dptr = 1, blob_shape = [1]\<rparr>] [kWriteInplace]
         [\<lparr>dptr = 0, blob_shape = [1]\<rparr>] ((\<lambda>_. 0)(0 := 1, 1 := 8197/8192))"
proof -
  let ?on = "SGDUpdate_rounded float32_round
         \<lparr>SGDParam.lr = 4097/8192, wd = 0, rescale_grad = 8193/8192, clip_gradient = 2\<rparr>
         [\<lparr>dptr = 0, blob_shape = [1]\<rparr>, \<lparr>dptr = 1, blob_shape = [1]\<rparr>] [kWriteInplace]
         [\<lparr>dptr = 0, blob_shape = [1]\<rparr>] ((\<lambda>_. 0)(0 := 1, 1 := 8197/8192))"
  let ?off = "SGDUpdate_rounded float32_round
         \<lparr>SGDParam.lr = 4097/8192, wd = 0, rescale_grad = 8193/8192, clip_gradient = - 1\<rparr>
         [\<lparr>dptr = 0, blob_shape = [1]\<rparr>, \<lparr>dptr = 1, blob_shape = [1]\<rparr>] [kWriteInplace]
         [\<lparr>dptr = 0, blob_shape = [1]\<rparr>] ((\<lambda>_. 0)(0 := 1, 1 := 8197/8192))"
  have rep: "float32_round (4097/8192) = 4097/8192" "float32_round (8193/8192) = 8193/8192"
    "float32_round (8197/8192) = 8197/8192"
    by (simp_all add: float32_round_eval)
  have rate: "float32_round (float32_round (1 - float32_round (4097/8192 * 0)) * 1) = 1"
    by (simp add: float32_round_0) (simp add: float32_round_eval)
  have rg: "float32_round (8193/8192 * (8197/8192)) = 8394753 / 2 ^ 23"
    by (simp add: float32_round_eval)
  have within: "clip (8394753 / 2 ^ 23) 2 = 8394753 / 2 ^ 23"
    by (simp add: clip_def)
  have lrg: "float32_round (4097/8192 * (8394753 / 2 ^ 23)) = 8396803 / 2 ^ 24"
    by (simp add: float32_round_eval)
  have lr: "float32_round (4097/8192 * (8193/8192)) = 8391680 / 2 ^ 24"
    by (simp add: float32_round_eval)
  have lrg': "float32_round (8391680 / 2 ^ 24 * (8197/8192)) = 8396802 / 2 ^ 24"
    by (simp add: float32_round_eval)
  have sub: "float32_round (1 - 8396803 / 2 ^ 24) = 8380413 / 2 ^ 24"
    by (simp add: float32_round_eval)
  have sub': "float32_round (1 - 8396802 / 2 ^ 24) = 8380414 / 2 ^ 24"
    by (simp add: float32_round_eval)
  have "?on 0 =
      float32_round (float32_round (float32_round (1 - float32_round (4097/8192 * 0)) * 1)
        - float32_round (4097/8192 * clip (float32_round (8193/8192 * (8197/8192))) 2))"
    by (simp add: SGDUpdate_rounded_def Launch_def Size_def SGDKernel_Map_rounded_def
        KERNEL_ASSIGN_rounded_def)
  also have "\<dots> = 8380413 / 2 ^ 24"
    by (simp only: rate rg within lrg sub)
  finally have on: "?on 0 = 8380413 / 2 ^ 24" .
  have "?off 0 =
      float32_round (float32_round (float32_round (1 - float32_round (4097/8192 * 0)) * 1)
        - float32_round (float32_round (4097/8192 * (8193/8192)) * (8197/8192)))"
    by (simp add: SGDUpdate_rounded_def Launch_def Size_def SGDKernel_Map_rounded_def
        KERNEL_ASSIGN_rounded_def)
  also have "\<dots> = 8380414 / 2 ^ 24"
    by (simp only: rate lr lrg' sub')
  finally have off: "?off 0 = 8380414 / 2 ^ 24" .
  have "?on 0 \<noteq> ?off 0" unfolding on off by simp
  then have ne: "?on \<noteq> ?off" by metis
  have bound: "(0::real) \<le> 2 \<and> \<bar>8193/8192 * ((\<lambda>_. 0)(0 := 1, 1 := 8197/8192) :: heap) (1 + 0)\<bar> \<le> (2::real)"
    by simp
  show ?thesis using rep bound on off ne by blast
qed

text \<open>
  Claim C6, amended. Let \<open>clip_gradient \<ge> 0\<close> and let the output not overlap the
  gradient. The dense SGD update then leaves the same memory as the update with clipping
  disabled (any negative bound), all other hyperparameters equal,
  \<^item> in the arithmetic of any rounding \<open>rnd\<close>, when at every index the rounded product
    \<open>rescale_grad * grad[i]\<close> is within the bound and the two associations
    \<open>lr * (rescale_grad * grad[i])\<close> and \<open>(lr * rescale_grad) * grad[i]\<close> round to the same
    value;
  \<^item> in particular in the arithmetic of any rounding when \<open>rescale_grad = 1\<close>, the learning
    rate and the gradients are values of the element type (the rounding leaves them as
    they are) and \<open>|rescale_grad * grad[i]| \<le> clip_gradient\<close> at every index;
  \<^item> in exact arithmetic whenever \<open>|rescale_grad * grad[i]| \<le> clip_gradient\<close> at every
    index, the rounded update without rounding being the exact one.
\<close>

theorem SGD_clip_noop_where_products_agree:
  assumes "SGDParam.clip_gradient param \<ge> 0"
    and "disabled < 0"
    and "separate (dptr out) (Size (blob_shape weight)) (dptr grad) (Size (blob_shape weight))"
  shows "((\<forall>i < Size (blob_shape weight).
             \<bar>rnd (SGDParam.rescale_grad param * h (dptr grad + i))\<bar> \<le> SGDParam.clip_gradient param
             \<and> rnd (SGDParam.lr param * rnd (SGDParam.rescale_grad param * h (dptr grad + i)))
                 = rnd (rnd (SGDParam.lr param * SGDParam.rescale_grad param) * h (dptr grad + i)))
          \<longrightarrow> SGDUpdate_rounded rnd param [weight, grad] [req] [out] h =
              SGDUpdate_rounded rnd (param\<lparr>SGDParam.clip_gradient := disabled\<rparr>)
                [weight, grad] [req] [out] h)
       \<and> (SGDParam.rescale_grad param = 1 \<and> rnd (SGDParam.lr param) = SGDParam.lr param
          \<and> (\<forall>i < Size (blob_shape weight).
                rnd (h (dptr grad + i)) = h (dptr grad + i)
                \<and> \<bar>SGDParam.rescale_grad param * h (dptr grad + i)\<bar> \<le> SGDParam.clip_gradient param)
          \<longrightarrow> SGDUpdate_rounded rnd param [weight, grad] [req] [out] h =
              SGDUpdate_rounded rnd (param\<lparr>SGDParam.clip_gradient := disabled\<rparr>)
                [weight, grad] [req] [out] h)
       \<and> ((\<forall>i < Size (blob_shape weight).
              \<bar>SGDParam.rescale_grad param * h (dptr grad + i)\<bar> \<le> SGDParam.clip_gradient param)
          \<longrightarrow> SGDUpdate param [weight, grad] [req] [out] h =
              SGDUpdate (param\<lparr>SGDParam.clip_gradient := disabled\<rparr>) [weight, grad] [req] [out] h)
       \<and> SGDUpdate_rounded (\<lambda>x. x) param [weight, grad] [req] [out] h =
           SGDUpdate param [weight, grad] [req] [out] h"
proof (intro conjI impI)
  assume "\<forall>i < Size (blob_shape weight).
             \<bar>rnd (SGDParam.rescale_grad param * h (dptr grad + i))\<bar> \<le> SGDParam.clip_gradient param
             \<and> rnd (SGDParam.lr param * rnd (SGDParam.rescale_grad param * h (dptr grad + i)))
                 = rnd (rnd (SGDParam.lr param * SGDParam.rescale_grad param) * h (dptr grad + i))"
  with assms show "SGDUpdate_rounded rnd param [weight, grad] [req] [out] h =
              SGDUpdate_rounded rnd (param\<lparr>SGDParam.clip_gradient := disabled\<rparr>)
                [weight, grad] [req] [out] h"
    by (simp add: SGDUpdate_rounded_def
        Launch_SGDKernel_rounded_clip_noop[where N = "Size (blob_shape weight)"])
next
  assume a: "SGDParam.rescale_grad param = 1 \<and> rnd (SGDParam.lr param) = SGDParam.lr param
          \<and> (\<forall>i < Size (blob_shape weight).
                rnd (h (dptr grad + i)) = h (dptr grad + i)
                \<and> \<bar>SGDParam.rescale_grad param * h (dptr grad + i)\<bar> \<le> SGDParam.clip_gradient param)"
  then have r: "SGDParam.rescale_grad param = 1"
    and l: "rnd (SGDParam.lr param) = SGDParam.lr param"
    and g: "\<And>i. i < Size (blob_shape weight) \<Longrightarrow> rnd (h (dptr grad + i)) = h (dptr grad + i)"
    and b: "\<And>i. i < Size (blob_shape weight) \<Longrightarrow>
              \<bar>SGDParam.rescale_grad param * h (dptr grad + i)\<bar> \<le> SGDParam.clip_gradient param"
    by blast+
  have "\<forall>i < Size (blob_shape weight).
             \<bar>rnd (SGDParam.rescale_grad param * h (dptr grad + i))\<bar> \<le> SGDParam.clip_gradient param
             \<and> rnd (SGDParam.lr param * rnd (SGDParam.rescale_grad param * h (dptr grad + i)))
                 = rnd (rnd (SGDParam.lr param * SGDParam.rescale_grad param) * h (dptr grad + i))"
  proof (intro allI impI)
    fix i assume i: "i < Size (blob_shape weight)"
    have "rnd (SGDParam.rescale_grad param * h (dptr grad + i)) = h (dptr grad + i)"
      using g[OF i] by (simp add: r)
    moreover have "\<bar>h (dptr grad + i)\<bar> \<le> SGDParam.clip_gradient param"
      using b[OF i] by (simp add: r)
    ultimately show "\<bar>rnd (SGDParam.rescale_grad param * h (dptr grad + i))\<bar> \<le> SGDParam.clip_gradient param
             \<and> rnd (SGDParam.lr param * rnd (SGDParam.rescale_grad param * h (dptr grad + i)))
                 = rnd (rnd (SGDParam.lr param * SGDParam.rescale_grad param) * h (dptr grad + i))"
      by (simp add: r l)
  qed
  with assms show "SGDUpdate_rounded rnd param [weight, grad] [req] [out] h =
              SGDUpdate_rounded rnd (param\<lparr>SGDParam.clip_gradient := disabled\<rparr>)
                [weight, grad] [req] [out] h"
    by (simp add: SGDUpdate_rounded_def
        Launch_SGDKernel_rounded_clip_noop[where N = "Size (blob_shape weight)"])
next
  assume "\<forall>i < Size (blob_shape weight).
              \<bar>SGDParam.rescale_grad param * h (dptr grad + i)\<bar> \<le> SGDParam.clip_gradient param"
  with assms show "SGDUpdate param [weight, grad] [req] [out] h =
              SGDUpdate (param\<lparr>SGDParam.clip_gradient := disabled\<rparr>) [weight, grad] [req] [out] h"
    by (simp add: SGDUpdate_def Launch_SGDKernel_clip_noop[where N = "Size (blob_shape weight)"])
next
  show "SGDUpdate_rounded (\<lambda>x. x) param [weight, grad] [req] [out] h =
           SGDUpdate param [weight, grad] [req] [out] h"
    by (simp add: SGDUpdate_rounded_id)
qed

theorem SGD_clip_noop_where_products_agree_witness:
  "(0::real) \<le> 2 \<and> - 1 < (0::real) \<and> separate 0 1 1 1
   \<and> float32_round (4097/8192) = 4097/8192
   \<and> float32_round (((\<lambda>_. 0)(0 := 1, 1 := 8197/8192) :: heap) (1 + 0))
       = ((\<lambda>_. 0)(0 := 1, 1 := 8197/8192) :: heap) (1 + 0)
   \<and> \<bar>1 * ((\<lambda>_. 0)(0 := 1, 1 := 8197/8192) :: heap) (1 + 0)\<bar> \<le> (2::real)
   \<and> SGDUpdate_rounded float32_round
         \<lparr>SGDParam.lr = 4097/8192, wd = 0, rescale_grad = 1, clip_gradient = 2\<rparr>
         [\<lparr>dptr = 0, blob_shape = [1]\<rparr>, \<lparr>dptr = 1, blob_shape = [1]\<rparr>] [kWriteInplace]
         [\<lparr>dptr = 0, blob_shape = [1]\<rparr>] ((\<lambda>_. 0)(0 := 1, 1 := 8197/8192))
     = SGDUpdate_rounded float32_round
         \<lparr>SGDParam.lr = 4097/8192, wd = 0, rescale_grad = 1, clip_gradient = - 1\<rparr>
         [\<lparr>dptr = 0, blob_shape = [1]\<rparr>, \<lparr>dptr = 1, blob_shape = [1]\<rparr>] [kWriteInplace]
         [\<lparr>dptr = 0, blob_shape = [1]\<rparr>] ((\<lambda>_. 0)(0 := 1, 1 := 8197/8192))"
proof -
  have rep: "float32_round (4097/8192) = 4097/8192" "float32_round (8197/8192) = 8197/8192"
    by (simp_all add: float32_round_eval)
  show ?thesis
    using SGD_clip_noop_where_products_agree[where weight = "\<lparr>dptr = 0, blob_shape = [1]\<rparr>"
      and out = "\<lparr>dptr = 0, blob_shape = [1]\<rparr>" and grad = "\<lparr>dptr = 1, blob_shape = [1]\<rparr>"
      and req = kWriteInplace and h = "(\<lambda>_. 0)(0 := 1, 1 := 8197/8192)"
      and disabled = "- 1" and rnd = float32_round
      and param = "\<lparr>SGDParam.lr = 4097/8192, wd = 0, rescale_grad = 1, clip_gradient = 2\<rparr>",
      THEN conjunct2, THEN conjunct1] rep
    by (simp add: separate_def Size_def)
qed

text \<open>
  Claim C7. The sparse-gradient drivers of SGD, SGD with momentum and Adam, called with a
  row-sparse gradient: when the gradient is uninitialized or the write mode is \<open>kNullOp\<close>,
  the call returns and the state is the one it started from; otherwise a write mode other
  than \<open>kWriteInplace\<close> is a fatal check failure, again with the state untouched; with
  \<open>kWriteInplace\<close> and non-empty tensors the call does not fail.
\<close>

theorem sparse_gradient_driver_preconditions:
  "(storage_type grad = kRowSparseStorage \<longrightarrow>
      ((\<not> storage_initialized grad s \<or> req = kNullOp) \<longrightarrow>
          SGDUpdateDnsRspImpl sgd weight grad req out s = Done s)
      \<and> (storage_initialized grad s \<and> req \<noteq> kNullOp \<and> req \<noteq> kWriteInplace \<longrightarrow>
          SGDUpdateDnsRspImpl sgd weight grad req out s =
            Fatal (CheckFailed ''kWriteInplace is expected for sparse sgd_mom_update'') s)
      \<and> (storage_initialized grad s \<and> req = kWriteInplace \<and> Size (blob_shape weight) > 0 \<longrightarrow>
          \<not> is_fatal (SGDUpdateDnsRspImpl sgd weight grad req out s)))
   \<and> ((\<not> storage_initialized grad s \<or> req = kNullOp) \<longrightarrow>
          SGDMomUpdateDnsRspDnsImpl sgdmom weight grad mom req out s = Done s)
   \<and> (storage_initialized grad s \<and> req \<noteq> kNullOp \<and> req \<noteq> kWriteInplace \<longrightarrow>
          SGDMomUpdateDnsRspDnsImpl sgdmom weight grad mom req out s =
            Fatal (CheckFailed ''kWriteInplace is expected for sparse sgd_mom_update'') s)
   \<and> (storage_initialized grad s \<and> req = kWriteInplace \<and> Size (blob_shape weight) > 0
        \<and> Size (blob_shape mom) > 0 \<longrightarrow>
          \<not> is_fatal (SGDMomUpdateDnsRspDnsImpl sgdmom weight grad mom req out s))
   \<and> ((\<not> storage_initialized grad s \<or> req = kNullOp) \<longrightarrow>
          AdamUpdateDnsRspDnsImpl adam weight grad mean var req out s = Done s)
   \<and> (storage_initialized grad s \<and> req \<noteq> kNullOp \<and> req \<noteq> kWriteInplace \<longrightarrow>
          AdamUpdateDnsRspDnsImpl adam weight grad mean var req out s =
            Fatal (CheckFailed ''kWriteInplace is expected for sparse adam_update'') s)
   \<and> (storage_initialized grad s \<and> req = kWriteInplace \<and> Size (blob_shape weight) > 0
        \<and> Size (blob_shape mean) > 0 \<and> Size (blob_shape var) > 0 \<longrightarrow>
          \<not> is_fatal (AdamUpdateDnsRspDnsImpl adam weight grad mean var req out s))"
  by (simp add: SGDUpdateDnsRspImpl_def SGDMomUpdateDnsRspDnsImpl_def AdamUpdateDnsRspDnsImpl_def
        Let_def)

theorem sparse_gradient_driver_preconditions_witness:
  "storage_type \<lparr>storage_type = kRowSparseStorage, shape = [2, 1], data_dptr = 4, aux_handle = 0\<rparr>
     = kRowSparseStorage
   \<and> storage_initialized
        \<lparr>storage_type = kRowSparseStorage, shape = [2, 1], data_dptr = 4, aux_handle = 0\<rparr>
        \<lparr>mem = (\<lambda>_. 0), aux = (\<lambda>_. [])(0 := [1])\<rparr>
   \<and> SGDUpdateDnsRspImpl \<lparr>SGDParam.lr = 1/10, wd = 0, rescale_grad = 1, clip_gradient = - 1\<rparr>
        \<lparr>dptr = 0, blob_shape = [2, 1]\<rparr>
        \<lparr>storage_type = kRowSparseStorage, shape = [2, 1], data_dptr = 4, aux_handle = 0\<rparr>
        kAddTo \<lparr>dptr = 0, blob_shape = [2, 1]\<rparr> \<lparr>mem = (\<lambda>_. 0), aux = (\<lambda>_. [])(0 := [1])\<rparr>
      = Fatal (CheckFailed ''kWriteInplace is expected for sparse sgd_mom_update'')
          \<lparr>mem = (\<lambda>_. 0), aux = (\<lambda>_. [])(0 := [1])\<rparr>
   \<and> SGDUpdateDnsRspImpl \<lparr>SGDParam.lr = 1/10, wd = 0, rescale_grad = 1, clip_gradient = - 1\<rparr>
        \<lparr>dptr = 0, blob_shape = [2, 1]\<rparr>
        \<lparr>storage_type = kRowSparseStorage, shape = [2, 1], data_dptr = 4, aux_handle = 0\<rparr>
        kNullOp \<lparr>dptr = 0, blob_shape = [2, 1]\<rparr> \<lparr>mem = (\<lambda>_. 0), aux = (\<lambda>_. [])(0 := [1])\<rparr>
      = Done \<lparr>mem = (\<lambda>_. 0), aux = (\<lambda>_. [])(0 := [1])\<rparr>
   \<and> AdamUpdateDnsRspDnsImpl
        \<lparr>AdamParam.lr = 1/1000, beta1 = 9/10, beta2 = 999/1000, epsilon = 1/100000000, wd = 0,
          rescale_grad = 1, clip_gradient = - 1\<rparr>
        \<lparr>dptr = 0, blob_shape = [2, 1]\<rparr>
        \<lparr>storage_type = kRowSparseStorage, shape = [2, 1], data_dptr = 4, aux_handle = 0\<rparr>
        \<lparr>dptr = 6, blob_shape = [2, 1]\<rparr> \<lparr>dptr = 8, blob_shape = [2, 1]\<rparr>
        kWriteTo \<lparr>dptr = 0, blob_shape = [2, 1]\<rparr> \<lparr>mem = (\<lambda>_. 0), aux = (\<lambda>_. [])(0 := [1])\<rparr>
      = Fatal (CheckFailed ''kWriteInplace is expected for sparse adam_update'')
          \<lparr>mem = (\<lambda>_. 0), aux = (\<lambda>_. [])(0 := [1])\<rparr>
   \<and> \<not> storage_initialized
        \<lparr>storage_type = kRowSparseStorage, shape = [2, 1], data_dptr = 4, aux_handle = 0\<rparr>
        \<lparr>mem = (\<lambda>_. 0), aux = (\<lambda>_. [])\<rparr>
   \<and> SGDMomUpdateDnsRspDnsImpl
        \<lparr>SGDMomParam.lr = 1/10, momentum = 9/10, wd = 0, rescale_grad = 1, clip_gradient = - 1\<rparr>
        \<lparr>dptr = 0, blob_shape = [2, 1]\<rparr>
        \<lparr>storage_type = kRowSparseStorage, shape = [2, 1], data_dptr = 4, aux_handle = 0\<rparr>
        \<lparr>dptr = 2, blob_shape = [2, 1]\<rparr> kWriteInplace \<lparr>dptr = 0, blob_shape = [2, 1]\<rparr>
        \<lparr>mem = (\<lambda>_. 0), aux = (\<lambda>_. [])\<rparr>
      = Done \<lparr>mem = (\<lambda>_. 0), aux = (\<lambda>_. [])\<rparr>
   \<and> 0 < Size (blob_shape \<lparr>dptr = 0, blob_shape = [2, 1]\<rparr>)
   \<and> \<not> is_fatal (SGDUpdateDnsRspImpl \<lparr>SGDParam.lr = 1/10, wd = 0, rescale_grad = 1, clip_gradient = - 1\<rparr>
        \<lparr>dptr = 0, blob_shape = [2, 1]\<rparr>
        \<lparr>storage_type = kRowSparseStorage, shape = [2, 1], data_dptr = 4, aux_handle = 0\<rparr>
        kWriteInplace \<lparr>dptr = 0, blob_shape = [2, 1]\<rparr> \<lparr>mem = (\<lambda>_. 0), aux = (\<lambda>_. [])(0 := [1])\<rparr>)"
  using sparse_gradient_driver_preconditions[where
      grad = "\<lparr>storage_type = kRowSparseStorage, shape = [2, 1], data_dptr = 4, aux_handle = 0\<rparr>"
      and s = "\<lparr>mem = (\<lambda>_. 0), aux = (\<lambda>_. [])\<rparr>" and req = kWriteInplace
      and sgdmom = "\<lparr>SGDMomParam.lr = 1/10, momentum = 9/10, wd = 0, rescale_grad = 1, clip_gradient = - 1\<rparr>"
      and weight = "\<lparr>dptr = 0, blob_shape = [2, 1]\<rparr>" and out = "\<lparr>dptr = 0, blob_shape = [2, 1]\<rparr>"
      and mom = "\<lparr>dptr = 2, blob_shape = [2, 1]\<rparr>"]
    sparse_gradient_driver_preconditions[where
      grad = "\<lparr>storage_type = kRowSparseStorage, shape = [2, 1], data_dptr = 4, aux_handle = 0\<rparr>"
      and s = "\<lparr>mem = (\<lambda>_. 0), aux = (\<lambda>_. [])(0 := [1])\<rparr>" and req = kWriteInplace
      and sgd = "\<lparr>SGDParam.lr = 1/10, wd = 0, rescale_grad = 1, clip_gradient = - 1\<rparr>"
      and weight = "\<lparr>dptr = 0, blob_shape = [2, 1]\<rparr>" and out = "\<lparr>dptr = 0, blob_shape = [2, 1]\<rparr>"]
    sparse_gradient_driver_preconditions[where
      grad = "\<lparr>storage_type = kRowSparseStorage, shape = [2, 1], data_dptr = 4, aux_handle = 0\<rparr>"
      and s = "\<lparr>mem = (\<lambda>_. 0), aux = (\<lambda>_. [])(0 := [1])\<rparr>" and req = kAddTo
      and sgd = "\<lparr>SGDParam.lr = 1/10, wd = 0, rescale_grad = 1, clip_gradient = - 1\<rparr>"
      and weight = "\<lparr>dptr = 0, blob_shape = [2, 1]\<rparr>" and out = "\<lparr>dptr = 0, blob_shape = [2, 1]\<rparr>"]
    sparse_gradient_driver_preconditions[where
      grad = "\<lparr>storage_type = kRowSparseStorage, shape = [2, 1], data_dptr = 4, aux_handle = 0\<rparr>"
      and s = "\<lparr>mem = (\<lambda>_. 0), aux = (\<lambda>_. [])(0 := [1])\<rparr>" and req = kNullOp
      and sgd = "\<lparr>SGDParam.lr = 1/10, wd = 0, rescale_grad = 1, clip_gradient = - 1\<rparr>"
      and weight = "\<lparr>dptr = 0, blob_shape = [2, 1]\<rparr>" and out = "\<lparr>dptr = 0, blob_shape = [2, 1]\<rparr>"]
    sparse_gradient_driver_preconditions[where
      grad = "\<lparr>storage_type = kRowSparseStorage, shape = [2, 1], data_dptr = 4, aux_handle = 0\<rparr>"
      and s = "\<lparr>mem = (\<lambda>_. 0), aux = (\<lambda>_. [])(0 := [1])\<rparr>" and req = kWriteTo
      and adam = "\<lparr>AdamParam.lr = 1/1000, beta1 = 9/10, beta2 = 999/1000,
                    epsilon = 1/100000000, wd = 0, rescale_grad = 1, clip_gradient = - 1\<rparr>"
      and weight = "\<lparr>dptr = 0, blob_shape = [2, 1]\<rparr>" and out = "\<lparr>dptr = 0, blob_shape = [2, 1]\<rparr>"
      and mean = "\<lparr>dptr = 6, blob_shape = [2, 1]\<rparr>" and var = "\<lparr>dptr = 8, blob_shape = [2, 1]\<rparr>"]
  by (simp add: storage_initialized_def aux_data_def Size_def)

text \<open>
  Claim C8, as stated, fails for SGD with momentum: with a dense weight, a dense gradient
  and a row-sparse momentum (a combination outside the sparse-supported list) the entry
  point does not delegate to the fallback; its storage-consistency check fails.
\<close>

theorem SGDMomUpdateEx_mismatch_counterexample:
  "SGDMomUpdateEx
     \<lparr>RSP_ALL_ROWS_NON_ZERO = (\<lambda>nd s. True), FillDnsZerosRspImpl = (\<lambda>nd s. s),
       FCompExFallback = (\<lambda>ins reqs outs f name mut s. Done s)\<rparr>
     \<lparr>SGDMomParam.lr = 1/10, momentum = 9/10, wd = 0, rescale_grad = 1, clip_gradient = - 1\<rparr>
     [\<lparr>storage_type = kDefaultStorage, shape = [2, 1], data_dptr = 0, aux_handle = 0\<rparr>,
      \<lparr>storage_type = kDefaultStorage, shape = [2, 1], data_dptr = 2, aux_handle = 1\<rparr>,
      \<lparr>storage_type = kRowSparseStorage, shape = [2, 1], data_dptr = 4, aux_handle = 2\<rparr>]
     [kWriteTo]
     [\<lparr>storage_type = kDefaultStorage, shape = [2, 1], data_dptr = 0, aux_handle = 0\<rparr>]
     \<lparr>mem = (\<lambda>_. 0), aux = (\<lambda>_. [])\<rparr>
   = Fatal (CheckFailed ''Inconsistent storage type detected between mom.stype and weight.stype'')
       \<lparr>mem = (\<lambda>_. 0), aux = (\<lambda>_. [])\<rparr>
   \<and> FCompExFallback
       \<lparr>RSP_ALL_ROWS_NON_ZERO = (\<lambda>nd s. True), FillDnsZerosRspImpl = (\<lambda>nd s. s),
         FCompExFallback = (\<lambda>ins reqs outs f name mut s. Done s)\<rparr>
       [\<lparr>storage_type = kDefaultStorage, shape = [2, 1], data_dptr = 0, aux_handle = 0\<rparr>,
        \<lparr>storage_type = kDefaultStorage, shape = [2, 1], data_dptr = 2, aux_handle = 1\<rparr>,
        \<lparr>storage_type = kRowSparseStorage, shape = [2, 1], data_dptr = 4, aux_handle = 2\<rparr>]
       [kWriteTo]
       [\<lparr>storage_type = kDefaultStorage, shape = [2, 1], data_dptr = 0, aux_handle = 0\<rparr>]
       (SGDMomUpdate
          \<lparr>SGDMomParam.lr = 1/10, momentum = 9/10, wd = 0, rescale_grad = 1, clip_gradient = - 1\<rparr>)
       ''SGDMomUpdate'' [2] \<lparr>mem = (\<lambda>_. 0), aux = (\<lambda>_. [])\<rparr>
     = Done \<lparr>mem = (\<lambda>_. 0), aux = (\<lambda>_. [])\<rparr>"
  by (simp add: SGDMomUpdateEx_def)

text \<open>
  Claim C8, amended. For every storage-kind combination outside its supported list
  (weight, gradient, mean, var and output all row-sparse), Adam's entry point fails
  fatally and leaves the state as it was: with the unsupported-storage error when mean and
  var have the weight's storage kind, with the failure of the storage-consistency check
  otherwise. It never densifies: the fallback collaborator has no influence on its result.
  SGD's entry point hands every combination outside its sparse-supported list to the
  fallback collaborator. SGD-momentum's entry point does so when the momentum has the
  weight's storage kind; when it has not, its storage-consistency check fails fatally.
\<close>

theorem dispatch_unsupported_storage:
  "(\<not> (storage_type weight = kRowSparseStorage \<and> storage_type mean = kRowSparseStorage
         \<and> storage_type var = kRowSparseStorage \<and> storage_type grad = kRowSparseStorage
         \<and> storage_type out = kRowSparseStorage)
    \<longrightarrow> is_fatal (AdamUpdateEx env adam [weight, grad, mean, var] [req] [out] s)
        \<and> final_state (AdamUpdateEx env adam [weight, grad, mean, var] [req] [out] s) = s
        \<and> (storage_type mean = storage_type weight \<and> storage_type var = storage_type weight
             \<longrightarrow> AdamUpdateEx env adam [weight, grad, mean, var] [req] [out] s =
                   Fatal (LogFatal ''Unexpected storage types'') s))
   \<and> AdamUpdateEx (env\<lparr>FCompExFallback := fallback\<rparr>) adam [weight, grad, mean, var] [req] [out] s
       = AdamUpdateEx env adam [weight, grad, mean, var] [req] [out] s
   \<and> (\<not> (storage_type weight = kRowSparseStorage \<and> storage_type grad = kRowSparseStorage)
      \<and> \<not> (storage_type weight = kRowSparseStorage \<and> storage_type grad = kDefaultStorage)
    \<longrightarrow> SGDUpdateEx env sgd [weight, grad] [req] [out] s =
          FCompExFallback env [weight, grad] [req] [out] (SGDUpdate sgd) ''SGDUpdate'' [] s)
   \<and> (\<not> (storage_type weight = kRowSparseStorage \<and> storage_type grad = kRowSparseStorage
           \<and> storage_type mom = kRowSparseStorage)
      \<and> \<not> (storage_type weight = kRowSparseStorage \<and> storage_type grad = kDefaultStorage
           \<and> storage_type mom = kRowSparseStorage)
      \<and> storage_type mom = storage_type weight
    \<longrightarrow> SGDMomUpdateEx env sgdmom [weight, grad, mom] [req] [out] s =
          FCompExFallback env [weight, grad, mom] [req] [out] (SGDMomUpdate sgdmom)
            ''SGDMomUpdate'' [2] s)
   \<and> (storage_type mom \<noteq> storage_type weight
    \<longrightarrow> SGDMomUpdateEx env sgdmom [weight, grad, mom] [req] [out] s =
          Fatal (CheckFailed
                   ''Inconsistent storage type detected between mom.stype and weight.stype'') s)"
proof (intro conjI impI)
  assume "\<not> (storage_type weight = kRowSparseStorage \<and> storage_type mean = kRowSparseStorage
         \<and> storage_type var = kRowSparseStorage \<and> storage_type grad = kRowSparseStorage
         \<and> storage_type out = kRowSparseStorage)"
  then have *: "AdamUpdateEx env adam [weight, grad, mean, var] [req] [out] s =
      (if storage_type mean \<noteq> storage_type weight then
         Fatal (CheckFailed
           ''Inconsistent storage type detected between  mean.stype and weight.stype'') s
       else if storage_type var \<noteq> storage_type weight then
         Fatal (CheckFailed
           ''Inconsistent storage type detected between  var.stype and weight.stype'') s
       else Fatal (LogFatal ''Unexpected storage types'') s)"
    unfolding AdamUpdateEx_def Let_def by simp blast
  show "is_fatal (AdamUpdateEx env adam [weight, grad, mean, var] [req] [out] s)"
    unfolding * by simp
  show "final_state (AdamUpdateEx env adam [weight, grad, mean, var] [req] [out] s) = s"
    unfolding * by simp
  show "AdamUpdateEx env adam [weight, grad, mean, var] [req] [out] s =
          Fatal (LogFatal ''Unexpected storage types'') s"
    if "storage_type mean = storage_type weight \<and> storage_type var = storage_type weight"
    unfolding * using that by simp
next
  have fb: "AdamUpdateRspRspRspImpl (env\<lparr>FCompExFallback := fallback\<rparr>) adam weight grad mean var
              req out s = AdamUpdateRspRspRspImpl env adam weight grad mean var req out s"
    by (simp add: AdamUpdateRspRspRspImpl_def Let_def)
  show "AdamUpdateEx (env\<lparr>FCompExFallback := fallback\<rparr>) adam [weight, grad, mean, var] [req] [out] s
       = AdamUpdateEx env adam [weight, grad, mean, var] [req] [out] s"
    unfolding AdamUpdateEx_def Let_def by (simp add: fb)
next
  assume "\<not> (storage_type weight = kRowSparseStorage \<and> storage_type grad = kRowSparseStorage)
      \<and> \<not> (storage_type weight = kRowSparseStorage \<and> storage_type grad = kDefaultStorage)"
  then show "SGDUpdateEx env sgd [weight, grad] [req] [out] s =
          FCompExFallback env [weight, grad] [req] [out] (SGDUpdate sgd) ''SGDUpdate'' [] s"
    unfolding SGDUpdateEx_def Let_def by simp blast
next
  assume "\<not> (storage_type weight = kRowSparseStorage \<and> storage_type grad = kRowSparseStorage
           \<and> storage_type mom = kRowSparseStorage)
      \<and> \<not> (storage_type weight = kRowSparseStorage \<and> storage_type grad = kDefaultStorage
           \<and> storage_type mom = kRowSparseStorage)
      \<and> storage_type mom = storage_type weight"
  then show "SGDMomUpdateEx env sgdmom [weight, grad, mom] [req] [out] s =
          FCompExFallback env [weight, grad, mom] [req] [out] (SGDMomUpdate sgdmom)
            ''SGDMomUpdate'' [2] s"
    unfolding SGDMomUpdateEx_def Let_def by simp metis
next
  assume "storage_type mom \<noteq> storage_type weight"
  then show "SGDMomUpdateEx env sgdmom [weight, grad, mom] [req] [out] s =
          Fatal (CheckFailed
                   ''Inconsistent storage type detected between mom.stype and weight.stype'') s"
    unfolding SGDMomUpdateEx_def Let_def by simp
qed

theorem dispatch_unsupported_storage_witness:
  "storage_type \<lparr>storage_type = kDefaultStorage, shape = [2, 1], data_dptr = 4, aux_handle = 2\<rparr>
     = storage_type \<lparr>storage_type = kDefaultStorage, shape = [2, 1], data_dptr = 0, aux_handle = 0\<rparr>
   \<and> storage_type \<lparr>storage_type = kDefaultStorage, shape = [2, 1], data_dptr = 0, aux_handle = 0\<rparr>
       \<noteq> kRowSparseStorage
   \<and> AdamUpdateEx
        \<lparr>RSP_ALL_ROWS_NON_ZERO = (\<lambda>nd s. True), FillDnsZerosRspImpl = (\<lambda>nd s. s), FCompExFallback = (\<lambda>ins reqs outs f name mut s. Done s)\<rparr>
        \<lparr>AdamParam.lr = 1/1000, beta1 = 9/10, beta2 = 999/1000, epsilon = 1/100000000, wd = 0, rescale_grad = 1, clip_gradient = - 1\<rparr>
        [\<lparr>storage_type = kDefaultStorage, shape = [2, 1], data_dptr = 0, aux_handle = 0\<rparr>,
         \<lparr>storage_type = kRowSparseStorage, shape = [2, 1], data_dptr = 2, aux_handle = 1\<rparr>,
         \<lparr>storage_type = kDefaultStorage, shape = [2, 1], data_dptr = 4, aux_handle = 2\<rparr>,
         \<lparr>storage_type = kDefaultStorage, shape = [2, 1], data_dptr = 6, aux_handle = 3\<rparr>]
        [kWriteInplace]
        [\<lparr>storage_type = kDefaultStorage, shape = [2, 1], data_dptr = 0, aux_handle = 0\<rparr>]
        \<lparr>mem = (\<lambda>_. 0), aux = (\<lambda>_. [])(1 := [1])\<rparr>
      = Fatal (LogFatal ''Unexpected storage types'') \<lparr>mem = (\<lambda>_. 0), aux = (\<lambda>_. [])(1 := [1])\<rparr>
   \<and> SGDUpdateEx
        \<lparr>RSP_ALL_ROWS_NON_ZERO = (\<lambda>nd s. True), FillDnsZerosRspImpl = (\<lambda>nd s. s), FCompExFallback = (\<lambda>ins reqs outs f name mut s. Done s)\<rparr>
        \<lparr>SGDParam.lr = 1/10, wd = 0, rescale_grad = 1, clip_gradient = - 1\<rparr>
        [\<lparr>storage_type = kDefaultStorage, shape = [2, 1], data_dptr = 0, aux_handle = 0\<rparr>,
         \<lparr>storage_type = kRowSparseStorage, shape = [2, 1], data_dptr = 2, aux_handle = 1\<rparr>]
        [kWriteInplace]
        [\<lparr>storage_type = kDefaultStorage, shape = [2, 1], data_dptr = 0, aux_handle = 0\<rparr>]
        \<lparr>mem = (\<lambda>_. 0), aux = (\<lambda>_. [])(1 := [1])\<rparr>
      = Done \<lparr>mem = (\<lambda>_. 0), aux = (\<lambda>_. [])(1 := [1])\<rparr>
   \<and> SGDMomUpdateEx
        \<lparr>RSP_ALL_ROWS_NON_ZERO = (\<lambda>nd s. True), FillDnsZerosRspImpl = (\<lambda>nd s. s), FCompExFallback = (\<lambda>ins reqs outs f name mut s. Done s)\<rparr>
        \<lparr>SGDMomParam.lr = 1/10, momentum = 9/10, wd = 0, rescale_grad = 1, clip_gradient = - 1\<rparr>
        [\<lparr>storage_type = kDefaultStorage, shape = [2, 1], data_dptr = 0, aux_handle = 0\<rparr>,
         \<lparr>storage_type = kRowSparseStorage, shape = [2, 1], data_dptr = 2, aux_handle = 1\<rparr>,
         \<lparr>storage_type = kDefaultStorage, shape = [2, 1], data_dptr = 4, aux_handle = 2\<rparr>]
        [kWriteInplace]
        [\<lparr>storage_type = kDefaultStorage, shape = [2, 1], data_dptr = 0, aux_handle = 0\<rparr>]
        \<lparr>mem = (\<lambda>_. 0), aux = (\<lambda>_. [])(1 := [1])\<rparr>
      = Done \<lparr>mem = (\<lambda>_. 0), aux = (\<lambda>_. [])(1 := [1])\<rparr>
   \<and> storage_type \<lparr>storage_type = kRowSparseStorage, shape = [2, 1], data_dptr = 4, aux_handle = 2\<rparr>
       \<noteq> storage_type \<lparr>storage_type = kDefaultStorage, shape = [2, 1], data_dptr = 0, aux_handle = 0\<rparr>
   \<and> SGDMomUpdateEx
        \<lparr>RSP_ALL_ROWS_NON_ZERO = (\<lambda>nd s. True), FillDnsZerosRspImpl = (\<lambda>nd s. s), FCompExFallback = (\<lambda>ins reqs outs f name mut s. Done s)\<rparr>
        \<lparr>SGDMomParam.lr = 1/10, momentum = 9/10, wd = 0, rescale_grad = 1, clip_gradient = - 1\<rparr>
        [\<lparr>storage_type = kDefaultStorage, shape = [2, 1], data_dptr = 0, aux_handle = 0\<rparr>,
         \<lparr>storage_type = kRowSparseStorage, shape = [2, 1], data_dptr = 2, aux_handle = 1\<rparr>,
         \<lparr>storage_type = kRowSparseStorage, shape = [2, 1], data_dptr = 4, aux_handle = 2\<rparr>]
        [kWriteInplace]
        [\<lparr>storage_type = kDefaultStorage, shape = [2, 1], data_dptr = 0, aux_handle = 0\<rparr>]
        \<lparr>mem = (\<lambda>_. 0), aux = (\<lambda>_. [])(1 := [1])\<rparr>
      = Fatal (CheckFailed ''Inconsistent storage type detected between mom.stype and weight.stype'')
          \<lparr>mem = (\<lambda>_. 0), aux = (\<lambda>_. [])(1 := [1])\<rparr>"
  using dispatch_unsupported_storage[where
      env = "\<lparr>RSP_ALL_ROWS_NON_ZERO = (\<lambda>nd s. True), FillDnsZerosRspImpl = (\<lambda>nd s. s), FCompExFallback = (\<lambda>ins reqs outs f name mut s. Done s)\<rparr>"
      and weight = "\<lparr>storage_type = kDefaultStorage, shape = [2, 1], data_dptr = 0, aux_handle = 0\<rparr>"
      and grad = "\<lparr>storage_type = kRowSparseStorage, shape = [2, 1], data_dptr = 2, aux_handle = 1\<rparr>"
      and mom = "\<lparr>storage_type = kRowSparseStorage, shape = [2, 1], data_dptr = 4, aux_handle = 2\<rparr>"
      and out = "\<lparr>storage_type = kDefaultStorage, shape = [2, 1], data_dptr = 0, aux_handle = 0\<rparr>"
      and req = kWriteInplace
      and s = "\<lparr>mem = (\<lambda>_. 0), aux = (\<lambda>_. [])(1 := [1])\<rparr>"
      and sgdmom = "\<lparr>SGDMomParam.lr = 1/10, momentum = 9/10, wd = 0, rescale_grad = 1, clip_gradient = - 1\<rparr>"]
    dispatch_unsupported_storage[where
      env = "\<lparr>RSP_ALL_ROWS_NON_ZERO = (\<lambda>nd s. True), FillDnsZerosRspImpl = (\<lambda>nd s. s), FCompExFallback = (\<lambda>ins reqs outs f name mut s. Done s)\<rparr>"
      and weight = "\<lparr>storage_type = kDefaultStorage, shape = [2, 1], data_dptr = 0, aux_handle = 0\<rparr>"
      and grad = "\<lparr>storage_type = kRowSparseStorage, shape = [2, 1], data_dptr = 2, aux_handle = 1\<rparr>"
      and mean = "\<lparr>storage_type = kDefaultStorage, shape = [2, 1], data_dptr = 4, aux_handle = 2\<rparr>"
      and mom = "\<lparr>storage_type = kDefaultStorage, shape = [2, 1], data_dptr = 4, aux_handle = 2\<rparr>"
      and var = "\<lparr>storage_type = kDefaultStorage, shape = [2, 1], data_dptr = 6, aux_handle = 3\<rparr>"
      and out = "\<lparr>storage_type = kDefaultStorage, shape = [2, 1], data_dptr = 0, aux_handle = 0\<rparr>"
      and req = kWriteInplace
      and s = "\<lparr>mem = (\<lambda>_. 0), aux = (\<lambda>_. [])(1 := [1])\<rparr>"
      and adam = "\<lparr>AdamParam.lr = 1/1000, beta1 = 9/10, beta2 = 999/1000, epsilon = 1/100000000, wd = 0, rescale_grad = 1, clip_gradient = - 1\<rparr>"
      and sgd = "\<lparr>SGDParam.lr = 1/10, wd = 0, rescale_grad = 1, clip_gradient = - 1\<rparr>"
      and sgdmom = "\<lparr>SGDMomParam.lr = 1/10, momentum = 9/10, wd = 0, rescale_grad = 1, clip_gradient = - 1\<rparr>"]
  by simp

text \<open>
  Claim C9, as stated, fails: the gradient buffer can hold its original values after the
  call. In the specification's own Adam scenario (\<open>rescale_grad = 1\<close>, \<open>wd = 0\<close>, the
  defaults) the value stored into the gradient cell is the value it had.
\<close>

theorem AdamUpdate_gradient_retained_counterexample:
  "AdamUpdate
     \<lparr>AdamParam.lr = 1/1000, beta1 = 9/10, beta2 = 999/1000, epsilon = 1/100000000, wd = 0, rescale_grad = 1, clip_gradient = - 1\<rparr>
     [\<lparr>dptr = 0, blob_shape = [1]\<rparr>, \<lparr>dptr = 1, blob_shape = [1]\<rparr>, \<lparr>dptr = 2, blob_shape = [1]\<rparr>, \<lparr>dptr = 3, blob_shape = [1]\<rparr>]
     [kWriteInplace] [\<lparr>dptr = 0, blob_shape = [1]\<rparr>] ((\<lambda>_. 0)(1 := 1)) 1
   = ((\<lambda>_. 0)(1 := 1)) 1"
  using AdamUpdate_cells(1)[where weight = "\<lparr>dptr = 0, blob_shape = [1]\<rparr>" and grad = "\<lparr>dptr = 1, blob_shape = [1]\<rparr>"
      and mean = "\<lparr>dptr = 2, blob_shape = [1]\<rparr>" and var = "\<lparr>dptr = 3, blob_shape = [1]\<rparr>" and out = "\<lparr>dptr = 0, blob_shape = [1]\<rparr>" and N = 1 and i = 0
      and req = kWriteInplace and h = "(\<lambda>_. 0)(1 := 1)"
      and param = "\<lparr>AdamParam.lr = 1/1000, beta1 = 9/10, beta2 = 999/1000, epsilon = 1/100000000, wd = 0, rescale_grad = 1, clip_gradient = - 1\<rparr>"]
  by (simp add: Size_def separate_def)

text \<open>
  Claim C9, amended. The dense entry points of Adam and of both RMSProp variants store
  \<open>rescale_grad * grad + wd * weight\<close> into the gradient tensor, in place, before the state
  and output statements; after the call every gradient cell holds that value (the original
  value only where the two coincide, as with \<open>rescale_grad = 1\<close> and \<open>wd = 0\<close>). The dense
  SGD and SGD-momentum entry points leave every gradient cell as it was. The gradient does
  not overlap another buffer of the call.
\<close>

theorem dense_gradient_buffer_after_call:
  "(i < Size (blob_shape weight)
      \<and> Size (blob_shape grad) = Size (blob_shape weight) \<and> Size (blob_shape mean) = Size (blob_shape weight)
      \<and> Size (blob_shape var) = Size (blob_shape weight) \<and> Size (blob_shape out) = Size (blob_shape weight)
      \<and> (dptr out = dptr weight \<or> separate (dptr out) (Size (blob_shape weight)) (dptr weight) (Size (blob_shape weight)))
      \<and> separate (dptr grad) (Size (blob_shape weight)) (dptr weight) (Size (blob_shape weight))
      \<and> separate (dptr grad) (Size (blob_shape weight)) (dptr mean) (Size (blob_shape weight))
      \<and> separate (dptr grad) (Size (blob_shape weight)) (dptr var) (Size (blob_shape weight))
      \<and> separate (dptr grad) (Size (blob_shape weight)) (dptr out) (Size (blob_shape weight))
      \<and> separate (dptr mean) (Size (blob_shape weight)) (dptr var) (Size (blob_shape weight))
      \<and> separate (dptr mean) (Size (blob_shape weight)) (dptr weight) (Size (blob_shape weight))
      \<and> separate (dptr mean) (Size (blob_shape weight)) (dptr out) (Size (blob_shape weight))
      \<and> separate (dptr var) (Size (blob_shape weight)) (dptr weight) (Size (blob_shape weight))
      \<and> separate (dptr var) (Size (blob_shape weight)) (dptr out) (Size (blob_shape weight))
    \<longrightarrow> AdamUpdate adam [weight, grad, mean, var] [req] [out] h (dptr grad + i) =
          AdamParam.rescale_grad adam * h (dptr grad + i)
            + AdamParam.wd adam * h (dptr weight + i))
   \<and> (i < Size (blob_shape weight)
      \<and> Size (blob_shape grad) = Size (blob_shape weight) \<and> Size (blob_shape state_n) = Size (blob_shape weight)
      \<and> Size (blob_shape out) = Size (blob_shape weight)
      \<and> separate (dptr grad) (Size (blob_shape weight)) (dptr weight) (Size (blob_shape weight))
      \<and> separate (dptr grad) (Size (blob_shape weight)) (dptr state_n) (Size (blob_shape weight))
      \<and> separate (dptr grad) (Size (blob_shape weight)) (dptr out) (Size (blob_shape weight))
    \<longrightarrow> RMSPropUpdate rmsprop [weight, grad, state_n] [req] [out] h (dptr grad + i) =
          RMSPropParam.rescale_grad rmsprop * h (dptr grad + i)
            + RMSPropParam.wd rmsprop * h (dptr weight + i))
   \<and> (i < Size (blob_shape weight)
      \<and> Size (blob_shape grad) = Size (blob_shape weight) \<and> Size (blob_shape state_n) = Size (blob_shape weight)
      \<and> Size (blob_shape state_g) = Size (blob_shape weight) \<and> Size (blob_shape delta) = Size (blob_shape weight)
      \<and> Size (blob_shape out) = Size (blob_shape weight)
      \<and> separate (dptr grad) (Size (blob_shape weight)) (dptr weight) (Size (blob_shape weight))
      \<and> separate (dptr grad) (Size (blob_shape weight)) (dptr state_n) (Size (blob_shape weight))
      \<and> separate (dptr grad) (Size (blob_shape weight)) (dptr state_g) (Size (blob_shape weight))
      \<and> separate (dptr grad) (Size (blob_shape weight)) (dptr delta) (Size (blob_shape weight))
      \<and> separate (dptr grad) (Size (blob_shape weight)) (dptr out) (Size (blob_shape weight))
    \<longrightarrow> RMSPropAlexUpdate rmspropalex [weight, grad, state_n, state_g, delta] [req] [out] h
            (dptr grad + i) =
          RMSPropAlexParam.rescale_grad rmspropalex * h (dptr grad + i)
            + RMSPropAlexParam.wd rmspropalex * h (dptr weight + i))
   \<and> (i < Size (blob_shape weight) \<and> separate (dptr out) (Size (blob_shape weight)) (dptr grad) (Size (blob_shape weight))
    \<longrightarrow> SGDUpdate sgd [weight, grad] [req] [out] h (dptr grad + i) = h (dptr grad + i))
   \<and> (i < Size (blob_shape weight) \<and> separate (dptr out) (Size (blob_shape weight)) (dptr grad) (Size (blob_shape weight))
      \<and> separate (dptr mom) (Size (blob_shape weight)) (dptr grad) (Size (blob_shape weight))
    \<longrightarrow> SGDMomUpdate sgdmom [weight, grad, mom] [req] [out] h (dptr grad + i) = h (dptr grad + i))"
proof (intro conjI impI)
  assume "i < Size (blob_shape weight)
      \<and> Size (blob_shape grad) = Size (blob_shape weight) \<and> Size (blob_shape mean) = Size (blob_shape weight)
      \<and> Size (blob_shape var) = Size (blob_shape weight) \<and> Size (blob_shape out) = Size (blob_shape weight)
      \<and> (dptr out = dptr weight \<or> separate (dptr out) (Size (blob_shape weight)) (dptr weight) (Size (blob_shape weight)))
      \<and> separate (dptr grad) (Size (blob_shape weight)) (dptr weight) (Size (blob_shape weight))
      \<and> separate (dptr grad) (Size (blob_shape weight)) (dptr mean) (Size (blob_shape weight))
      \<and> separate (dptr grad) (Size (blob_shape weight)) (dptr var) (Size (blob_shape weight))
      \<and> separate (dptr grad) (Size (blob_shape weight)) (dptr out) (Size (blob_shape weight))
      \<and> separate (dptr mean) (Size (blob_shape weight)) (dptr var) (Size (blob_shape weight))
      \<and> separate (dptr mean) (Size (blob_shape weight)) (dptr weight) (Size (blob_shape weight))
      \<and> separate (dptr mean) (Size (blob_shape weight)) (dptr out) (Size (blob_shape weight))
      \<and> separate (dptr var) (Size (blob_shape weight)) (dptr weight) (Size (blob_shape weight))
      \<and> separate (dptr var) (Size (blob_shape weight)) (dptr out) (Size (blob_shape weight))"
  then show "AdamUpdate adam [weight, grad, mean, var] [req] [out] h (dptr grad + i) =
          AdamParam.rescale_grad adam * h (dptr grad + i)
            + AdamParam.wd adam * h (dptr weight + i)"
    by (intro AdamUpdate_cells(1)[where N = "Size (blob_shape weight)"]; simp)
next
  assume "i < Size (blob_shape weight)
      \<and> Size (blob_shape grad) = Size (blob_shape weight) \<and> Size (blob_shape state_n) = Size (blob_shape weight)
      \<and> Size (blob_shape out) = Size (blob_shape weight)
      \<and> separate (dptr grad) (Size (blob_shape weight)) (dptr weight) (Size (blob_shape weight))
      \<and> separate (dptr grad) (Size (blob_shape weight)) (dptr state_n) (Size (blob_shape weight))
      \<and> separate (dptr grad) (Size (blob_shape weight)) (dptr out) (Size (blob_shape weight))"
  then show "RMSPropUpdate rmsprop [weight, grad, state_n] [req] [out] h (dptr grad + i) =
          RMSPropParam.rescale_grad rmsprop * h (dptr grad + i)
            + RMSPropParam.wd rmsprop * h (dptr weight + i)"
    by (intro RMSPropUpdate_grad[where N = "Size (blob_shape weight)"]; simp)
next
  assume "i < Size (blob_shape weight)
      \<and> Size (blob_shape grad) = Size (blob_shape weight) \<and> Size (blob_shape state_n) = Size (blob_shape weight)
      \<and> Size (blob_shape state_g) = Size (blob_shape weight) \<and> Size (blob_shape delta) = Size (blob_shape weight)
      \<and> Size (blob_shape out) = Size (blob_shape weight)
      \<and> separate (dptr grad) (Size (blob_shape weight)) (dptr weight) (Size (blob_shape weight))
      \<and> separate (dptr grad) (Size (blob_shape weight)) (dptr state_n) (Size (blob_shape weight))
      \<and> separate (dptr grad) (Size (blob_shape weight)) (dptr state_g) (Size (blob_shape weight))
      \<and> separate (dptr grad) (Size (blob_shape weight)) (dptr delta) (Size (blob_shape weight))
      \<and> separate (dptr grad) (Size (blob_shape weight)) (dptr out) (Size (blob_shape weight))"
  then show "RMSPropAlexUpdate rmspropalex [weight, grad, state_n, state_g, delta] [req] [out] h
            (dptr grad + i) =
          RMSPropAlexParam.rescale_grad rmspropalex * h (dptr grad + i)
            + RMSPropAlexParam.wd rmspropalex * h (dptr weight + i)"
    by (intro RMSPropAlexUpdate_grad[where N = "Size (blob_shape weight)"]; simp)
next
  assume "i < Size (blob_shape weight) \<and> separate (dptr out) (Size (blob_shape weight)) (dptr grad) (Size (blob_shape weight))"
  then show "SGDUpdate sgd [weight, grad] [req] [out] h (dptr grad + i) = h (dptr grad + i)"
    by (intro SGDUpdate_grad; simp)
next
  assume "i < Size (blob_shape weight) \<and> separate (dptr out) (Size (blob_shape weight)) (dptr grad) (Size (blob_shape weight))
      \<and> separate (dptr mom) (Size (blob_shape weight)) (dptr grad) (Size (blob_shape weight))"
  then show "SGDMomUpdate sgdmom [weight, grad, mom] [req] [out] h (dptr grad + i) = h (dptr grad + i)"
    by (intro SGDMomUpdate_grad; simp)
qed

theorem dense_gradient_buffer_after_call_witness:
  "(0 < Size [1] \<and> separate 1 1 0 1 \<and> separate 1 1 2 1 \<and> separate 1 1 3 1 \<and> separate 1 1 4 1
      \<and> separate 2 1 3 1 \<and> separate 2 1 0 1 \<and> separate 3 1 0 1 \<and> separate 0 1 1 1
      \<and> separate 2 1 1 1)
   \<and> AdamUpdate \<lparr>AdamParam.lr = 1/1000, beta1 = 9/10, beta2 = 999/1000, epsilon = 1/100000000, wd = 1/2, rescale_grad = 2, clip_gradient = - 1\<rparr>
        [\<lparr>dptr = 0, blob_shape = [1]\<rparr>, \<lparr>dptr = 1, blob_shape = [1]\<rparr>, \<lparr>dptr = 2, blob_shape = [1]\<rparr>, \<lparr>dptr = 3, blob_shape = [1]\<rparr>] [kWriteInplace] [\<lparr>dptr = 0, blob_shape = [1]\<rparr>]
        ((\<lambda>_. 0)(0 := 1, 1 := 3)) (1 + 0) = 13/2
   \<and> RMSPropUpdate \<lparr>RMSPropParam.lr = 1/10, gamma1 = 95/100, epsilon = 1/100000000, wd = 1/2, rescale_grad = 2, clip_gradient = - 1, clip_weights = - 1\<rparr>
        [\<lparr>dptr = 0, blob_shape = [1]\<rparr>, \<lparr>dptr = 1, blob_shape = [1]\<rparr>, \<lparr>dptr = 2, blob_shape = [1]\<rparr>] [kWriteInplace] [\<lparr>dptr = 0, blob_shape = [1]\<rparr>]
        ((\<lambda>_. 0)(0 := 1, 1 := 3)) (1 + 0) = 13/2
   \<and> RMSPropAlexUpdate \<lparr>RMSPropAlexParam.lr = 1/10, gamma1 = 95/100, gamma2 = 9/10, epsilon = 1/100000000, wd = 1/2, rescale_grad = 2, clip_gradient = - 1, clip_weights = - 1\<rparr>
        [\<lparr>dptr = 0, blob_shape = [1]\<rparr>, \<lparr>dptr = 1, blob_shape = [1]\<rparr>, \<lparr>dptr = 2, blob_shape = [1]\<rparr>, \<lparr>dptr = 3, blob_shape = [1]\<rparr>, \<lparr>dptr = 4, blob_shape = [1]\<rparr>] [kWriteInplace] [\<lparr>dptr = 0, blob_shape = [1]\<rparr>]
        ((\<lambda>_. 0)(0 := 1, 1 := 3)) (1 + 0) = 13/2
   \<and> SGDUpdate \<lparr>SGDParam.lr = 1/10, wd = 1/2, rescale_grad = 2, clip_gradient = - 1\<rparr>
        [\<lparr>dptr = 0, blob_shape = [1]\<rparr>, \<lparr>dptr = 1, blob_shape = [1]\<rparr>] [kWriteInplace] [\<lparr>dptr = 0, blob_shape = [1]\<rparr>]
        ((\<lambda>_. 0)(0 := 1, 1 := 3)) (1 + 0) = 3
   \<and> SGDMomUpdate \<lparr>SGDMomParam.lr = 1/10, momentum = 9/10, wd = 1/2, rescale_grad = 2, clip_gradient = - 1\<rparr>
        [\<lparr>dptr = 0, blob_shape = [1]\<rparr>, \<lparr>dptr = 1, blob_shape = [1]\<rparr>, \<lparr>dptr = 2, blob_shape = [1]\<rparr>] [kWriteInplace] [\<lparr>dptr = 0, blob_shape = [1]\<rparr>]
        ((\<lambda>_. 0)(0 := 1, 1 := 3)) (1 + 0) = 3"
  using dense_gradient_buffer_after_call[where i = 0 and weight = "\<lparr>dptr = 0, blob_shape = [1]\<rparr>"
      and grad = "\<lparr>dptr = 1, blob_shape = [1]\<rparr>" and mean = "\<lparr>dptr = 2, blob_shape = [1]\<rparr>" and var = "\<lparr>dptr = 3, blob_shape = [1]\<rparr>" and out = "\<lparr>dptr = 0, blob_shape = [1]\<rparr>"
      and state_n = "\<lparr>dptr = 2, blob_shape = [1]\<rparr>" and state_g = "\<lparr>dptr = 3, blob_shape = [1]\<rparr>" and delta = "\<lparr>dptr = 4, blob_shape = [1]\<rparr>"
      and mom = "\<lparr>dptr = 2, blob_shape = [1]\<rparr>" and req = kWriteInplace and h = "(\<lambda>_. 0)(0 := 1, 1 := 3)"
      and adam = "\<lparr>AdamParam.lr = 1/1000, beta1 = 9/10, beta2 = 999/1000, epsilon = 1/100000000, wd = 1/2, rescale_grad = 2, clip_gradient = - 1\<rparr>"
      and rmsprop = "\<lparr>RMSPropParam.lr = 1/10, gamma1 = 95/100, epsilon = 1/100000000, wd = 1/2, rescale_grad = 2, clip_gradient = - 1, clip_weights = - 1\<rparr>"
      and rmspropalex = "\<lparr>RMSPropAlexParam.lr = 1/10, gamma1 = 95/100, gamma2 = 9/10, epsilon = 1/100000000, wd = 1/2, rescale_grad = 2, clip_gradient = - 1, clip_weights = - 1\<rparr>"
      and sgd = "\<lparr>SGDParam.lr = 1/10, wd = 1/2, rescale_grad = 2, clip_gradient = - 1\<rparr>"
      and sgdmom = "\<lparr>SGDMomParam.lr = 1/10, momentum = 9/10, wd = 1/2, rescale_grad = 2, clip_gradient = - 1\<rparr>"]
  by (simp add: separate_def Size_def)

text \<open>
  Claim C10. The dense SGD-momentum kernels, standard and mixed-precision, update the
  momentum in place at every index under every write mode, the mixed-precision kernel the
  master weight (\<^verbatim>\<open>weight32\<close>, here \<open>master\<close>) as well. Under the skip mode \<open>kNullOp\<close> the output is untouched
  and the state is updated all the same: the dense path has no early return, whereas the
  sparse driver returns at once under \<open>kNullOp\<close>.
\<close>

theorem SGDMom_dense_state_updated_under_every_req:
  "(i < Size (blob_shape weight)
      \<and> (dptr out = dptr weight
           \<or> separate (dptr out) (Size (blob_shape weight)) (dptr weight) (Size (blob_shape weight)))
      \<and> separate (dptr out) (Size (blob_shape weight)) (dptr grad) (Size (blob_shape weight))
      \<and> separate (dptr mom) (Size (blob_shape weight)) (dptr out) (Size (blob_shape weight))
      \<and> separate (dptr mom) (Size (blob_shape weight)) (dptr weight) (Size (blob_shape weight))
      \<and> separate (dptr mom) (Size (blob_shape weight)) (dptr grad) (Size (blob_shape weight))
    \<longrightarrow>
      (let h' = SGDMomUpdate param [weight, grad, mom] [req] [out] h
       in h' (dptr mom + i) =
            SGDMomParam.momentum param * h (dptr mom + i)
              - SGDMomParam.lr param * SGDMomParam.wd param * h (dptr weight + i)
              - SGDMomParam.lr param
                * effective_gradient (SGDMomParam.rescale_grad param)
                    (SGDMomParam.clip_gradient param) (h (dptr grad + i))
          \<and> (req = kNullOp \<longrightarrow> h' (dptr out + i) = h (dptr out + i))))
   \<and> (i < Size (blob_shape weight)
      \<and> separate (dptr out) (Size (blob_shape weight)) (dptr grad) (Size (blob_shape weight))
      \<and> separate (dptr mom) (Size (blob_shape weight)) (dptr out) (Size (blob_shape weight))
      \<and> separate (dptr mom) (Size (blob_shape weight)) (dptr master) (Size (blob_shape weight))
      \<and> separate (dptr mom) (Size (blob_shape weight)) (dptr grad) (Size (blob_shape weight))
      \<and> separate (dptr master) (Size (blob_shape weight)) (dptr out) (Size (blob_shape weight))
      \<and> separate (dptr master) (Size (blob_shape weight)) (dptr grad) (Size (blob_shape weight))
    \<longrightarrow>
      (let h' = MP_SGDMomUpdate to_DType param [weight, grad, mom, master] [req] [out] h;
           mom' = SGDMomParam.momentum param * h (dptr mom + i)
                    - SGDMomParam.lr param * SGDMomParam.wd param * h (dptr master + i)
                    - SGDMomParam.lr param
                      * effective_gradient (SGDMomParam.rescale_grad param)
                          (SGDMomParam.clip_gradient param) (h (dptr grad + i))
       in h' (dptr mom + i) = mom'
          \<and> h' (dptr master + i) = h (dptr master + i) + mom'
          \<and> (req = kNullOp \<longrightarrow> h' (dptr out + i) = h (dptr out + i))))
   \<and> SGDMomUpdateDnsRspDnsImpl param weight sparse_grad mom kNullOp out s = Done s"
proof (intro conjI impI)
  assume A: "i < Size (blob_shape weight)
      \<and> (dptr out = dptr weight
           \<or> separate (dptr out) (Size (blob_shape weight)) (dptr weight) (Size (blob_shape weight)))
      \<and> separate (dptr out) (Size (blob_shape weight)) (dptr grad) (Size (blob_shape weight))
      \<and> separate (dptr mom) (Size (blob_shape weight)) (dptr out) (Size (blob_shape weight))
      \<and> separate (dptr mom) (Size (blob_shape weight)) (dptr weight) (Size (blob_shape weight))
      \<and> separate (dptr mom) (Size (blob_shape weight)) (dptr grad) (Size (blob_shape weight))"
  then show "let h' = SGDMomUpdate param [weight, grad, mom] [req] [out] h
       in h' (dptr mom + i) =
            SGDMomParam.momentum param * h (dptr mom + i)
              - SGDMomParam.lr param * SGDMomParam.wd param * h (dptr weight + i)
              - SGDMomParam.lr param
                * effective_gradient (SGDMomParam.rescale_grad param)
                    (SGDMomParam.clip_gradient param) (h (dptr grad + i))
          \<and> (req = kNullOp \<longrightarrow> h' (dptr out + i) = h (dptr out + i))"
    by (simp add: SGDMomUpdate_def Let_def Launch_SGDMomKernel KERNEL_ASSIGN_def)
next
  assume B: "i < Size (blob_shape weight)
      \<and> separate (dptr out) (Size (blob_shape weight)) (dptr grad) (Size (blob_shape weight))
      \<and> separate (dptr mom) (Size (blob_shape weight)) (dptr out) (Size (blob_shape weight))
      \<and> separate (dptr mom) (Size (blob_shape weight)) (dptr master) (Size (blob_shape weight))
      \<and> separate (dptr mom) (Size (blob_shape weight)) (dptr grad) (Size (blob_shape weight))
      \<and> separate (dptr master) (Size (blob_shape weight)) (dptr out) (Size (blob_shape weight))
      \<and> separate (dptr master) (Size (blob_shape weight)) (dptr grad) (Size (blob_shape weight))"
  then show "let h' = MP_SGDMomUpdate to_DType param [weight, grad, mom, master] [req] [out] h;
           mom' = SGDMomParam.momentum param * h (dptr mom + i)
                    - SGDMomParam.lr param * SGDMomParam.wd param * h (dptr master + i)
                    - SGDMomParam.lr param
                      * effective_gradient (SGDMomParam.rescale_grad param)
                          (SGDMomParam.clip_gradient param) (h (dptr grad + i))
       in h' (dptr mom + i) = mom'
          \<and> h' (dptr master + i) = h (dptr master + i) + mom'
          \<and> (req = kNullOp \<longrightarrow> h' (dptr out + i) = h (dptr out + i))"
    by (simp add: MP_SGDMomUpdate_def Let_def Launch_MP_SGDMomKernel KERNEL_ASSIGN_def)
next
  show "SGDMomUpdateDnsRspDnsImpl param weight sparse_grad mom kNullOp out s = Done s"
    by (simp add: SGDMomUpdateDnsRspDnsImpl_def)
qed

theorem SGDMom_dense_state_updated_under_every_req_witness:
  "(0 < Size [1] \<and> separate 4 1 0 1 \<and> separate 4 1 1 1 \<and> separate 2 1 4 1 \<and> separate 2 1 0 1
      \<and> separate 2 1 1 1 \<and> separate 2 1 3 1 \<and> separate 3 1 4 1 \<and> separate 3 1 1 1)
   \<and> SGDMomUpdate
         \<lparr>SGDMomParam.lr = 1/10, momentum = 9/10, wd = 1/100, rescale_grad = 1, clip_gradient = - 1\<rparr>
         [\<lparr>dptr = 0, blob_shape = [1]\<rparr>, \<lparr>dptr = 1, blob_shape = [1]\<rparr>, \<lparr>dptr = 2, blob_shape = [1]\<rparr>]
         [kNullOp] [\<lparr>dptr = 4, blob_shape = [1]\<rparr>]
         ((\<lambda>_. 0)(0 := 1, 1 := 1/2, 2 := 1/4, 3 := 1, 4 := 7)) (2 + 0) = 174/1000
   \<and> SGDMomUpdate
         \<lparr>SGDMomParam.lr = 1/10, momentum = 9/10, wd = 1/100, rescale_grad = 1, clip_gradient = - 1\<rparr>
         [\<lparr>dptr = 0, blob_shape = [1]\<rparr>, \<lparr>dptr = 1, blob_shape = [1]\<rparr>, \<lparr>dptr = 2, blob_shape = [1]\<rparr>]
         [kNullOp] [\<lparr>dptr = 4, blob_shape = [1]\<rparr>]
         ((\<lambda>_. 0)(0 := 1, 1 := 1/2, 2 := 1/4, 3 := 1, 4 := 7)) (4 + 0) = 7
   \<and> MP_SGDMomUpdate (\<lambda>x. x)
         \<lparr>SGDMomParam.lr = 1/10, momentum = 9/10, wd = 1/100, rescale_grad = 1, clip_gradient = - 1\<rparr>
         [\<lparr>dptr = 0, blob_shape = [1]\<rparr>, \<lparr>dptr = 1, blob_shape = [1]\<rparr>, \<lparr>dptr = 2, blob_shape = [1]\<rparr>,
          \<lparr>dptr = 3, blob_shape = [1]\<rparr>]
         [kNullOp] [\<lparr>dptr = 4, blob_shape = [1]\<rparr>]
         ((\<lambda>_. 0)(0 := 1, 1 := 1/2, 2 := 1/4, 3 := 1, 4 := 7)) (2 + 0) = 174/1000
   \<and> MP_SGDMomUpdate (\<lambda>x. x)
         \<lparr>SGDMomParam.lr = 1/10, momentum = 9/10, wd = 1/100, rescale_grad = 1, clip_gradient = - 1\<rparr>
         [\<lparr>dptr = 0, blob_shape = [1]\<rparr>, \<lparr>dptr = 1, blob_shape = [1]\<rparr>, \<lparr>dptr = 2, blob_shape = [1]\<rparr>,
          \<lparr>dptr = 3, blob_shape = [1]\<rparr>]
         [kNullOp] [\<lparr>dptr = 4, blob_shape = [1]\<rparr>]
         ((\<lambda>_. 0)(0 := 1, 1 := 1/2, 2 := 1/4, 3 := 1, 4 := 7)) (3 + 0) = 1174/1000
   \<and> MP_SGDMomUpdate (\<lambda>x. x)
         \<lparr>SGDMomParam.lr = 1/10, momentum = 9/10, wd = 1/100, rescale_grad = 1, clip_gradient = - 1\<rparr>
         [\<lparr>dptr = 0, blob_shape = [1]\<rparr>, \<lparr>dptr = 1, blob_shape = [1]\<rparr>, \<lparr>dptr = 2, blob_shape = [1]\<rparr>,
          \<lparr>dptr = 3, blob_shape = [1]\<rparr>]
         [kNullOp] [\<lparr>dptr = 4, blob_shape = [1]\<rparr>]
         ((\<lambda>_. 0)(0 := 1, 1 := 1/2, 2 := 1/4, 3 := 1, 4 := 7)) (4 + 0) = 7"
  using SGDMom_dense_state_updated_under_every_req[where i = 0
      and weight = "\<lparr>dptr = 0, blob_shape = [1]\<rparr>" and grad = "\<lparr>dptr = 1, blob_shape = [1]\<rparr>"
      and mom = "\<lparr>dptr = 2, blob_shape = [1]\<rparr>" and master = "\<lparr>dptr = 3, blob_shape = [1]\<rparr>"
      and out = "\<lparr>dptr = 4, blob_shape = [1]\<rparr>" and req = kNullOp and to_DType = "\<lambda>x. x"
      and h = "(\<lambda>_. 0)(0 := 1, 1 := 1/2, 2 := 1/4, 3 := 1, 4 := 7)"
      and param = "\<lparr>SGDMomParam.lr = 1/10, momentum = 9/10, wd = 1/100, rescale_grad = 1,
                     clip_gradient = - 1\<rparr>"]
  by (simp add: separate_def Size_def effective_gradient_def clipped_def Let_def eval_nat_numeral)

end
